theory Spec2Isabelle
  imports Complex_Main "HOL-Library.Sublist" "HOL-Library.AList"
begin

chapter \<open>The model\<close>

section \<open>JavaScript values\<close>

text \<open>
  The values that travel through payloads, alternatives and suggestions. An object is a
  finite map from the names of its own properties to their values; an own property whose
  value is \<open>undefined\<close> is there with \<open>JUndefined\<close> (JSON serialisation leaves it out), a
  name without own property is \<open>None\<close>. Spreading \<open>{...a, ...b}\<close> is \<open>a ++ b\<close>.
\<close>

datatype jsval =
    JUndefined
  | JNull
  | JBool bool
  | JNum int
  | JStr string
  | JArr "jsval list"
  | JObj "(string \<times> jsval) list"

type_synonym jsobject = "string \<rightharpoonup> jsval"

fun truthy :: "jsval \<Rightarrow> bool" where
  "truthy JUndefined = False"
| "truthy JNull = False"
| "truthy (JBool b) = b"
| "truthy (JNum n) = (n \<noteq> 0)"
| "truthy (JStr s) = (s \<noteq> [])"
| "truthy (JArr xs) = True"
| "truthy (JObj ps) = True"

text \<open>The truthiness of \<open>obj.name\<close> read from a payload (no payload key is inherited).\<close>

definition truthy_prop :: "jsval option \<Rightarrow> bool" where
  "truthy_prop v = (case v of None \<Rightarrow> False | Some x \<Rightarrow> truthy x)"

text \<open>\<open>a || b\<close> on values that are objects or missing: the first one present.\<close>

definition or_else :: "'a option \<Rightarrow> 'a option \<Rightarrow> 'a option" where
  "or_else a b = (case a of Some x \<Rightarrow> Some x | None \<Rightarrow> b)"

text \<open>\<open>a || b || ...\<close> on strings that may be missing: the first non-empty one, if any.\<close>

fun first_truthy :: "string option list \<Rightarrow> string option" where
  "first_truthy [] = None"
| "first_truthy (None # xs) = first_truthy xs"
| "first_truthy (Some s # xs) = (if s \<noteq> [] then Some s else first_truthy xs)"

text \<open>\<open>a || b\<close> with a default that is always there.\<close>

definition string_or :: "string option \<Rightarrow> string \<Rightarrow> string" where
  "string_or a b = (case first_truthy [a] of Some z \<Rightarrow> z | None \<Rightarrow> b)"

text \<open>
  The properties every plain object inherits from \<open>Object.prototype\<close>: the accessor
  \<open>__proto__\<close> and eleven methods. A read \<open>obj[name]\<close> of one of these names, on an object
  without own property of that name, yields the prototype or the method and not
  \<open>undefined\<close>. An assignment \<open>obj[name] = value\<close> adds an own property, except under
  \<open>__proto__\<close> on an object without own property of that name: there it adds none (an
  object value becomes the prototype, any other value is dropped).
\<close>

definition Object_prototype_methods :: "string list" where
  "Object_prototype_methods =
     [''constructor'', ''__defineGetter__'', ''__defineSetter__'', ''hasOwnProperty'',
      ''__lookupGetter__'', ''__lookupSetter__'', ''isPrototypeOf'', ''propertyIsEnumerable'',
      ''toString'', ''valueOf'', ''toLocaleString'']"

definition inherited_name :: "string \<Rightarrow> bool" where
  "inherited_name k = (k = ''__proto__'' \<or> k \<in> set Object_prototype_methods)"


section \<open>Form validation engine (CustomFormRenderer)\<close>

text \<open>
  An answer is what the renderer's inputs store: a string (text, dropdown, choice, date
  inputs) or an array of strings (checkboxes). \<open>Other\<close> is any other truthy value that is
  not an array, an object or a function, by the string \<open>String()\<close> makes of it. The
  answers object is a plain object, here the map of its own properties.
\<close>

datatype answer = Text string | Choices "string list" | Other string

type_synonym answers = "string \<rightharpoonup> answer"

record condition =
  fieldId :: string
  operator :: string
  cond_value :: string

record conditional =
  cond_show :: bool
  conditions :: "condition list"

record field =
  field_id :: string
  field_type :: string
  required :: bool
  conditional :: "conditional option"

text \<open>\<open>Array.prototype.join\<close> with its default separator, as \<open>String(array)\<close> uses it.\<close>

fun js_join :: "string list \<Rightarrow> string" where
  "js_join [] = []"
| "js_join [x] = x"
| "js_join (x # y # ys) = x @ '','' @ js_join (y # ys)"

text \<open>
  \<open>answers?.[name]\<close>: the own property if there is one, else what the object inherits
  under that name: under \<open>__proto__\<close> the prototype object, under \<open>constructor\<close> the
  function \<open>Object\<close>, under a method's name that method. The text of a built-in function
  is given as V8 prints it.
\<close>

definition native_function :: "string \<Rightarrow> string" where
  "native_function fname = ''function '' @ fname @ ''() { [native code] }''"

definition inherited :: "string \<Rightarrow> answer option" where
  "inherited k =
     (if k = ''__proto__'' then Some (Other ''[object Object]'')
      else if k = ''constructor'' then Some (Other (native_function ''Object''))
      else if k \<in> set Object_prototype_methods then Some (Other (native_function k))
      else None)"

definition answer_of :: "answers \<Rightarrow> string \<Rightarrow> answer option" where
  "answer_of answers k = (case answers k of Some v \<Rightarrow> Some v | None \<Rightarrow> inherited k)"

text \<open>\<open>!value\<close>: undefined and the empty string are falsy, everything else is truthy.\<close>

definition falsy :: "answer option \<Rightarrow> bool" where
  "falsy value =
     (case value of
        None \<Rightarrow> True
      | Some (Text s) \<Rightarrow> s = []
      | Some (Choices xs) \<Rightarrow> False
      | Some (Other s) \<Rightarrow> False)"

definition to_String :: "answer \<Rightarrow> string" where
  "to_String value = (case value of Text s \<Rightarrow> s | Choices xs \<Rightarrow> js_join xs | Other s \<Rightarrow> s)"

text \<open>\<open>String(answer || '')\<close>.\<close>

definition String_or_empty :: "answer option \<Rightarrow> string" where
  "String_or_empty answer = (if falsy answer then [] else to_String (the answer))"

text \<open>
  \<open>toLowerCase\<close> on the ASCII letters; the strings of this model are byte strings and
  other characters are left as they are.
\<close>

definition char_code :: "char \<Rightarrow> nat" where
  "char_code c = of_char c"

definition lower_char :: "char \<Rightarrow> char" where
  "lower_char c =
     (if 65 \<le> char_code c \<and> char_code c \<le> 90 then char_of (char_code c + 32) else c)"

definition toLowerCase :: "string \<Rightarrow> string" where
  "toLowerCase s = map lower_char s"

text \<open>One condition of a conditional rule: the body of the \<open>every\<close> callback.\<close>

definition condition_holds :: "answers \<Rightarrow> condition \<Rightarrow> bool" where
  "condition_holds answers c =
     (let answer = answer_of answers (fieldId c) in
      if operator c = ''equals'' then
        (case answer of
           Some (Choices xs) \<Rightarrow> cond_value c \<in> set xs
         | _ \<Rightarrow> String_or_empty answer = cond_value c)
      else if operator c = ''not_equals'' then
        (case answer of
           Some (Choices xs) \<Rightarrow> cond_value c \<notin> set xs
         | _ \<Rightarrow> String_or_empty answer \<noteq> cond_value c)
      else if operator c = ''contains'' then
        sublist (toLowerCase (cond_value c)) (toLowerCase (String_or_empty answer))
      else if operator c = ''is_empty'' then
        (case answer of
           Some (Choices xs) \<Rightarrow> length xs = 0
         | _ \<Rightarrow> falsy answer)
      else if operator c = ''is_not_empty'' then
        (case answer of
           Some (Choices xs) \<Rightarrow> length xs > 0
         | _ \<Rightarrow> \<not> falsy answer)
      else True)"

definition isFieldVisible :: "field \<Rightarrow> answers \<Rightarrow> bool" where
  "isFieldVisible field answers =
     (case conditional field of
        None \<Rightarrow> True
      | Some rule \<Rightarrow>
          if \<not> cond_show rule then True
          else if length (conditions rule) = 0 then True
          else list_all (condition_holds answers) (conditions rule))"

text \<open>
  JavaScript's \<open>\s\<close> over byte strings: tab, line feed, vertical tab, form feed,
  carriage return, space and the no-break space.
\<close>

definition is_space :: "char \<Rightarrow> bool" where
  "is_space c = (char_code c \<in> {9, 10, 11, 12, 13, 32, 160})"

definition is_digit :: "char \<Rightarrow> bool" where
  "is_digit c = (48 \<le> char_code c \<and> char_code c \<le> 57)"

text \<open>
  \<^verbatim>\<open>/^[^\s@]+@[^\s@]+\.[^\s@]+$/\<close>: the local part runs to the first \<open>@\<close>; what follows it
  has no \<open>@\<close> and no white space, and a dot strictly inside it.
\<close>

definition plain_char :: "char \<Rightarrow> bool" where
  "plain_char c = (\<not> is_space c \<and> c \<noteq> CHR ''@'')"

definition emailRegex_test :: "string \<Rightarrow> bool" where
  "emailRegex_test s =
     (let local_part = takeWhile (\<lambda>c. c \<noteq> CHR ''@'') s;
          rest = drop (length local_part) s
      in case rest of
           [] \<Rightarrow> False
         | _ # domain_part \<Rightarrow>
             local_part \<noteq> [] \<and> list_all plain_char local_part
           \<and> list_all plain_char domain_part
           \<and> CHR ''.'' \<in> set (butlast (tl domain_part)))"

text \<open>\<^verbatim>\<open>/^[\d\s\-+()]+$/\<close>.\<close>

definition phone_char :: "char \<Rightarrow> bool" where
  "phone_char c = (is_digit c \<or> is_space c \<or> c \<in> {CHR ''-'', CHR ''+'', CHR ''('', CHR '')''})"

definition phoneRegex_test :: "string \<Rightarrow> bool" where
  "phoneRegex_test s = (s \<noteq> [] \<and> list_all phone_char s)"

text \<open>
  The errors object, by its own properties: one message per field id.
  \<open>errors[field.id] = message\<close> adds or overwrites the property, except under \<open>__proto__\<close>,
  where a string assigned is dropped. \<open>parses_as_url\<close> stands for the platform's
  \<open>new URL(value)\<close> not throwing.
\<close>

type_synonym form_errors = "(string \<times> string) list"

definition set_error :: "string \<Rightarrow> string \<Rightarrow> form_errors \<Rightarrow> form_errors" where
  "set_error k message errors =
     (if k = ''__proto__'' \<and> map_of errors k = None then errors else AList.update k message errors)"

definition validate_field ::
  "(string \<Rightarrow> bool) \<Rightarrow> answers \<Rightarrow> form_errors \<Rightarrow> field \<Rightarrow> form_errors" where
  "validate_field parses_as_url answers errors field =
     (if \<not> isFieldVisible field answers then errors
      else
        (let value = answer_of answers (field_id field) in
         if required field
            \<and> (falsy value \<or> (case value of Some (Choices xs) \<Rightarrow> length xs = 0 | _ \<Rightarrow> False)
                 \<or> value = Some (Text []))
         then set_error (field_id field) ''This field is required'' errors
         else if falsy value then errors
         else
           (let text = to_String (the value);
                errors1 =
                  (if field_type field = ''email'' \<and> \<not> emailRegex_test text
                   then set_error (field_id field) ''Please enter a valid email address'' errors
                   else errors);
                errors2 =
                  (if field_type field = ''url'' \<and> \<not> parses_as_url text
                   then set_error (field_id field) ''Please enter a valid URL'' errors1
                   else errors1)
            in if field_type field = ''phone'' \<and> \<not> phoneRegex_test text
               then set_error (field_id field) ''Please enter a valid phone number'' errors2
               else errors2)))"

record validation_result =
  isValid :: bool
  errors :: form_errors

text \<open>\<open>formSchema?.fields || []\<close>: a missing schema is the empty list of fields.\<close>

definition validateFormAnswers ::
  "(string \<Rightarrow> bool) \<Rightarrow> field list \<Rightarrow> answers \<Rightarrow> validation_result" where
  "validateFormAnswers parses_as_url schema_fields answers =
     (let errs = foldl (validate_field parses_as_url answers) [] schema_fields
      in \<lparr>isValid = (length errs = 0), errors = errs\<rparr>)"

section \<open>Identity utilities (bookingSource)\<close>











section \<open>Scheduling API client\<close>

text \<open>
  \<open>calculateBackoff\<close>; \<open>rnd\<close> is the value \<open>Math.random()\<close> returns, a number in [0, 1).
  Delays are milliseconds, computed here in the reals: the rounding of the floating-point
  product and sum is left out.
\<close>

definition calculateBackoff :: "nat \<Rightarrow> real \<Rightarrow> real \<Rightarrow> real \<Rightarrow> real" where
  "calculateBackoff attempt baseDelay maxDelay rnd =
     (let delay = min (baseDelay * 2 ^ attempt) maxDelay in delay + rnd * 350)"

text \<open>
  A \<open>Retry-After\<close> header value, by what the platform's parsers make of it:
  \<open>Number.parseInt(value, 10)\<close> and \<open>new Date(value).getTime()\<close>, \<open>None\<close> for NaN.
\<close>

record retry_after_header =
  parsed_int :: "int option"
  parsed_date :: "int option"

text \<open>\<open>value\<close> is \<open>None\<close> for a missing or empty header; \<open>now\<close> is \<open>Date.now()\<close>.\<close>

definition parseRetryAfterHeader :: "retry_after_header option \<Rightarrow> int \<Rightarrow> int option" where
  "parseRetryAfterHeader value now =
     (case value of
        None \<Rightarrow> None
      | Some h \<Rightarrow>
          (case parsed_int h of
             Some asSeconds \<Rightarrow>
               if asSeconds > 0 then Some asSeconds
               else (case parsed_date h of
                       None \<Rightarrow> None
                     | Some asDate \<Rightarrow>
                         (let remainingMs = asDate - now
                          in if remainingMs > 0 then Some (- ((- remainingMs) div 1000)) else None))
           | None \<Rightarrow>
               (case parsed_date h of
                  None \<Rightarrow> None
                | Some asDate \<Rightarrow>
                    (let remainingMs = asDate - now
                     in if remainingMs > 0 then Some (- ((- remainingMs) div 1000)) else None))))"

text \<open>A response: its status, the fields of its JSON body that the client reads, its header.\<close>

record response =
  status :: int
  data_message :: "string option"
  data_error :: "string option"
  data_code :: "string option"
  data_retryAfter :: "int option"
  data_alternatives :: "jsobject list"
  data_suggestions :: "jsobject list"
  data :: jsobject
  retry_after :: "retry_after_header option"

definition response_ok :: "response \<Rightarrow> bool" where
  "response_ok r = (200 \<le> status r \<and> status r \<le> 299)"

text \<open>
  The structured error. A failed \<open>fetch\<close> throws an error without status, code or
  retry-after value.
\<close>

record api_error =
  err_message :: string
  err_status :: "int option"
  err_code :: "string option"
  err_retryAfter :: "int option"
  err_alternatives :: "jsobject list"
  err_suggestions :: "jsobject list"

definition network_error :: api_error where
  "network_error =
     \<lparr>err_message = ''Failed to fetch'', err_status = None, err_code = None, err_retryAfter = None,
      err_alternatives = [], err_suggestions = []\<rparr>"

text \<open>
  \<open>data?.message || data?.error || ...\<close>: the first of the two that is a non-empty
  string. \<open>data?.retryAfter || parseRetryAfterHeader(...)\<close>: a body value of 0 is falsy.
\<close>

definition normalizeError :: "response \<Rightarrow> int \<Rightarrow> api_error" where
  "normalizeError r now =
     \<lparr>err_message =
        (case first_truthy [data_message r, data_error r] of
           Some m \<Rightarrow> m
         | None \<Rightarrow> if status r = 429 then ''Too many requests. Please try again in a moment.''
                   else ''Request failed''),
      err_status = Some (status r),
      err_code = data_code r,
      err_retryAfter =
        (case data_retryAfter r of
           Some n \<Rightarrow> if n \<noteq> 0 then Some n else parseRetryAfterHeader (retry_after r) now
         | None \<Rightarrow> parseRetryAfterHeader (retry_after r) now),
      err_alternatives = data_alternatives r,
      err_suggestions = data_suggestions r\<rparr>"

record retry_config =
  maxRetries :: nat
  retryOn429 :: bool

definition default_retryConfig :: retry_config where
  "default_retryConfig = \<lparr>maxRetries = 2, retryOn429 = True\<rparr>"

text \<open>
  What the world does at each attempt (attempts count from 0): what \<open>fetch\<close> yields,
  the clock, and the random number drawn if a backoff is computed.
\<close>

datatype fetch_outcome = NetworkFailure | Responded response

record network =
  outcome :: "nat \<Rightarrow> fetch_outcome"
  clock :: "nat \<Rightarrow> int"
  random_draw :: "nat \<Rightarrow> real"

text \<open>
  The result of a request: the data or the thrown error, the waits handed to \<open>sleep\<close> in
  order, and the number of \<open>fetch\<close> calls made.
\<close>

record request_result =
  settled :: "api_error + jsobject"
  sleeps :: "real list"
  fetches :: nat

definition isClientError :: "api_error \<Rightarrow> bool" where
  "isClientError error =
     (case err_status error of
        None \<Rightarrow> False
      | Some s \<Rightarrow> s \<ge> 400 \<and> s < 500 \<and> s \<noteq> 429)"

text \<open>The wait before retrying a 429: \<open>error.retryAfter ? error.retryAfter * 1000 : calculateBackoff(attempt)\<close>.\<close>

definition wait_for_429 :: "api_error \<Rightarrow> nat \<Rightarrow> real \<Rightarrow> real" where
  "wait_for_429 error attempt rnd =
     (case err_retryAfter error of
        Some s \<Rightarrow> if s \<noteq> 0 then real_of_int s * 1000 else calculateBackoff attempt 1000 12000 rnd
      | None \<Rightarrow> calculateBackoff attempt 1000 12000 rnd)"

text \<open>
  The retry loop of \<open>request\<close>. An error thrown in the \<open>try\<close> block, by \<open>fetch\<close> or for a
  response that is not ok, lands in the \<open>catch\<close> block of the same iteration.
\<close>

function request_loop ::
  "retry_config \<Rightarrow> network \<Rightarrow> nat \<Rightarrow> api_error option \<Rightarrow> real list \<Rightarrow> request_result" where
  "request_loop cfg net attempt lastError slept =
     (if attempt \<le> maxRetries cfg then
        (let thrown =
               (case outcome net attempt of
                  NetworkFailure \<Rightarrow> Some network_error
                | Responded r \<Rightarrow>
                    if response_ok r then None
                    else Some (normalizeError r (clock net attempt)))
         in case thrown of
              None \<Rightarrow>
                \<lparr>settled = Inr (case outcome net attempt of Responded r \<Rightarrow> data r | NetworkFailure \<Rightarrow> Map.empty),
                 sleeps = slept, fetches = attempt + 1\<rparr>
            | Some error \<Rightarrow>
                if err_status error = Some 429 \<and> retryOn429 cfg \<and> attempt < maxRetries cfg
                then request_loop cfg net (attempt + 1) lastError
                       (slept @ [wait_for_429 error attempt (random_draw net attempt)])
                else if isClientError error
                then \<lparr>settled = Inl error, sleeps = slept, fetches = attempt + 1\<rparr>
                else if attempt < maxRetries cfg
                then request_loop cfg net (attempt + 1) (Some error)
                       (slept @ [calculateBackoff attempt 1000 12000 (random_draw net attempt)])
                else \<lparr>settled = Inl error, sleeps = slept, fetches = attempt + 1\<rparr>)
      else
        \<lparr>settled = Inl (case lastError of
                          Some e \<Rightarrow> e
                        | None \<Rightarrow> network_error\<lparr>err_message := ''Request failed''\<rparr>),
         sleeps = slept, fetches = attempt\<rparr>)"
  by pat_completeness auto
termination
  by (relation "measure (\<lambda>(cfg, net, attempt, lastError, slept). maxRetries cfg + 1 - attempt)") auto

declare request_loop.simps [simp del]

definition offline_error :: api_error where
  "offline_error =
     \<lparr>err_message = ''You appear to be offline. Check your internet connection and try again.'',
      err_status = Some 0, err_code = Some ''OFFLINE'', err_retryAfter = None,
      err_alternatives = [], err_suggestions = []\<rparr>"

text \<open>\<open>request\<close>: \<open>onLine\<close> is false exactly when \<open>navigator.onLine === false\<close>.\<close>

definition request :: "retry_config \<Rightarrow> bool \<Rightarrow> network \<Rightarrow> request_result" where
  "request retryConfig onLine net =
     (if \<not> onLine then \<lparr>settled = Inl offline_error, sleeps = [], fetches = 0\<rparr>
      else request_loop retryConfig net 0 None [])"

text \<open>A failure that is not a 4xx: the network failed, or the status is 5xx.\<close>

definition server_failure :: "fetch_outcome \<Rightarrow> bool" where
  "server_failure x =
     (case x of NetworkFailure \<Rightarrow> True | Responded r \<Rightarrow> 500 \<le> status r \<and> status r \<le> 599)"

text \<open>The error an attempt throws when its fetch fails or its response is not ok.\<close>

definition thrown_error :: "network \<Rightarrow> nat \<Rightarrow> api_error" where
  "thrown_error net n =
     (case outcome net n of
        NetworkFailure \<Rightarrow> network_error
      | Responded r \<Rightarrow> normalizeError r (clock net n))"

text \<open>
  For stating the theorems: the retry-after value of the error made of a response; a
  body without usable \<open>retryAfter\<close>; a header that does not parse to a positive number.
\<close>

definition retry_after_value :: "response \<Rightarrow> int \<Rightarrow> int option" where
  "retry_after_value r now = err_retryAfter (normalizeError r now)"

definition no_body_value :: "response \<Rightarrow> bool" where
  "no_body_value r = (data_retryAfter r = None \<or> data_retryAfter r = Some 0)"

definition no_positive_int :: "retry_after_header \<Rightarrow> bool" where
  "no_positive_int h = (case parsed_int h of None \<Rightarrow> True | Some k \<Rightarrow> k \<le> 0)"

section \<open>Booking orchestrator (SchedulerProvider)\<close>

subsection \<open>State\<close>

datatype step = SELECT_EVENT | SELECT_TIME | CONFIRM | SUCCESS

record slot =
  slot_start :: string
  slot_end :: string
  startLocal :: "string option"
  endLocal :: "string option"
  isPending :: bool

text \<open>An event type: its id (empty when missing), and what else the snapshots carry.\<close>

record event_type =
  et_id :: string
  et_slug :: "string option"
  et_duration :: int

type_synonym slot_map = "string \<rightharpoonup> slot list"

record cache_entry =
  cached_slots :: slot_map
  entry_expiresAt :: int

text \<open>
  The calls the orchestrator hands to the API client. Each is one \<open>request\<close> of the
  client, whatever retries the client makes inside it.
\<close>

datatype api_call =
    GetSlots string string string string
  | CreateBooking jsobject
  | CapturePayPalOrder string "string option"

text \<open>
  The pending PayPal booking as read back from \<open>sessionStorage\<close>; any part may be missing.
\<close>

record pending_booking =
  pb_orderId :: "string option"
  pb_order_id :: "string option"
  pb_payload :: "jsobject option"
  pb_slot :: "slot option"
  pb_eventType :: "event_type option"
  pb_userTimezone :: "string option"

text \<open>The PayPal callback parameters of \<open>window.location.search\<close>, as \<open>params.get\<close> returns them.\<close>

record location_search =
  param_token :: "string option"
  param_PayerID :: "string option"
  param_cancelled :: "string option"

text \<open>
  The provider's state (\<open>useState\<close>), its refs (\<open>availabilityCache\<close>,
  \<open>paypalReturnHandled\<close>), the configuration it reads (\<open>userTimezone\<close>, \<open>cacheTtlMs\<close>,
  \<open>selection_mode\<close> of the embed settings), the browser state it touches (the
  \<open>sessionStorage\<close> item, the location) and the log of API calls made so far.
\<close>

record scheduler =
  step :: step
  eventType :: "event_type option"
  eventTypes :: "event_type list"
  selection_mode :: "string option"
  slots :: slot_map
  selectedSlot :: "slot option"
  confirmedBooking :: "jsobject option"
  activeTemplate :: "jsobject option"
  templateFallbackSuggestions :: "jsobject list"
  booking_error :: "string option"
  alternatives :: "jsobject list"
  isSubmitting :: bool
  isLoadingSlots :: bool
  availabilityCache :: "string \<rightharpoonup> cache_entry"
  paypalReturnHandled :: bool
  userTimezone :: string
  cacheTtlMs :: int
  pendingPayPalBooking :: "pending_booking option"
  location :: location_search
  apiCalls :: "api_call list"

text \<open>
  The state at mount: the \<open>useState\<close> initial values for the given props, over the
  browser state found.
\<close>

definition initial_scheduler ::
  "event_type option \<Rightarrow> string option \<Rightarrow> string \<Rightarrow> int
     \<Rightarrow> pending_booking option \<Rightarrow> location_search \<Rightarrow> scheduler" where
  "initial_scheduler providedEventType eventSlug timezone ttl pending search =
     \<lparr>step = (if providedEventType \<noteq> None \<or> (case eventSlug of Some s \<Rightarrow> s \<noteq> [] | None \<Rightarrow> False)
              then SELECT_TIME else SELECT_EVENT),
      eventType = providedEventType,
      eventTypes = [],
      selection_mode = None,
      slots = Map.empty,
      selectedSlot = None,
      confirmedBooking = None,
      activeTemplate = None,
      templateFallbackSuggestions = [],
      booking_error = None,
      alternatives = [],
      isSubmitting = False,
      isLoadingSlots = False,
      availabilityCache = Map.empty,
      paypalReturnHandled = False,
      userTimezone = timezone,
      cacheTtlMs = ttl,
      pendingPayPalBooking = pending,
      location = search,
      apiCalls = []\<rparr>"

definition no_params :: location_search where
  "no_params = \<lparr>param_token = None, param_PayerID = None, param_cancelled = None\<rparr>"

definition clearBookingError :: "scheduler \<Rightarrow> scheduler" where
  "clearBookingError st = st\<lparr>booking_error := None, alternatives := [], templateFallbackSuggestions := []\<rparr>"

subsection \<open>Stepping back\<close>

definition goBack :: "scheduler \<Rightarrow> scheduler" where
  "goBack st =
     (if step st = CONFIRM then clearBookingError (st\<lparr>step := SELECT_TIME\<rparr>)
      else if step st = SELECT_TIME \<and> selection_mode st \<noteq> Some ''single''
      then clearBookingError
             (st\<lparr>step := SELECT_EVENT, eventType := None, slots := Map.empty,
                 selectedSlot := None, activeTemplate := None\<rparr>)
      else st)"

text \<open>
  The widget header's "Change event" button, which also calls \<open>goBack\<close>, is rendered
  when this holds; the booking form's own Back button is always rendered.
\<close>

definition change_event_button_shown :: "scheduler \<Rightarrow> bool" where
  "change_event_button_shown st = (step st \<noteq> SELECT_EVENT \<and> selection_mode st \<noteq> Some ''single'')"

subsection \<open>Slot availability cache\<close>

text \<open>
  \<open>invalidateAvailability\<close>: without an id (missing or empty) the whole cache is cleared;
  with one, every key that starts with the id followed by a colon is deleted.
\<close>

definition invalidateAvailability :: "string option \<Rightarrow> scheduler \<Rightarrow> scheduler" where
  "invalidateAvailability eventTypeId st =
     (case eventTypeId of
        None \<Rightarrow> st\<lparr>availabilityCache := Map.empty\<rparr>
      | Some i \<Rightarrow>
          if i = [] then st\<lparr>availabilityCache := Map.empty\<rparr>
          else st\<lparr>availabilityCache :=
                    (\<lambda>key. if prefix (i @ '':'') key then None else availabilityCache st key)\<rparr>)"







subsection \<open>Optimistic slot flags\<close>

text \<open>\<open>slot.start.split('T')[0]\<close>.\<close>

definition date_of :: "string \<Rightarrow> string" where
  "date_of start = takeWhile (\<lambda>c. c \<noteq> CHR ''T'') start"

definition mutateSlotState :: "slot \<Rightarrow> (slot list \<Rightarrow> slot list) \<Rightarrow> scheduler \<Rightarrow> scheduler" where
  "mutateSlotState s mutateFn st =
     (if slot_start s = [] then st
      else st\<lparr>slots := (slots st)
                 (date_of (slot_start s) \<mapsto>
                    mutateFn (case slots st (date_of (slot_start s)) of None \<Rightarrow> [] | Some daySlots \<Rightarrow> daySlots))\<rparr>)"

definition markSlotPending :: "slot \<Rightarrow> scheduler \<Rightarrow> scheduler" where
  "markSlotPending s =
     mutateSlotState s (map (\<lambda>item. if slot_start item = slot_start s then item\<lparr>isPending := True\<rparr> else item))"

definition revertPendingSlot :: "slot \<Rightarrow> scheduler \<Rightarrow> scheduler" where
  "revertPendingSlot s =
     mutateSlotState s (map (\<lambda>item. if slot_start item = slot_start s then item\<lparr>isPending := False\<rparr> else item))"

definition removeBookedSlot :: "slot \<Rightarrow> scheduler \<Rightarrow> scheduler" where
  "removeBookedSlot s =
     mutateSlotState s (filter (\<lambda>item. slot_start item \<noteq> slot_start s))"

subsection \<open>Booking creation\<close>

text \<open>Decimal digits of a natural number, for the wait-time message.\<close>

fun decimal :: "nat \<Rightarrow> string" where
  "decimal n = (if n < 10 then [char_of (48 + n)] else decimal (n div 10) @ [char_of (48 + n mod 10)])"

declare decimal.simps [simp del]

definition normalizeBookingError :: "api_error \<Rightarrow> api_error" where
  "normalizeBookingError error =
     (if err_code error = Some ''OFFLINE'' then
        error\<lparr>err_message := ''You appear to be offline. Reconnect to the internet and try booking again.'',
              err_alternatives := []\<rparr>
      else if err_status error = Some 429 then
        error\<lparr>err_message :=
                ''Too many booking attempts.''
                @ (case err_retryAfter error of
                     Some retrySeconds \<Rightarrow>
                       if retrySeconds > 0
                       then '' Please wait about '' @ decimal (nat retrySeconds) @ '' seconds and try again.''
                       else '' Please wait a moment and try again.''
                   | None \<Rightarrow> '' Please wait a moment and try again.''),
              err_alternatives := []\<rparr>
      else if err_code error = Some ''SLOT_CONFLICT'' then
        error\<lparr>err_message := ''That slot was booked moments ago. Please choose another available time.''\<rparr>
      else if err_code error = Some ''SLOT_LOCKED'' then
        error\<lparr>err_message := ''That slot is currently being reserved. Try again in a few seconds.'',
              err_alternatives := []\<rparr>
      else if err_code error = Some ''TEMPLATE_INVALID'' then
        error\<lparr>err_message :=
                (if err_message error = [] then ''Your saved template is no longer valid for this event.''
                 else err_message error),
              err_alternatives := []\<rparr>
      else if err_code error = Some ''NO_SAVED_TEMPLATE'' then
        error\<lparr>err_message := ''Saved preferences were not found. Continue with the standard booking form.'',
              err_alternatives := []\<rparr>
      else
        error\<lparr>err_message :=
                (if err_message error = [] then ''Failed to create booking. Please try again.''
                 else err_message error)\<rparr>)"

text \<open>An \<open>Error\<close> made on the client: a message, and a code if one is set on it.\<close>

definition local_error :: "string \<Rightarrow> string option \<Rightarrow> api_error" where
  "local_error message code =
     \<lparr>err_message = message, err_status = None, err_code = code, err_retryAfter = None,
      err_alternatives = [], err_suggestions = []\<rparr>"

text \<open>
  What \<open>resolveSubmissionMeta\<close> resolves to for a slot with start and end: the request
  id and the source attribution, with a signed widget token if the token provider or the
  signing endpoint gave one (the merge writes the key even when the value is
  \<open>undefined\<close>). These are the only keys it sets.
\<close>

record submission_meta =
  client_request_id :: string
  source :: jsval
  source_client :: jsval
  source_details :: jsval
  signed_widget_token :: "jsval option"

definition meta_object :: "submission_meta \<Rightarrow> jsobject" where
  "meta_object m =
     ([''client_request_id'' \<mapsto> JStr (client_request_id m), ''source'' \<mapsto> source m,
       ''source_client'' \<mapsto> source_client m, ''source_details'' \<mapsto> source_details m])
     (''signed_widget_token'' := signed_widget_token m)"

text \<open>
  What \<open>onBeforeBook\<close> does with the payload object it is handed: it throws (or its
  promise rejects), or it returns, having left the payload object as the first component
  says (it may have written to it), with \<open>false\<close>, an object that is not an array, or
  anything else. The slot and event type it is handed as well are taken as left alone.
\<close>

datatype before_result = ReturnsFalse | ReturnsObject jsobject | ReturnsOther

datatype hook_run = HookThrows api_error | HookReturns jsobject before_result

text \<open>What \<open>onBookingSuccess\<close> or \<open>onBookingError\<close> does when called: it returns, or it throws.\<close>

datatype callback = CallbackReturns | CallbackThrows api_error

text \<open>
  What one run of \<open>createBookingForContext\<close> meets: the submission meta; the
  \<open>TypeError\<close> the engine raises for calling \<open>trim\<close> on a value that has no such
  method; the hook and the two callbacks (\<open>None\<close> when the prop is not a function); and
  how \<open>api.createBooking\<close> settles (rejected with an error, or resolved with the
  result's \<open>booking\<close>, if any).
\<close>

record booking_env =
  submissionMeta :: submission_meta
  trim_TypeError :: api_error
  onBeforeBook :: "(jsobject \<Rightarrow> hook_run) option"
  createBooking_settles :: "api_error + jsobject option"
  onBookingSuccess :: "callback option"
  onBookingError :: "callback option"

record booking_args =
  guestData :: jsobject
  slotOverride :: "slot option"
  eventTypeOverride :: "event_type option"

text \<open>
  What the promise of \<open>createBookingForContext\<close> settles to: \<open>{ok: true, booking, payload}\<close>,
  \<open>{ok: false, error}\<close>, or a rejection with what \<open>onBookingError\<close> threw.
\<close>

datatype booking_result =
    BookingOk "jsobject option" jsobject
  | BookingFailed api_error
  | BookingRejected api_error

definition result_ok :: "booking_result \<Rightarrow> bool" where
  "result_ok r = (case r of BookingOk b p \<Rightarrow> True | BookingFailed e \<Rightarrow> False | BookingRejected e \<Rightarrow> False)"

text \<open>\<open>slotOverride || selectedSlot\<close> and \<open>eventTypeOverride || eventType\<close>, with the guard on both.\<close>

definition scoped :: "booking_args \<Rightarrow> scheduler \<Rightarrow> (slot \<times> event_type) option" where
  "scoped args st =
     (let scopedSlot = or_else (slotOverride args) (selectedSlot st);
          scopedEventType = or_else (eventTypeOverride args) (eventType st)
      in case scopedSlot of
           None \<Rightarrow> None
         | Some s \<Rightarrow>
             (case scopedEventType of
                None \<Rightarrow> None
              | Some e \<Rightarrow> if et_id e = [] then None else Some (s, e)))"

definition base_payload :: "slot \<Rightarrow> event_type \<Rightarrow> scheduler \<Rightarrow> jsobject \<Rightarrow> jsobject" where
  "base_payload s e st guest =
     [''event_type_id'' \<mapsto> JStr (et_id e), ''start_time'' \<mapsto> JStr (slot_start s),
      ''end_time'' \<mapsto> JStr (slot_end s), ''timezone'' \<mapsto> JStr (userTimezone st)] ++ guest"

text \<open>
  The run falls into three stretches, split where it awaits. First, up to the first
  \<open>await\<close>: the guard, then \<open>isSubmitting\<close>, the cleared error and the pending flag.
\<close>

definition booking_begin :: "booking_args \<Rightarrow> scheduler \<Rightarrow> (slot \<times> event_type) option \<times> scheduler" where
  "booking_begin args st =
     (case scoped args st of
        None \<Rightarrow> (None, st)
      | Some (s, e) \<Rightarrow>
          (Some (s, e), markSlotPending s (clearBookingError (st\<lparr>isSubmitting := True\<rparr>))))"

text \<open>
  \<open>resolveSubmissionMeta\<close>: the empty object for a slot without start or end; else it
  reads \<open>(guestData?.guest_email || '').trim()\<close>, which throws for a truthy
  \<open>guest_email\<close> that is not a string, and resolves to the meta.
\<close>

definition resolveSubmissionMeta ::
  "slot \<Rightarrow> event_type \<Rightarrow> jsobject \<Rightarrow> booking_env \<Rightarrow> api_error + jsobject" where
  "resolveSubmissionMeta s e payload env =
     (if et_id e = [] \<or> slot_start s = [] \<or> slot_end s = [] then Inr Map.empty
      else
        (case payload ''guest_email'' of
           None \<Rightarrow> Inr (meta_object (submissionMeta env))
         | Some v \<Rightarrow>
             if truthy v \<and> (case v of JStr email \<Rightarrow> False | _ \<Rightarrow> True)
             then Inl (trim_TypeError env)
             else Inr (meta_object (submissionMeta env))))"

text \<open>For stating the theorems: a payload whose \<open>guest_email\<close> is a string or falsy.\<close>

definition guest_email_trims :: "jsobject \<Rightarrow> bool" where
  "guest_email_trims payload =
     (case payload ''guest_email'' of
        None \<Rightarrow> True
      | Some v \<Rightarrow> \<not> truthy v \<or> (case v of JStr email \<Rightarrow> True | _ \<Rightarrow> False))"

definition callback_throws :: "callback option \<Rightarrow> bool" where
  "callback_throws c = (case c of Some (CallbackThrows thrown) \<Rightarrow> True | _ \<Rightarrow> False)"

text \<open>
  Second, after the meta and the hook have resolved: the payload is complete and
  \<open>api.createBooking\<close> is called, unless the meta or the hook threw or the hook returned
  \<open>false\<close>. An object the hook returns is spread over the payload object as the hook
  left it.
\<close>

definition final_payload :: "slot \<Rightarrow> event_type \<Rightarrow> jsobject \<Rightarrow> booking_env \<Rightarrow> api_error + jsobject" where
  "final_payload s e payload0 env =
     (case resolveSubmissionMeta s e payload0 env of
        Inl err \<Rightarrow> Inl err
      | Inr meta \<Rightarrow>
          (let payload1 = payload0 ++ meta
           in case onBeforeBook env of
                None \<Rightarrow> Inr payload1
              | Some hook \<Rightarrow>
                  (case hook payload1 of
                     HookThrows err \<Rightarrow> Inl err
                   | HookReturns payload2 ReturnsFalse \<Rightarrow>
                       Inl (local_error ''Booking cancelled before submit.'' (Some ''BOOKING_CANCELLED''))
                   | HookReturns payload2 (ReturnsObject beforeResult) \<Rightarrow> Inr (payload2 ++ beforeResult)
                   | HookReturns payload2 ReturnsOther \<Rightarrow> Inr payload2)))"

definition booking_send ::
  "booking_args \<Rightarrow> slot \<times> event_type \<Rightarrow> booking_env \<Rightarrow> scheduler \<Rightarrow> (api_error + jsobject) \<times> scheduler" where
  "booking_send args ctx env st =
     (case final_payload (fst ctx) (snd ctx) (base_payload (fst ctx) (snd ctx) st (guestData args)) env of
        Inl e \<Rightarrow> (Inl e, st)
      | Inr payload \<Rightarrow> (Inr payload, st\<lparr>apiCalls := apiCalls st @ [CreateBooking payload]\<rparr>))"

text \<open>
  Third, when the call has settled, or the run was stopped before it: the rest of the
  \<open>try\<close> block or the \<open>catch\<close> block, then \<open>finally\<close>. The \<open>catch\<close> block ends with
  \<open>onBookingError\<close>; what that throws is what the run's promise rejects with.
\<close>

definition booking_failed ::
  "slot \<times> event_type \<Rightarrow> api_error \<Rightarrow> booking_env \<Rightarrow> scheduler \<Rightarrow> booking_result \<times> scheduler" where
  "booking_failed ctx requestError env st =
     (let st1 = revertPendingSlot (fst ctx) st;
          normalized = normalizeBookingError requestError;
          st2 = st1\<lparr>booking_error := Some (err_message normalized),
                    alternatives := err_alternatives normalized,
                    templateFallbackSuggestions := err_suggestions normalized\<rparr>
      in case onBookingError env of
           Some (CallbackThrows thrown) \<Rightarrow> (BookingRejected thrown, st2\<lparr>isSubmitting := False\<rparr>)
         | _ \<Rightarrow> (BookingFailed normalized, st2\<lparr>isSubmitting := False\<rparr>))"

text \<open>
  The \<open>try\<close> block after the call has resolved ends with \<open>onBookingSuccess\<close>; when that
  throws, the \<open>catch\<close> block runs on the state already set to success.
\<close>

definition booking_succeeded ::
  "slot \<times> event_type \<Rightarrow> jsobject \<Rightarrow> jsobject option \<Rightarrow> booking_env \<Rightarrow> scheduler
     \<Rightarrow> booking_result \<times> scheduler" where
  "booking_succeeded ctx payload booking env st =
     (let st1 = removeBookedSlot (fst ctx) st;
          st2 = st1\<lparr>confirmedBooking := booking,
                    selectedSlot := None,
                    eventType := (case eventType st1 of Some previous \<Rightarrow> Some previous | None \<Rightarrow> Some (snd ctx)),
                    activeTemplate := None,
                    templateFallbackSuggestions := [],
                    step := SUCCESS\<rparr>;
          st3 = invalidateAvailability (Some (et_id (snd ctx))) st2
      in case onBookingSuccess env of
           Some (CallbackThrows thrown) \<Rightarrow> booking_failed ctx thrown env st3
         | _ \<Rightarrow> (BookingOk booking payload, st3\<lparr>isSubmitting := False\<rparr>))"

definition booking_settle ::
  "slot \<times> event_type \<Rightarrow> (api_error + jsobject) \<Rightarrow> booking_env \<Rightarrow> scheduler \<Rightarrow> booking_result \<times> scheduler" where
  "booking_settle ctx sent env st =
     (case sent of
        Inl e \<Rightarrow> booking_failed ctx e env st
      | Inr payload \<Rightarrow>
          (case createBooking_settles env of
             Inl e \<Rightarrow> booking_failed ctx e env st
           | Inr booking \<Rightarrow> booking_succeeded ctx payload booking env st))"

text \<open>One run from call to return, with nothing else running in between.\<close>

definition createBookingForContext ::
  "booking_args \<Rightarrow> booking_env \<Rightarrow> scheduler \<Rightarrow> booking_result \<times> scheduler" where
  "createBookingForContext args env st =
     (case booking_begin args st of
        (None, st0) \<Rightarrow>
          (BookingFailed (local_error ''Select an event time before submitting the booking form.'' None), st0)
      | (Some ctx, st1) \<Rightarrow>
          (case booking_send args ctx env st1 of
             (sent, st2) \<Rightarrow> booking_settle ctx sent env st2))"

definition submitBooking :: "jsobject \<Rightarrow> booking_env \<Rightarrow> scheduler \<Rightarrow> booking_result \<times> scheduler" where
  "submitBooking guest env st =
     createBookingForContext \<lparr>guestData = guest, slotOverride = None, eventTypeOverride = None\<rparr> env st"

text \<open>
  Two triggers of submit, the second while the first run is awaiting: both begin, then
  both send. A trigger whose guard fails does nothing more. The first run settles while
  the second is still pending; then the second settles.
\<close>

definition submit_twice_sent ::
  "jsobject \<Rightarrow> booking_env \<Rightarrow> jsobject \<Rightarrow> booking_env \<Rightarrow> scheduler
     \<Rightarrow> ((slot \<times> event_type) \<times> (api_error + jsobject)) option
        \<times> ((slot \<times> event_type) \<times> (api_error + jsobject)) option \<times> scheduler" where
  "submit_twice_sent guest1 env1 guest2 env2 st =
     (let args1 = \<lparr>guestData = guest1, slotOverride = None, eventTypeOverride = None\<rparr>;
          args2 = \<lparr>guestData = guest2, slotOverride = None, eventTypeOverride = None\<rparr>;
          (ctx1, st1) = booking_begin args1 st;
          (ctx2, st2) = booking_begin args2 st1;
          (run1, st3) = (case ctx1 of None \<Rightarrow> (None, st2)
                         | Some c \<Rightarrow> (case booking_send args1 c env1 st2 of (x, s) \<Rightarrow> (Some (c, x), s)));
          (run2, st4) = (case ctx2 of None \<Rightarrow> (None, st3)
                         | Some c \<Rightarrow> (case booking_send args2 c env2 st3 of (x, s) \<Rightarrow> (Some (c, x), s)))
      in (run1, run2, st4))"

definition submit_twice_first_settled ::
  "jsobject \<Rightarrow> booking_env \<Rightarrow> jsobject \<Rightarrow> booking_env \<Rightarrow> scheduler \<Rightarrow> scheduler" where
  "submit_twice_first_settled guest1 env1 guest2 env2 st =
     (case submit_twice_sent guest1 env1 guest2 env2 st of
        (run1, run2, st4) \<Rightarrow>
          (case run1 of Some (c, x) \<Rightarrow> snd (booking_settle c x env1 st4) | None \<Rightarrow> st4))"

definition submit_twice ::
  "jsobject \<Rightarrow> booking_env \<Rightarrow> jsobject \<Rightarrow> booking_env \<Rightarrow> scheduler \<Rightarrow> scheduler" where
  "submit_twice guest1 env1 guest2 env2 st =
     (case submit_twice_sent guest1 env1 guest2 env2 st of
        (run1, run2, st4) \<Rightarrow>
          (case run2 of
             Some (c, x) \<Rightarrow>
               snd (booking_settle c x env2 (submit_twice_first_settled guest1 env1 guest2 env2 st))
           | None \<Rightarrow> submit_twice_first_settled guest1 env1 guest2 env2 st))"

definition createBooking_calls :: "scheduler \<Rightarrow> jsobject list" where
  "createBooking_calls st =
     concat (map (\<lambda>c. case c of CreateBooking p \<Rightarrow> [p] | _ \<Rightarrow> []) (apiCalls st))"

text \<open>
  The environment of the repository's integration tests: the meta of a public page
  without token provider, no hook and no callbacks, a backend that books.
\<close>

definition test_meta :: submission_meta where
  "test_meta =
     \<lparr>client_request_id = ''req_1'', source = JStr ''widget'', source_client = JStr ''embed-widget-v2'',
      source_details =
        JObj [(''landing_page_url'', JStr ''https://sdk.test/widget''),
              (''landing_page_path'', JStr ''/widget''),
              (''page_id'', JStr ''evt_1''),
              (''tracking_session_id'', JStr ''trk_1''),
              (''contact_token'', JStr ''ct_1''),
              (''client_request_id'', JStr ''req_1'')],
      signed_widget_token = None\<rparr>"

definition test_booking_env :: booking_env where
  "test_booking_env =
     \<lparr>submissionMeta = test_meta,
      trim_TypeError = local_error ''trim is not a function'' None,
      onBeforeBook = None,
      createBooking_settles = Inr (Some [''id'' \<mapsto> JStr ''book_1'']),
      onBookingSuccess = None,
      onBookingError = None\<rparr>"

text \<open>The provider mounted with event type "evt_1", at CONFIRM with a slot selected.\<close>

definition test_slot :: slot where
  "test_slot =
     \<lparr>slot_start = ''2026-05-10T10:00:00.000Z'', slot_end = ''2026-05-10T10:30:00.000Z'',
      startLocal = None, endLocal = None, isPending = False\<rparr>"

definition test_event :: event_type where
  "test_event = \<lparr>et_id = ''evt_1'', et_slug = None, et_duration = 30\<rparr>"

definition at_confirm :: scheduler where
  "at_confirm =
     (initial_scheduler (Some test_event) None ''UTC'' 45000 None no_params)
       \<lparr>step := CONFIRM, selectedSlot := Some test_slot\<rparr>"

subsection \<open>PayPal return\<close>


record return_context =
  hasReturnParams :: bool
  rc_token :: "string option"
  rc_payerId :: "string option"
  rc_cancelled :: bool

definition parsePayPalReturnContext :: "location_search \<Rightarrow> return_context" where
  "parsePayPalReturnContext search =
     (let token = param_token search;
          payerId = param_PayerID search;
          cancelled = (param_cancelled search = Some ''true'')
      in \<lparr>hasReturnParams = (first_truthy [token, payerId] \<noteq> None \<or> cancelled),
          rc_token = token, rc_payerId = payerId, rc_cancelled = cancelled\<rparr>)"

definition clearPayPalReturnParams :: "scheduler \<Rightarrow> scheduler" where
  "clearPayPalReturnParams st =
     st\<lparr>location := \<lparr>param_token = None, param_PayerID = None, param_cancelled = None\<rparr>\<rparr>"

definition readPendingPayPalBooking :: "scheduler \<Rightarrow> pending_booking option" where
  "readPendingPayPalBooking st = pendingPayPalBooking st"

definition clearPendingPayPalBooking :: "scheduler \<Rightarrow> scheduler" where
  "clearPendingPayPalBooking st = st\<lparr>pendingPayPalBooking := None\<rparr>"

text \<open>The result of the capture call, by the fields the provider reads; any may be missing.\<close>

record capture_response =
  cr_captureId :: "string option"
  cr_capture_id :: "string option"
  cr_id :: "string option"
  cr_success :: "bool option"
  cr_error :: "string option"

text \<open>
  What a resumption meets: how \<open>api.capturePayPalOrder\<close> settles (rejected, or resolved
  with a result, if any); what the booking creation meets; what \<open>onBookingError\<close> does
  when the \<open>catch\<close> block of \<open>completePayPalBooking\<close> calls it (if the prop is a
  function at all, which \<open>booking_meets\<close> says); and whether the effect's cleanup had
  run by the time \<open>completePayPalBooking\<close> settled (the cleanup runs at unmount and
  whenever \<open>completePayPalBooking\<close> is made anew).
\<close>

record paypal_env =
  capture_settles :: "api_error + capture_response option"
  booking_meets :: booking_env
  onBookingError_in_complete :: callback
  torn_down :: bool

text \<open>
  The guest data handed to booking creation: the snapshotted payload, its timezone if it
  has one (else the snapshot's, else the provider's), the order id, and the capture id
  or \<open>undefined\<close>.
\<close>

definition paypal_guestData ::
  "pending_booking \<Rightarrow> jsobject \<Rightarrow> string \<Rightarrow> string option \<Rightarrow> scheduler \<Rightarrow> jsobject" where
  "paypal_guestData pendingBooking guestPayload orderId captureId st =
     guestPayload
       (''timezone'' \<mapsto>
          (if truthy_prop (guestPayload ''timezone'') then the (guestPayload ''timezone'')
           else JStr (string_or (pb_userTimezone pendingBooking) (userTimezone st))),
        ''paypal_order_id'' \<mapsto> JStr orderId,
        ''paypal_capture_id'' \<mapsto> (case captureId of Some c \<Rightarrow> JStr c | None \<Rightarrow> JUndefined))"

text \<open>
  The \<open>catch\<close> block of \<open>completePayPalBooking\<close>: it is entered when the capture call
  rejects or reports failure, and when the promise of \<open>createBookingForContext\<close> rejects.
\<close>

definition complete_catch :: "api_error \<Rightarrow> paypal_env \<Rightarrow> scheduler \<Rightarrow> booking_result \<times> scheduler" where
  "complete_catch error env st =
     (let normalized = normalizeBookingError error;
          st1 = st\<lparr>booking_error := Some (err_message normalized),
                   alternatives := err_alternatives normalized\<rparr>
      in case onBookingError (booking_meets env) of
           None \<Rightarrow> (BookingFailed normalized, st1)
         | Some inner \<Rightarrow>
             (case onBookingError_in_complete env of
                CallbackThrows thrown \<Rightarrow> (BookingRejected thrown, st1)
              | CallbackReturns \<Rightarrow> (BookingFailed normalized, st1)))"

definition completePayPalBooking ::
  "pending_booking \<Rightarrow> string option \<Rightarrow> paypal_env \<Rightarrow> scheduler \<Rightarrow> booking_result \<times> scheduler" where
  "completePayPalBooking pendingBooking payerId env st =
     (let orderId = first_truthy [pb_orderId pendingBooking, pb_order_id pendingBooking];
          guestPayload = pb_payload pendingBooking;
          pendingSlot = pb_slot pendingBooking;
          pendingEventType = pb_eventType pendingBooking
      in if orderId = None \<or> guestPayload = None
            \<or> (case pendingSlot of None \<Rightarrow> True | Some s \<Rightarrow> slot_start s = [] \<or> slot_end s = [])
            \<or> (case pendingEventType of None \<Rightarrow> True | Some e \<Rightarrow> et_id e = [])
         then (BookingFailed
                 (local_error ''Saved PayPal booking context is invalid. Please book again.'' None), st)
         else
           (let st1 = st\<lparr>apiCalls := apiCalls st
                           @ [CapturePayPalOrder (the orderId) (first_truthy [payerId])]\<rparr>
            in case capture_settles env of
                 Inl error \<Rightarrow> complete_catch error env st1
               | Inr captureResult \<Rightarrow>
                   (let captureId =
                          (case captureResult of
                             None \<Rightarrow> None
                           | Some c \<Rightarrow> first_truthy [cr_captureId c, cr_capture_id c, cr_id c])
                    in if captureId = None
                          \<and> (case captureResult of None \<Rightarrow> False | Some c \<Rightarrow> cr_success c = Some False)
                       then complete_catch
                              (local_error
                                 (case first_truthy [cr_error (the captureResult)] of
                                    Some m \<Rightarrow> m
                                  | None \<Rightarrow> ''PayPal payment capture failed.'') None)
                              env st1
                       else
                         (case createBookingForContext
                                 \<lparr>guestData = paypal_guestData pendingBooking (the guestPayload)
                                                (the orderId) captureId st1,
                                  slotOverride = pendingSlot,
                                  eventTypeOverride = pendingEventType\<rparr>
                                 (booking_meets env) st1 of
                            (BookingRejected thrown, st2) \<Rightarrow> complete_catch thrown env st2
                          | (BookingOk booking payload, st2) \<Rightarrow>
                              (BookingOk booking payload, clearPendingPayPalBooking st2)
                          | (BookingFailed error, st2) \<Rightarrow> (BookingFailed error, st2)))))"

definition result_message :: "booking_result \<Rightarrow> string" where
  "result_message r =
     (case r of BookingOk b p \<Rightarrow> [] | BookingFailed e \<Rightarrow> err_message e | BookingRejected e \<Rightarrow> [])"

text \<open>
  The effect that handles a PayPal return, run at mount and whenever its dependency
  changes. When the promise of \<open>completePayPalBooking\<close> rejects, the rest of \<open>process\<close>
  does not run.
\<close>

definition paypal_return_effect :: "paypal_env \<Rightarrow> scheduler \<Rightarrow> scheduler" where
  "paypal_return_effect env st =
     (if paypalReturnHandled st then st
      else
        (let returnContext = parsePayPalReturnContext (location st) in
         if \<not> hasReturnParams returnContext then st
         else
           (let st1 = st\<lparr>paypalReturnHandled := True\<rparr>;
                pendingBooking = readPendingPayPalBooking st1
            in if rc_cancelled returnContext
               then clearPayPalReturnParams
                      ((clearPendingPayPalBooking st1)
                         \<lparr>booking_error := Some ''Payment was cancelled. No charges were made.''\<rparr>)
               else
                 (case pendingBooking of
                    None \<Rightarrow>
                      clearPayPalReturnParams
                        (st1\<lparr>booking_error := Some ''Booking session expired. Please try booking again.''\<rparr>)
                  | Some pb \<Rightarrow>
                      if first_truthy [rc_token returnContext] = None
                         \<or> first_truthy [rc_payerId returnContext] = None
                      then clearPayPalReturnParams
                             (st1\<lparr>booking_error :=
                                    Some ''Missing payment return details. Please try booking again.''\<rparr>)
                      else
                        (case completePayPalBooking pb (rc_payerId returnContext) env st1 of
                           (BookingRejected thrown, st2) \<Rightarrow> st2
                         | (result, st2) \<Rightarrow>
                             (let st3 = (if \<not> torn_down env \<and> \<not> result_ok result
                                            \<and> result_message result \<noteq> []
                                         then st2\<lparr>booking_error := Some (result_message result)\<rparr>
                                         else st2)
                              in if \<not> torn_down env then clearPayPalReturnParams st3 else st3))))))"

text \<open>
  A stored pending booking that passes the guard of \<open>completePayPalBooking\<close>, and a
  location that carries an approval token and a payer id and no cancellation flag.
\<close>

definition valid_pending :: "pending_booking \<Rightarrow> string \<Rightarrow> jsobject \<Rightarrow> slot \<Rightarrow> event_type \<Rightarrow> bool" where
  "valid_pending pb orderId guest s e =
     (first_truthy [pb_orderId pb, pb_order_id pb] = Some orderId
      \<and> pb_payload pb = Some guest
      \<and> pb_slot pb = Some s \<and> slot_start s \<noteq> [] \<and> slot_end s \<noteq> []
      \<and> pb_eventType pb = Some e \<and> et_id e \<noteq> [])"

definition approval_return :: "location_search \<Rightarrow> string \<Rightarrow> string \<Rightarrow> bool" where
  "approval_return search token payerId =
     (param_token search = Some token \<and> token \<noteq> []
      \<and> param_PayerID search = Some payerId \<and> payerId \<noteq> []
      \<and> param_cancelled search \<noteq> Some ''true'')"

text \<open>The capture id of a capture that did not fail: \<open>None\<close> when the result carries none.\<close>

definition captured :: "paypal_env \<Rightarrow> string option option" where
  "captured env =
     (case capture_settles env of
        Inl error \<Rightarrow> None
      | Inr None \<Rightarrow> Some None
      | Inr (Some c) \<Rightarrow>
          (case first_truthy [cr_captureId c, cr_capture_id c, cr_id c] of
             Some i \<Rightarrow> Some (Some i)
           | None \<Rightarrow> if cr_success c = Some False then None else Some None))"

text \<open>
  For stating what a resumption does: the payload of the booking-creation call it makes,
  if it makes one (the capture did not fail, and neither the meta nor the hook stopped
  the run), and whether the booking creation returns \<open>ok\<close>: the call was made and
  resolved, and \<open>onBookingSuccess\<close> did not throw.
\<close>

definition resumed_payload ::
  "pending_booking \<Rightarrow> jsobject \<Rightarrow> string \<Rightarrow> slot \<Rightarrow> event_type \<Rightarrow> paypal_env \<Rightarrow> scheduler
     \<Rightarrow> jsobject option" where
  "resumed_payload pb guest orderId s e env st =
     (case captured env of
        None \<Rightarrow> None
      | Some captureId \<Rightarrow>
          (case final_payload s e (base_payload s e st (paypal_guestData pb guest orderId captureId st))
                  (booking_meets env) of
             Inl err \<Rightarrow> None
           | Inr p \<Rightarrow> Some p))"

definition resumed_booking_succeeds ::
  "pending_booking \<Rightarrow> jsobject \<Rightarrow> string \<Rightarrow> slot \<Rightarrow> event_type \<Rightarrow> paypal_env \<Rightarrow> scheduler \<Rightarrow> bool" where
  "resumed_booking_succeeds pb guest orderId s e env st =
     (resumed_payload pb guest orderId s e env st \<noteq> None
      \<and> (case createBooking_settles (booking_meets env) of Inl err \<Rightarrow> False | Inr b \<Rightarrow> True)
      \<and> \<not> callback_throws (onBookingSuccess (booking_meets env)))"

text \<open>
  The pending booking of the repository's integration test ("provider completes PayPal
  capture flow into success state"), the responses of its mocked backend, and a return
  location that carries an approval token and a payer id.
\<close>

definition test_pendingBooking :: pending_booking where
  "test_pendingBooking =
     \<lparr>pb_orderId = Some ''ord_1'', pb_order_id = None,
      pb_payload = Some [''guest_name'' \<mapsto> JStr ''Jane Guest'',
                         ''guest_email'' \<mapsto> JStr ''jane@example.com''],
      pb_slot = Some test_slot,
      pb_eventType = Some test_event,
      pb_userTimezone = Some ''UTC''\<rparr>"

definition test_backend :: paypal_env where
  "test_backend =
     \<lparr>capture_settles = Inr (Some \<lparr>cr_captureId = Some ''cap_1'', cr_capture_id = None,
                                     cr_id = None, cr_success = Some True, cr_error = None\<rparr>),
      booking_meets = test_booking_env,
      onBookingError_in_complete = CallbackReturns,
      torn_down = False\<rparr>"

definition test_return :: location_search where
  "test_return = \<lparr>param_token = Some ''EC-1'', param_PayerID = Some ''payer_1'', param_cancelled = None\<rparr>"

text \<open>The page the browser comes back to: the provider mounted with the event type.\<close>

definition at_return :: scheduler where
  "at_return = initial_scheduler (Some test_event) None ''UTC'' 45000 (Some test_pendingBooking) test_return"

section \<open>Conflict fallback suggestions (BookingForm)\<close>

text \<open>
  \<^verbatim>\<open>toFallbackSuggestions\<close> maps the inline alternatives, with their index, to
  suggestions: the alternative's own properties, then \<open>confidenceScore\<close> and
  \<open>explanation\<close> written over them.
\<close>

definition toFallbackSuggestions :: "jsobject list \<Rightarrow> jsobject list" where
  "toFallbackSuggestions resolvedAlternatives =
     map (\<lambda>(index, opt).
            opt(''confidenceScore'' \<mapsto> JNum (max 40 (75 - (int index * 10))),
                ''explanation'' \<mapsto> JStr ''Available alternative slot''))
         (enumerate 0 resolvedAlternatives)"

text \<open>
  What the suggestion service did: \<open>actions.getConflictSuggestions\<close> is not a function,
  its promise rejected, or it resolved (\<open>None\<close>: with something that is not an array).
\<close>

datatype suggestion_service =
    ServiceAbsent
  | ServiceRejected
  | ServiceResolved "jsobject list option"

record suggestion_state =
  showConflictResolver :: bool
  conflictSuggestions :: "jsobject list"
  bestSuggestion :: "jsobject option"
  isLoadingSuggestions :: bool

definition first_or_null :: "'a list \<Rightarrow> 'a option" where
  "first_or_null xs = (case xs of [] \<Rightarrow> None | x # _ \<Rightarrow> Some x)"

definition set_suggestions :: "jsobject list \<Rightarrow> suggestion_state \<Rightarrow> suggestion_state" where
  "set_suggestions xs st = st\<lparr>conflictSuggestions := xs, bestSuggestion := first_or_null xs\<rparr>"

text \<open>
  The body of the suggestion-loading effect once \<open>shouldLoadSuggestions\<close> holds.
  \<open>active\<close> is the effect's flag when the promise settles: a torn-down effect
  (\<open>active = False\<close>) leaves the state as the synchronous part set it.
\<close>

definition loadConflictSuggestions ::
  "suggestion_service \<Rightarrow> bool \<Rightarrow> jsobject list \<Rightarrow> suggestion_state \<Rightarrow> suggestion_state" where
  "loadConflictSuggestions service active resolvedAlternatives st0 =
     (let st = st0\<lparr>showConflictResolver := True\<rparr> in
      case service of
        ServiceAbsent \<Rightarrow> set_suggestions (toFallbackSuggestions resolvedAlternatives) st
      | ServiceRejected \<Rightarrow>
          (let st1 = st\<lparr>isLoadingSuggestions := True\<rparr> in
           if \<not> active then st1
           else (set_suggestions (toFallbackSuggestions resolvedAlternatives) st1)
                  \<lparr>isLoadingSuggestions := False\<rparr>)
      | ServiceResolved result \<Rightarrow>
          (let st1 = st\<lparr>isLoadingSuggestions := True\<rparr> in
           if \<not> active then st1
           else
             (let suggestions = (case result of Some xs \<Rightarrow> xs | None \<Rightarrow> []) in
              if length suggestions > 0
              then (set_suggestions suggestions st1)\<lparr>isLoadingSuggestions := False\<rparr>
              else (set_suggestions (toFallbackSuggestions resolvedAlternatives) st1)
                     \<lparr>isLoadingSuggestions := False\<rparr>)))"

section \<open>Submitting the booking form (BookingForm)\<close>

text \<open>\<open>String.prototype.trim\<close>.\<close>

definition trim :: "string \<Rightarrow> string" where
  "trim s = rev (dropWhile is_space (rev (dropWhile is_space s)))"

text \<open>
  \<^verbatim>\<open>/.+@.+\..+/\<close> on the trimmed value: somewhere an \<open>@\<close> with a character before it, later
  a dot with at least one character between them and one after it, none of these
  characters a line terminator.
\<close>

definition dot_char :: "char \<Rightarrow> bool" where
  "dot_char c = (char_code c \<noteq> 10 \<and> char_code c \<noteq> 13)"

definition isValidEmail :: "string \<Rightarrow> bool" where
  "isValidEmail v =
     (let s = trim v in
      list_ex (\<lambda>i. list_ex (\<lambda>j.
          1 \<le> i \<and> s ! i = CHR ''@'' \<and> dot_char (s ! (i - 1))
        \<and> i + 2 \<le> j \<and> s ! j = CHR ''.'' \<and> list_all (\<lambda>k. dot_char (s ! k)) [i + 1 ..< j]
        \<and> j + 1 < length s \<and> dot_char (s ! (j + 1)))
        [0 ..< length s]) [0 ..< length s])"

text \<open>The payload \<open>buildBasePayload\<close> makes of the form's fields.\<close>

record inline_template =
  it_event_type_id :: "string option"
  it_calendar_id :: "string option"
  it_duration_minutes :: "int option"
  it_timezone :: string
  it_answers :: "(string \<times> answer) list"

record template_part =
  template_id :: string
  template_modified :: bool
  save_preferences_consent :: bool
  template_save_default :: bool
  inline_template :: "inline_template option"

record form_payload =
  guest_name :: string
  guest_email :: string
  guest_phone :: "string option"
  guest_notes :: "string option"
  payload_answers :: "(string \<times> answer) list option"
  payload_honeypot :: string
  payload_template :: "template_part option"

text \<open>
  The form's state, as far as submitting reads or writes it; \<open>answers\<close> is the object of
  answers by field id, in insertion order.
\<close>

record form_state =
  name :: string
  email :: string
  phone :: string
  notes_text :: string
  answers :: "(string \<times> answer) list"
  honeypot :: string
  fieldErrors :: form_errors
  inlineError :: string
  selectedTemplateId :: string
  templateModified :: bool
  savePreferencesConsent :: bool
  templateSaveDefault :: bool
  selectedProvider :: string
  isCreatingPayment :: bool
  isLoadingPaymentInfo :: bool
  pendingPayload :: "form_payload option"
  showBrief :: bool
  briefError :: "string option"
  briefPendingPayload :: "form_payload option"

text \<open>
  What the form resolves from its props and the provider: the event type's id, calendar,
  duration and form schema, the slot, the timezone, and the flags \<open>isPaidEvent\<close> and \<open>hasBrief\<close> it computes
  from the event type.
\<close>

record form_props =
  resolvedEventTypeId :: "string option"
  resolvedCalendarId :: "string option"
  resolvedDuration :: "int option"
  form_schema :: "field list option"
  resolvedSlot :: "slot option"
  resolvedUserTimezone :: string
  isPaidEvent :: bool
  hasBrief :: bool
  url_parser :: "string \<Rightarrow> bool"

text \<open>The calls a submission hands to the provider's actions.\<close>

datatype form_call =
    SubmitBooking form_payload
  | CreatePayPalOrder string string string
  | CreatePaymentIntent string string string

definition nonempty_or_undefined :: "string \<Rightarrow> string option" where
  "nonempty_or_undefined s = (if s = [] then None else Some s)"

definition buildBasePayload :: "form_props \<Rightarrow> form_state \<Rightarrow> form_payload" where
  "buildBasePayload props st =
     \<lparr>guest_name = trim (name st),
      guest_email = toLowerCase (trim (email st)),
      guest_phone = nonempty_or_undefined (trim (phone st)),
      guest_notes = nonempty_or_undefined (trim (notes_text st)),
      payload_answers = (if length (answers st) > 0 then Some (answers st) else None),
      payload_honeypot = honeypot st,
      payload_template =
        (if selectedTemplateId st \<noteq> []
         then Some \<lparr>template_id = selectedTemplateId st,
                     template_modified = templateModified st,
                     save_preferences_consent = savePreferencesConsent st,
                     template_save_default = templateSaveDefault st,
                     inline_template =
                       (if templateModified st
                        then Some \<lparr>it_event_type_id = resolvedEventTypeId props,
                                    it_calendar_id = resolvedCalendarId props,
                                    it_duration_minutes = resolvedDuration props,
                                    it_timezone = resolvedUserTimezone props,
                                    it_answers = answers st\<rparr>
                        else None)\<rparr>
         else None)\<rparr>"

text \<open>
  \<open>submitOrStartPayment\<close>, up to the call it makes: the booking submission for a free
  event, else the payment initiation with the selected provider.
\<close>

definition submitOrStartPayment ::
  "form_payload \<Rightarrow> form_props \<Rightarrow> form_state \<Rightarrow> form_state \<times> form_call list" where
  "submitOrStartPayment payload props st =
     (if \<not> isPaidEvent props \<or> first_truthy [resolvedEventTypeId props] = None
         \<or> resolvedSlot props = None
      then (st, [SubmitBooking payload])
      else
        (let st1 = st\<lparr>isCreatingPayment := True, pendingPayload := Some payload\<rparr>
         in if selectedProvider st = ''paypal''
            then (st1, [CreatePayPalOrder (the (resolvedEventTypeId props)) (guest_email payload)
                          (guest_name payload)])
            else (st1, [CreatePaymentIntent (the (resolvedEventTypeId props)) (guest_email payload)
                          (guest_name payload)])))"

text \<open>\<open>Object.assign(nextErrors, validation.errors)\<close>.\<close>

definition assign_errors :: "form_errors \<Rightarrow> form_errors \<Rightarrow> form_errors" where
  "assign_errors target src = foldl (\<lambda>acc (k, v). AList.update k v acc) target src"

text \<open>
  \<open>handleSubmit\<close>, after \<open>event.preventDefault()\<close>: the new form state and the calls made.
\<close>

definition handleSubmit :: "form_props \<Rightarrow> form_state \<Rightarrow> form_state \<times> form_call list" where
  "handleSubmit props st =
     (if honeypot st \<noteq> [] then (st, [])
      else
        (let errors1 = (if trim (name st) = [] then [(''name'', ''Please enter your name'')] else []);
             errors2 = (if \<not> isValidEmail (email st)
                        then AList.update ''email'' ''Please enter a valid email address'' errors1
                        else errors1);
             nextErrors =
               (case form_schema props of
                  None \<Rightarrow> errors2
                | Some schema_fields \<Rightarrow>
                    if length schema_fields > 0
                    then (let validation = validateFormAnswers (url_parser props) schema_fields
                                             (map_of (answers st))
                          in if \<not> isValid validation then assign_errors errors2 (errors validation)
                             else errors2)
                    else errors2)
         in if length nextErrors > 0 then (st\<lparr>fieldErrors := nextErrors\<rparr>, [])
            else
              (let st1 = st\<lparr>fieldErrors := [], inlineError := []\<rparr>;
                   payload = buildBasePayload props st1
               in if hasBrief props \<and> \<not> showBrief st1
                  then (st1\<lparr>briefPendingPayload := Some payload, briefError := None,
                             showBrief := True\<rparr>, [])
                  else submitOrStartPayment payload props st1)))"

text \<open>
  The submit button. \<open>isLoading\<close> is the form's prop (the widget passes the provider's
  \<open>isSubmitting\<close>), without which the form reads \<open>state.isSubmitting\<close>; the button
  component is disabled when its \<open>disabled\<close> or its \<open>isLoading\<close> prop is set.
\<close>

definition resolvedIsLoading :: "bool option \<Rightarrow> scheduler \<Rightarrow> bool" where
  "resolvedIsLoading isLoading provider = (case isLoading of Some b \<Rightarrow> b | None \<Rightarrow> isSubmitting provider)"

definition form_isValid :: "form_state \<Rightarrow> bool" where
  "form_isValid st = (trim (name st) \<noteq> [] \<and> isValidEmail (email st))"

definition submit_button_disabled :: "bool option \<Rightarrow> form_props \<Rightarrow> form_state \<Rightarrow> scheduler \<Rightarrow> bool" where
  "submit_button_disabled isLoading props st provider =
     ((\<not> form_isValid st \<or> resolvedIsLoading isLoading provider \<or> isCreatingPayment st
         \<or> (isPaidEvent props \<and> isLoadingPaymentInfo st))
      \<or> (resolvedIsLoading isLoading provider \<or> isCreatingPayment st))"

text \<open>A filled-in form for a free event without a brief, and what it resolves.\<close>

definition filled_form :: form_state where
  "filled_form =
     \<lparr>name = ''Jane Guest'', email = ''jane@example.com'', phone = [], notes_text = [],
      answers = [], honeypot = [], fieldErrors = [], inlineError = [],
      selectedTemplateId = [], templateModified = False, savePreferencesConsent = False,
      templateSaveDefault = False, selectedProvider = ''stripe'', isCreatingPayment = False,
      isLoadingPaymentInfo = False,
      pendingPayload = None, showBrief = False, briefError = None, briefPendingPayload = None\<rparr>"

definition free_event_props :: form_props where
  "free_event_props =
     \<lparr>resolvedEventTypeId = Some ''evt_1'', resolvedCalendarId = None,
      resolvedDuration = Some 30, form_schema = None,
      resolvedSlot = Some \<lparr>slot_start = ''2026-05-10T10:00:00.000Z'',
                            slot_end = ''2026-05-10T10:30:00.000Z'',
                            startLocal = None, endLocal = None, isPending = False\<rparr>,
      resolvedUserTimezone = ''UTC'', isPaidEvent = False, hasBrief = False,
      url_parser = (\<lambda>u. True)\<rparr>"

chapter \<open>Verification\<close>

section \<open>Frame lemmas of the orchestrator\<close>

lemma mutateSlotState_frame:
  "selectedSlot (mutateSlotState s f st) = selectedSlot st"
  "eventType (mutateSlotState s f st) = eventType st"
  "apiCalls (mutateSlotState s f st) = apiCalls st"
  "isSubmitting (mutateSlotState s f st) = isSubmitting st"
  "userTimezone (mutateSlotState s f st) = userTimezone st"
  "availabilityCache (mutateSlotState s f st) = availabilityCache st"
  "pendingPayPalBooking (mutateSlotState s f st) = pendingPayPalBooking st"
  "location (mutateSlotState s f st) = location st"
  "paypalReturnHandled (mutateSlotState s f st) = paypalReturnHandled st"
  "step (mutateSlotState s f st) = step st"
  "cacheTtlMs (mutateSlotState s f st) = cacheTtlMs st"
  "confirmedBooking (mutateSlotState s f st) = confirmedBooking st"
  by (simp_all add: mutateSlotState_def)

lemma result_ok_simps:
  "result_ok (BookingOk b p)" "\<not> result_ok (BookingFailed e)" "\<not> result_ok (BookingRejected e)"
  by (simp_all add: result_ok_def)

lemma booking_begin_accepted:
  assumes "scoped args st = Some ctx"
  shows "fst (booking_begin args st) = Some ctx"
    and "isSubmitting (snd (booking_begin args st))"
    and "apiCalls (snd (booking_begin args st)) = apiCalls st"
    and "selectedSlot (snd (booking_begin args st)) = selectedSlot st"
    and "eventType (snd (booking_begin args st)) = eventType st"
    and "userTimezone (snd (booking_begin args st)) = userTimezone st"
    and "cacheTtlMs (snd (booking_begin args st)) = cacheTtlMs st"
    and "availabilityCache (snd (booking_begin args st)) = availabilityCache st"
  using assms
  by (cases ctx; simp add: booking_begin_def markSlotPending_def mutateSlotState_frame
        clearBookingError_def)+

lemma booking_begin_rejected:
  assumes "scoped args st = None"
  shows "booking_begin args st = (None, st)"
  using assms by (simp add: booking_begin_def)

lemma scoped_ignores_isSubmitting:
  "scoped args (st\<lparr>isSubmitting := b\<rparr>) = scoped args st"
  by (simp add: scoped_def)

lemma scoped_cong:
  "selectedSlot st' = selectedSlot st \<Longrightarrow> eventType st' = eventType st
     \<Longrightarrow> scoped args st' = scoped args st"
  by (simp add: scoped_def)

lemma createBooking_calls_append:
  "apiCalls st' = apiCalls st @ cs
     \<Longrightarrow> createBooking_calls st'
           = createBooking_calls st @ concat (map (\<lambda>c. case c of CreateBooking p \<Rightarrow> [p] | _ \<Rightarrow> []) cs)"
  by (simp add: createBooking_calls_def)

lemma createBooking_calls_same:
  "apiCalls st' = apiCalls st \<Longrightarrow> createBooking_calls st' = createBooking_calls st"
  by (simp add: createBooking_calls_def)

lemma booking_send_calls:
  "apiCalls (snd (booking_send args ctx env st))
     = apiCalls st @ (case final_payload (fst ctx) (snd ctx)
                             (base_payload (fst ctx) (snd ctx) st (guestData args)) env of
                        Inl e \<Rightarrow> []
                      | Inr p \<Rightarrow> [CreateBooking p])"
  "fst (booking_send args ctx env st)
     = final_payload (fst ctx) (snd ctx) (base_payload (fst ctx) (snd ctx) st (guestData args)) env"
  "userTimezone (snd (booking_send args ctx env st)) = userTimezone st"
  by (simp_all add: booking_send_def split: sum.splits)

lemma invalidateAvailability_frame:
  "apiCalls (invalidateAvailability i st) = apiCalls st"
  "isSubmitting (invalidateAvailability i st) = isSubmitting st"
  "pendingPayPalBooking (invalidateAvailability i st) = pendingPayPalBooking st"
  "location (invalidateAvailability i st) = location st"
  "paypalReturnHandled (invalidateAvailability i st) = paypalReturnHandled st"
  "step (invalidateAvailability i st) = step st"
  "userTimezone (invalidateAvailability i st) = userTimezone st"
  "cacheTtlMs (invalidateAvailability i st) = cacheTtlMs st"
  "eventType (invalidateAvailability i st) = eventType st"
  by (simp_all add: invalidateAvailability_def split: option.splits)

lemma invalidateAvailability_cache_cong:
  assumes a: "availabilityCache st' = availabilityCache st"
  shows "availabilityCache (invalidateAvailability i st') = availabilityCache (invalidateAvailability i st)"
  by (cases i) (simp_all add: invalidateAvailability_def a cong: if_cong)

lemma booking_failed_frame:
  "apiCalls (snd (booking_failed ctx err env st)) = apiCalls st"
  "\<not> isSubmitting (snd (booking_failed ctx err env st))"
  "userTimezone (snd (booking_failed ctx err env st)) = userTimezone st"
  "cacheTtlMs (snd (booking_failed ctx err env st)) = cacheTtlMs st"
  "pendingPayPalBooking (snd (booking_failed ctx err env st)) = pendingPayPalBooking st"
  "location (snd (booking_failed ctx err env st)) = location st"
  "paypalReturnHandled (snd (booking_failed ctx err env st)) = paypalReturnHandled st"
  "availabilityCache (snd (booking_failed ctx err env st)) = availabilityCache st"
  "step (snd (booking_failed ctx err env st)) = step st"
  "confirmedBooking (snd (booking_failed ctx err env st)) = confirmedBooking st"
  "eventType (snd (booking_failed ctx err env st)) = eventType st"
  "\<not> result_ok (fst (booking_failed ctx err env st))"
  by (simp_all add: booking_failed_def Let_def revertPendingSlot_def mutateSlotState_frame
        result_ok_def split: option.splits callback.splits)

lemma booking_failed_result:
  "fst (booking_failed ctx err env st)
     = (case onBookingError env of
          Some (CallbackThrows thrown) \<Rightarrow> BookingRejected thrown
        | _ \<Rightarrow> BookingFailed (normalizeBookingError err))"
  by (simp add: booking_failed_def Let_def split: option.splits callback.splits)

text \<open>The state a resolved call leaves before \<open>onBookingSuccess\<close> is called.\<close>

lemma booking_succeeded_cases:
  obtains st3 where
      "booking_succeeded ctx payload booking env st
         = (if callback_throws (onBookingSuccess env)
            then booking_failed ctx (case onBookingSuccess env of Some (CallbackThrows t) \<Rightarrow> t) env st3
            else (BookingOk booking payload, st3\<lparr>isSubmitting := False\<rparr>))"
      "apiCalls st3 = apiCalls st" "userTimezone st3 = userTimezone st"
      "cacheTtlMs st3 = cacheTtlMs st"
      "pendingPayPalBooking st3 = pendingPayPalBooking st" "location st3 = location st"
      "paypalReturnHandled st3 = paypalReturnHandled st"
      "availabilityCache st3
         = availabilityCache (invalidateAvailability (Some (et_id (snd ctx))) st)"
      "step st3 = SUCCESS" "confirmedBooking st3 = booking"
      "eventType st3 = (case eventType st of Some previous \<Rightarrow> Some previous | None \<Rightarrow> Some (snd ctx))"
proof -
  define st3 where "st3 = invalidateAvailability (Some (et_id (snd ctx)))
      ((removeBookedSlot (fst ctx) st)
         \<lparr>confirmedBooking := booking,
          selectedSlot := None,
          eventType := (case eventType (removeBookedSlot (fst ctx) st) of
                          Some previous \<Rightarrow> Some previous | None \<Rightarrow> Some (snd ctx)),
          activeTemplate := None,
          templateFallbackSuggestions := [],
          step := SUCCESS\<rparr>)"
  define st2 where "st2 = (removeBookedSlot (fst ctx) st)
         \<lparr>confirmedBooking := booking,
          selectedSlot := None,
          eventType := (case eventType (removeBookedSlot (fst ctx) st) of
                          Some previous \<Rightarrow> Some previous | None \<Rightarrow> Some (snd ctx)),
          activeTemplate := None,
          templateFallbackSuggestions := [],
          step := SUCCESS\<rparr>"
  have st3: "st3 = invalidateAvailability (Some (et_id (snd ctx))) st2"
    by (simp add: st3_def st2_def)
  have f2: "apiCalls st2 = apiCalls st" "userTimezone st2 = userTimezone st"
    "cacheTtlMs st2 = cacheTtlMs st" "pendingPayPalBooking st2 = pendingPayPalBooking st"
    "location st2 = location st" "paypalReturnHandled st2 = paypalReturnHandled st"
    "availabilityCache st2 = availabilityCache st" "step st2 = SUCCESS"
    "confirmedBooking st2 = booking"
    "eventType st2 = (case eventType st of Some previous \<Rightarrow> Some previous | None \<Rightarrow> Some (snd ctx))"
    by (simp_all add: st2_def removeBookedSlot_def mutateSlotState_frame)
  have ca: "availabilityCache st3
         = availabilityCache (invalidateAvailability (Some (et_id (snd ctx))) st)"
    unfolding st3 by (rule invalidateAvailability_cache_cong) (rule f2)
  have cb: "confirmedBooking st3 = booking"
    unfolding st3 using f2(9) by (simp add: invalidateAvailability_def split: option.splits)
  show thesis
  proof (rule that [of st3])
    show "booking_succeeded ctx payload booking env st
         = (if callback_throws (onBookingSuccess env)
            then booking_failed ctx (case onBookingSuccess env of Some (CallbackThrows t) \<Rightarrow> t) env st3
            else (BookingOk booking payload, st3\<lparr>isSubmitting := False\<rparr>))"
      by (simp add: booking_succeeded_def st3_def Let_def callback_throws_def
            split: option.splits callback.splits)
  qed (simp_all add: st3 invalidateAvailability_frame f2 ca [unfolded st3] cb [unfolded st3])
qed

lemma booking_succeeded_frame:
  "apiCalls (snd (booking_succeeded ctx payload booking env st)) = apiCalls st"
  "\<not> isSubmitting (snd (booking_succeeded ctx payload booking env st))"
  "userTimezone (snd (booking_succeeded ctx payload booking env st)) = userTimezone st"
  "cacheTtlMs (snd (booking_succeeded ctx payload booking env st)) = cacheTtlMs st"
  "pendingPayPalBooking (snd (booking_succeeded ctx payload booking env st)) = pendingPayPalBooking st"
  "location (snd (booking_succeeded ctx payload booking env st)) = location st"
  "paypalReturnHandled (snd (booking_succeeded ctx payload booking env st)) = paypalReturnHandled st"
  "availabilityCache (snd (booking_succeeded ctx payload booking env st))
     = availabilityCache (invalidateAvailability (Some (et_id (snd ctx))) st)"
  "step (snd (booking_succeeded ctx payload booking env st)) = SUCCESS"
  "confirmedBooking (snd (booking_succeeded ctx payload booking env st)) = booking"
  "result_ok (fst (booking_succeeded ctx payload booking env st))
     = (\<not> callback_throws (onBookingSuccess env))"
  "eventType (snd (booking_succeeded ctx payload booking env st))
     = (case eventType st of Some previous \<Rightarrow> Some previous | None \<Rightarrow> Some (snd ctx))"
proof -
  obtain st3 where c: "booking_succeeded ctx payload booking env st
         = (if callback_throws (onBookingSuccess env)
            then booking_failed ctx (case onBookingSuccess env of Some (CallbackThrows t) \<Rightarrow> t) env st3
            else (BookingOk booking payload, st3\<lparr>isSubmitting := False\<rparr>))"
      and f: "apiCalls st3 = apiCalls st" "userTimezone st3 = userTimezone st"
      "cacheTtlMs st3 = cacheTtlMs st"
      "pendingPayPalBooking st3 = pendingPayPalBooking st" "location st3 = location st"
      "paypalReturnHandled st3 = paypalReturnHandled st"
      "availabilityCache st3
         = availabilityCache (invalidateAvailability (Some (et_id (snd ctx))) st)"
      "step st3 = SUCCESS" "confirmedBooking st3 = booking"
      "eventType st3 = (case eventType st of Some previous \<Rightarrow> Some previous | None \<Rightarrow> Some (snd ctx))"
    by (rule booking_succeeded_cases)
  show "apiCalls (snd (booking_succeeded ctx payload booking env st)) = apiCalls st"
    "\<not> isSubmitting (snd (booking_succeeded ctx payload booking env st))"
    "userTimezone (snd (booking_succeeded ctx payload booking env st)) = userTimezone st"
    "cacheTtlMs (snd (booking_succeeded ctx payload booking env st)) = cacheTtlMs st"
    "pendingPayPalBooking (snd (booking_succeeded ctx payload booking env st)) = pendingPayPalBooking st"
    "location (snd (booking_succeeded ctx payload booking env st)) = location st"
    "paypalReturnHandled (snd (booking_succeeded ctx payload booking env st)) = paypalReturnHandled st"
    "availabilityCache (snd (booking_succeeded ctx payload booking env st))
       = availabilityCache (invalidateAvailability (Some (et_id (snd ctx))) st)"
    "step (snd (booking_succeeded ctx payload booking env st)) = SUCCESS"
    "confirmedBooking (snd (booking_succeeded ctx payload booking env st)) = booking"
    "result_ok (fst (booking_succeeded ctx payload booking env st))
       = (\<not> callback_throws (onBookingSuccess env))"
    "eventType (snd (booking_succeeded ctx payload booking env st))
       = (case eventType st of Some previous \<Rightarrow> Some previous | None \<Rightarrow> Some (snd ctx))"
    by (simp_all add: c f booking_failed_frame result_ok_simps)
qed

lemma booking_settle_frame:
  "apiCalls (snd (booking_settle ctx sent env st)) = apiCalls st"
  "\<not> isSubmitting (snd (booking_settle ctx sent env st))"
  "userTimezone (snd (booking_settle ctx sent env st)) = userTimezone st"
  "cacheTtlMs (snd (booking_settle ctx sent env st)) = cacheTtlMs st"
  "pendingPayPalBooking (snd (booking_settle ctx sent env st)) = pendingPayPalBooking st"
  "location (snd (booking_settle ctx sent env st)) = location st"
  "paypalReturnHandled (snd (booking_settle ctx sent env st)) = paypalReturnHandled st"
  by (simp_all add: booking_settle_def booking_failed_frame booking_succeeded_frame
        split: sum.splits)

text \<open>
  A run returns \<open>ok\<close> exactly when its call was made and resolved and \<open>onBookingSuccess\<close>
  did not throw; its promise rejects exactly when it does not return \<open>ok\<close> and
  \<open>onBookingError\<close> throws.
\<close>

lemma booking_settle_result:
  "result_ok (fst (booking_settle ctx sent env st))
     = (case sent of
          Inl err \<Rightarrow> False
        | Inr p \<Rightarrow> (case createBooking_settles env of Inl err \<Rightarrow> False | Inr b \<Rightarrow> True)
                   \<and> \<not> callback_throws (onBookingSuccess env))"
  "(\<exists>thrown. fst (booking_settle ctx sent env st) = BookingRejected thrown)
     = (\<not> result_ok (fst (booking_settle ctx sent env st)) \<and> callback_throws (onBookingError env))"
proof -
  show ok: "result_ok (fst (booking_settle ctx sent env st))
     = (case sent of
          Inl err \<Rightarrow> False
        | Inr p \<Rightarrow> (case createBooking_settles env of Inl err \<Rightarrow> False | Inr b \<Rightarrow> True)
                   \<and> \<not> callback_throws (onBookingSuccess env))"
    by (simp add: booking_settle_def booking_failed_frame booking_succeeded_frame
          split: sum.splits)
  have f: "(\<exists>thrown. fst (booking_failed ctx err env st') = BookingRejected thrown)
             = callback_throws (onBookingError env)" for err st'
    by (simp add: booking_failed_result callback_throws_def split: option.splits callback.splits)
  have s: "(\<exists>thrown. fst (booking_succeeded ctx p b env st) = BookingRejected thrown)
             = (callback_throws (onBookingSuccess env) \<and> callback_throws (onBookingError env))" for p b
  proof -
    obtain st3 where c: "booking_succeeded ctx p b env st
         = (if callback_throws (onBookingSuccess env)
            then booking_failed ctx (case onBookingSuccess env of Some (CallbackThrows t) \<Rightarrow> t) env st3
            else (BookingOk b p, st3\<lparr>isSubmitting := False\<rparr>))"
      by (rule booking_succeeded_cases)
    show ?thesis
      by (simp add: c f)
  qed
  show "(\<exists>thrown. fst (booking_settle ctx sent env st) = BookingRejected thrown)
     = (\<not> result_ok (fst (booking_settle ctx sent env st)) \<and> callback_throws (onBookingError env))"
    unfolding ok
    by (auto simp: booking_settle_def f s split: sum.splits)
qed

lemma createBookingForContext_calls:
  "apiCalls (snd (createBookingForContext args env st))
     = apiCalls st
       @ (case scoped args st of
            None \<Rightarrow> []
          | Some (s, e) \<Rightarrow>
              (case final_payload s e (base_payload s e st (guestData args)) env of
                 Inl err \<Rightarrow> []
               | Inr p \<Rightarrow> [CreateBooking p]))"
proof (cases "scoped args st")
  case None
  then show ?thesis
    by (simp add: createBookingForContext_def booking_begin_rejected)
next
  case (Some ctx)
  obtain s e where ctx: "ctx = (s, e)" by (cases ctx)
  with Some have sc: "scoped args st = Some (s, e)" by simp
  obtain st1 where b: "booking_begin args st = (Some (s, e), st1)"
    and c1: "apiCalls st1 = apiCalls st" and tz: "userTimezone st1 = userTimezone st"
    using booking_begin_accepted [OF sc] by (cases "booking_begin args st") auto
  have bp: "base_payload s e st1 (guestData args) = base_payload s e st (guestData args)"
    by (simp add: base_payload_def tz)
  obtain sent st2 where sd: "booking_send args (s, e) env st1 = (sent, st2)"
    by (cases "booking_send args (s, e) env st1")
  have c2: "apiCalls st2 = apiCalls st1 @ (case final_payload s e (base_payload s e st (guestData args)) env of
                        Inl e \<Rightarrow> []
                      | Inr p \<Rightarrow> [CreateBooking p])"
    using booking_send_calls(1) [of args "(s, e)" env st1] by (simp add: sd bp)
  have "apiCalls (snd (createBookingForContext args env st)) = apiCalls st2"
    by (simp add: createBookingForContext_def b sd booking_settle_frame)
  with c1 c2 sc show ?thesis by simp
qed

lemma createBookingForContext_not_submitting:
  assumes "scoped args st \<noteq> None"
  shows "\<not> isSubmitting (snd (createBookingForContext args env st))"
proof -
  from assms obtain ctx where Some: "scoped args st = Some ctx" by auto
  obtain st1 where b: "booking_begin args st = (Some ctx, st1)"
    using booking_begin_accepted(1) [OF Some] by (cases "booking_begin args st") auto
  obtain sent st2 where sd: "booking_send args ctx env st1 = (sent, st2)"
    by (cases "booking_send args ctx env st1")
  show ?thesis
    by (simp add: createBookingForContext_def b sd booking_settle_frame)
qed

lemma booking_begin_frame:
  "pendingPayPalBooking (snd (booking_begin args st)) = pendingPayPalBooking st"
  "location (snd (booking_begin args st)) = location st"
  "paypalReturnHandled (snd (booking_begin args st)) = paypalReturnHandled st"
  by (simp_all add: booking_begin_def markSlotPending_def mutateSlotState_frame
        clearBookingError_def split: option.splits prod.splits)

lemma booking_send_frame:
  "pendingPayPalBooking (snd (booking_send args ctx env st)) = pendingPayPalBooking st"
  "location (snd (booking_send args ctx env st)) = location st"
  "paypalReturnHandled (snd (booking_send args ctx env st)) = paypalReturnHandled st"
  by (simp_all add: booking_send_def split: sum.splits)

lemma createBookingForContext_frame_all:
  "pendingPayPalBooking (snd (createBookingForContext args env st)) = pendingPayPalBooking st
   \<and> location (snd (createBookingForContext args env st)) = location st
   \<and> paypalReturnHandled (snd (createBookingForContext args env st)) = paypalReturnHandled st"
proof -
  obtain c st1 where b: "booking_begin args st = (c, st1)"
    by (cases "booking_begin args st")
  have f1: "pendingPayPalBooking st1 = pendingPayPalBooking st" "location st1 = location st"
    "paypalReturnHandled st1 = paypalReturnHandled st"
    using booking_begin_frame [of args st] by (simp_all add: b)
  show ?thesis
  proof (cases c)
    case None
    then show ?thesis
      by (simp add: createBookingForContext_def b f1)
  next
    case (Some ctx)
    obtain sent st2 where sd: "booking_send args ctx env st1 = (sent, st2)"
      by (cases "booking_send args ctx env st1")
    have f2: "pendingPayPalBooking st2 = pendingPayPalBooking st1" "location st2 = location st1"
      "paypalReturnHandled st2 = paypalReturnHandled st1"
      using booking_send_frame [of args ctx env st1] by (simp_all add: sd)
    show ?thesis
      by (simp add: createBookingForContext_def b Some sd booking_settle_frame f1 f2)
  qed
qed

lemma createBookingForContext_frame:
  "pendingPayPalBooking (snd (createBookingForContext args env st)) = pendingPayPalBooking st"
  "location (snd (createBookingForContext args env st)) = location st"
  "paypalReturnHandled (snd (createBookingForContext args env st)) = paypalReturnHandled st"
  using createBookingForContext_frame_all [of args env st] by simp_all

lemma createBookingForContext_unfold:
  assumes sc: "scoped args st = Some (s, e)"
  obtains st2 where
      "createBookingForContext args env st
         = booking_settle (s, e) (final_payload s e (base_payload s e st (guestData args)) env) env st2"
      "apiCalls st2 = apiCalls st
         @ (case final_payload s e (base_payload s e st (guestData args)) env of
              Inl err \<Rightarrow> []
            | Inr p \<Rightarrow> [CreateBooking p])"
      "availabilityCache st2 = availabilityCache st" "cacheTtlMs st2 = cacheTtlMs st"
      "userTimezone st2 = userTimezone st" "eventType st2 = eventType st"
proof -
  obtain st1 where b: "booking_begin args st = (Some (s, e), st1)"
    and tz: "userTimezone st1 = userTimezone st" and c1: "apiCalls st1 = apiCalls st"
    and ttl: "cacheTtlMs st1 = cacheTtlMs st"
    and ca: "availabilityCache st1 = availabilityCache st"
    and et: "eventType st1 = eventType st"
    using booking_begin_accepted [OF sc] by (cases "booking_begin args st") auto
  have bp: "base_payload s e st1 (guestData args) = base_payload s e st (guestData args)"
    by (simp add: base_payload_def tz)
  obtain sent st2 where sd: "booking_send args (s, e) env st1 = (sent, st2)"
    by (cases "booking_send args (s, e) env st1")
  have sent: "sent = final_payload s e (base_payload s e st (guestData args)) env"
    using booking_send_calls(2) [of args "(s, e)" env st1] by (simp add: sd bp)
  have c2: "apiCalls st2 = apiCalls st
         @ (case final_payload s e (base_payload s e st (guestData args)) env of
              Inl err \<Rightarrow> []
            | Inr p \<Rightarrow> [CreateBooking p])"
    using booking_send_calls(1) [of args "(s, e)" env st1] by (simp add: sd bp c1)
  have f2: "availabilityCache st2 = availabilityCache st" "cacheTtlMs st2 = cacheTtlMs st"
    "userTimezone st2 = userTimezone st" "eventType st2 = eventType st"
    using sd ca ttl tz et by (auto simp: booking_send_def split: sum.splits)
  show thesis
    by (rule that [of st2]) (simp_all add: createBookingForContext_def b sd sent c2 f2)
qed

lemma createBookingForContext_result_ok:
  "result_ok (fst (createBookingForContext args env st))
     = (case scoped args st of
          None \<Rightarrow> False
        | Some (s, e) \<Rightarrow>
            (case final_payload s e (base_payload s e st (guestData args)) env of
               Inl err \<Rightarrow> False
             | Inr p \<Rightarrow> (case createBooking_settles env of Inl err \<Rightarrow> False | Inr b \<Rightarrow> True)
                        \<and> \<not> callback_throws (onBookingSuccess env)))"
proof (cases "scoped args st")
  case None
  then show ?thesis
    by (simp add: createBookingForContext_def booking_begin_rejected result_ok_def)
next
  case (Some ctx)
  obtain s e where ctx: "ctx = (s, e)" by (cases ctx)
  with Some have sc: "scoped args st = Some (s, e)" by simp
  obtain st2 where u: "createBookingForContext args env st
         = booking_settle (s, e) (final_payload s e (base_payload s e st (guestData args)) env) env st2"
    by (rule createBookingForContext_unfold [OF sc])
  show ?thesis
    by (simp add: u sc booking_settle_result(1))
qed

lemma createBookingForContext_rejected:
  "(\<exists>thrown. fst (createBookingForContext args env st) = BookingRejected thrown)
     = (scoped args st \<noteq> None \<and> \<not> result_ok (fst (createBookingForContext args env st))
        \<and> callback_throws (onBookingError env))"
proof (cases "scoped args st")
  case None
  then show ?thesis
    by (simp add: createBookingForContext_def booking_begin_rejected)
next
  case (Some ctx)
  obtain s e where ctx: "ctx = (s, e)" by (cases ctx)
  with Some have sc: "scoped args st = Some (s, e)" by simp
  obtain st2 where u: "createBookingForContext args env st
         = booking_settle (s, e) (final_payload s e (base_payload s e st (guestData args)) env) env st2"
    by (rule createBookingForContext_unfold [OF sc])
  show ?thesis
    by (simp add: u sc booking_settle_result(2))
qed

text \<open>Without a hook, the payload sent for a complete slot is the base payload with the meta over it.\<close>

lemma final_payload_no_hook:
  assumes "onBeforeBook env = None" and "et_id e \<noteq> []" and "slot_start s \<noteq> []" and "slot_end s \<noteq> []"
    and "guest_email_trims p0"
  shows "final_payload s e p0 env = Inr (p0 ++ meta_object (submissionMeta env))"
  using assms
  by (auto simp: final_payload_def resolveSubmissionMeta_def guest_email_trims_def Let_def
           split: option.splits jsval.splits)

lemma meta_object_keys:
  "k \<notin> {''client_request_id'', ''source'', ''source_client'', ''source_details'',
         ''signed_widget_token''} \<Longrightarrow> meta_object m k = None"
  by (simp add: meta_object_def)

section \<open>Resuming a PayPal booking on return\<close>

lemma complete_catch_frame:
  "apiCalls (snd (complete_catch error env st)) = apiCalls st"
  "pendingPayPalBooking (snd (complete_catch error env st)) = pendingPayPalBooking st"
  "location (snd (complete_catch error env st)) = location st"
  "paypalReturnHandled (snd (complete_catch error env st)) = paypalReturnHandled st"
  "\<not> result_ok (fst (complete_catch error env st))"
  by (simp_all add: complete_catch_def Let_def result_ok_def split: option.splits callback.splits)

lemma complete_catch_rejected:
  "(\<exists>thrown. fst (complete_catch error env st) = BookingRejected thrown)
     = (onBookingError (booking_meets env) \<noteq> None
        \<and> (\<exists>thrown. onBookingError_in_complete env = CallbackThrows thrown))"
  by (auto simp: complete_catch_def Let_def split: option.splits callback.splits)

lemma complete_capture_failed:
  assumes "valid_pending pb orderId guest s e" and "captured env = None"
  obtains error where
    "completePayPalBooking pb payerId env st
       = complete_catch error env
           (st\<lparr>apiCalls := apiCalls st @ [CapturePayPalOrder orderId (first_truthy [payerId])]\<rparr>)"
  using assms
  by (auto simp: completePayPalBooking_def valid_pending_def captured_def Let_def
           split: sum.splits option.splits if_splits)

lemma complete_captured:
  assumes "valid_pending pb orderId guest s e" and "captured env = Some captureId"
  shows "completePayPalBooking pb payerId env st
           = (case createBookingForContext
                     \<lparr>guestData = paypal_guestData pb guest orderId captureId
                        (st\<lparr>apiCalls := apiCalls st @ [CapturePayPalOrder orderId (first_truthy [payerId])]\<rparr>),
                      slotOverride = Some s, eventTypeOverride = Some e\<rparr>
                     (booking_meets env)
                     (st\<lparr>apiCalls := apiCalls st @ [CapturePayPalOrder orderId (first_truthy [payerId])]\<rparr>) of
                (BookingRejected thrown, st2) \<Rightarrow> complete_catch thrown env st2
              | (BookingOk booking payload, st2) \<Rightarrow> (BookingOk booking payload, clearPendingPayPalBooking st2)
              | (BookingFailed error, st2) \<Rightarrow> (BookingFailed error, st2))"
  using assms
  by (auto simp: completePayPalBooking_def valid_pending_def captured_def Let_def
        split: sum.splits option.splits if_splits)

lemma paypal_guestData_cong:
  "userTimezone st' = userTimezone st
     \<Longrightarrow> paypal_guestData pb guest orderId captureId st' = paypal_guestData pb guest orderId captureId st"
  by (simp add: paypal_guestData_def)

lemma base_payload_cong:
  "userTimezone st' = userTimezone st \<Longrightarrow> base_payload s e st' g = base_payload s e st g"
  by (simp add: base_payload_def)

text \<open>What a resumption with a valid pending booking does, whatever the capture does.\<close>

lemma complete_summary:
  assumes v: "valid_pending pb orderId guest s e"
  shows "apiCalls (snd (completePayPalBooking pb payerId env st))
           = apiCalls st @ CapturePayPalOrder orderId (first_truthy [payerId])
               # (case resumed_payload pb guest orderId s e env st of None \<Rightarrow> [] | Some p \<Rightarrow> [CreateBooking p])
       \<and> result_ok (fst (completePayPalBooking pb payerId env st))
           = resumed_booking_succeeds pb guest orderId s e env st
       \<and> pendingPayPalBooking (snd (completePayPalBooking pb payerId env st))
           = (if resumed_booking_succeeds pb guest orderId s e env st then None
              else pendingPayPalBooking st)
       \<and> location (snd (completePayPalBooking pb payerId env st)) = location st
       \<and> paypalReturnHandled (snd (completePayPalBooking pb payerId env st)) = paypalReturnHandled st
       \<and> (\<exists>thrown. fst (completePayPalBooking pb payerId env st) = BookingRejected thrown)
           = ((captured env = None
               \<or> \<not> resumed_booking_succeeds pb guest orderId s e env st
                  \<and> callback_throws (onBookingError (booking_meets env)))
              \<and> onBookingError (booking_meets env) \<noteq> None
              \<and> (\<exists>thrown. onBookingError_in_complete env = CallbackThrows thrown))"
proof (cases "captured env")
  case None
  obtain error where c: "completePayPalBooking pb payerId env st
       = complete_catch error env
           (st\<lparr>apiCalls := apiCalls st @ [CapturePayPalOrder orderId (first_truthy [payerId])]\<rparr>)"
    by (rule complete_capture_failed [OF v None])
  show ?thesis
    unfolding c
    by (simp add: complete_catch_frame complete_catch_rejected resumed_payload_def
          resumed_booking_succeeds_def None)
next
  case (Some captureId)
  let ?st1 = "st\<lparr>apiCalls := apiCalls st @ [CapturePayPalOrder orderId (first_truthy [payerId])]\<rparr>"
  let ?args = "\<lparr>guestData = paypal_guestData pb guest orderId captureId st,
                slotOverride = Some s, eventTypeOverride = Some e\<rparr>"
  let ?fp = "final_payload s e (base_payload s e st (paypal_guestData pb guest orderId captureId st))
               (booking_meets env)"
  have g: "paypal_guestData pb guest orderId captureId ?st1 = paypal_guestData pb guest orderId captureId st"
    by (rule paypal_guestData_cong) simp
  have id: "et_id e \<noteq> []" using v by (simp add: valid_pending_def)
  have sc: "scoped ?args ?st1 = Some (s, e)"
    using id by (simp add: scoped_def or_else_def)
  have bp: "\<And>g. base_payload s e ?st1 g = base_payload s e st g"
    by (simp add: base_payload_def)
  obtain result st2 where r: "createBookingForContext ?args (booking_meets env) ?st1 = (result, st2)"
    by (cases "createBookingForContext ?args (booking_meets env) ?st1")
  have calls: "apiCalls st2 = apiCalls ?st1 @ (case ?fp of Inl err \<Rightarrow> [] | Inr p \<Rightarrow> [CreateBooking p])"
    using createBookingForContext_calls [of ?args "booking_meets env" ?st1]
    by (simp add: r sc bp)
  have ok: "result_ok result
              = (case ?fp of
                   Inl err \<Rightarrow> False
                 | Inr p \<Rightarrow> (case createBooking_settles (booking_meets env) of Inl err \<Rightarrow> False | Inr b \<Rightarrow> True)
                            \<and> \<not> callback_throws (onBookingSuccess (booking_meets env)))"
    using createBookingForContext_result_ok [of ?args "booking_meets env" ?st1]
    by (simp add: r sc bp)
  have fr: "pendingPayPalBooking st2 = pendingPayPalBooking st" "location st2 = location st"
    "paypalReturnHandled st2 = paypalReturnHandled st"
    using createBookingForContext_frame [of ?args "booking_meets env" ?st1] by (simp_all add: r)
  have rp: "resumed_payload pb guest orderId s e env st = (case ?fp of Inl err \<Rightarrow> None | Inr p \<Rightarrow> Some p)"
    by (simp add: resumed_payload_def Some)
  have rs: "resumed_booking_succeeds pb guest orderId s e env st = result_ok result"
    by (simp add: resumed_booking_succeeds_def rp ok split: sum.splits)
  have rj: "(\<exists>thrown. result = BookingRejected thrown)
              = (\<not> result_ok result \<and> callback_throws (onBookingError (booking_meets env)))"
    using createBookingForContext_rejected [of ?args "booking_meets env" ?st1]
    by (simp add: r sc)
  have cp: "completePayPalBooking pb payerId env st
              = (case result of
                   BookingRejected thrown \<Rightarrow> complete_catch thrown env st2
                 | BookingOk booking payload \<Rightarrow> (BookingOk booking payload, clearPendingPayPalBooking st2)
                 | BookingFailed error \<Rightarrow> (BookingFailed error, st2))"
    using complete_captured [OF v Some, of payerId st] by (simp add: g r)
  show ?thesis
  proof (cases result)
    case (BookingOk b p)
    then show ?thesis
      by (simp add: cp rs rp calls fr result_ok_simps clearPendingPayPalBooking_def Some
            split: sum.splits)
  next
    case (BookingFailed err)
    with rj have "\<not> callback_throws (onBookingError (booking_meets env))"
      by (simp add: result_ok_simps)
    with BookingFailed show ?thesis
      by (simp add: cp rs rp calls fr result_ok_simps Some split: sum.splits)
  next
    case (BookingRejected thrown)
    with rj have "callback_throws (onBookingError (booking_meets env))"
      by (simp add: result_ok_simps)
    with BookingRejected show ?thesis
      by (simp add: cp rs rp calls fr result_ok_simps complete_catch_frame complete_catch_rejected
            Some split: sum.splits)
  qed
qed

lemma effect_resumes:
  assumes "\<not> paypalReturnHandled st" and "pendingPayPalBooking st = Some pb"
    and "approval_return (location st) token payerId"
  shows "paypal_return_effect env st
           = (case completePayPalBooking pb (Some payerId) env (st\<lparr>paypalReturnHandled := True\<rparr>) of
                (BookingRejected thrown, st2) \<Rightarrow> st2
              | (result, st2) \<Rightarrow>
                  (let st3 = (if \<not> torn_down env \<and> \<not> result_ok result \<and> result_message result \<noteq> []
                              then st2\<lparr>booking_error := Some (result_message result)\<rparr>
                              else st2)
                   in if \<not> torn_down env then clearPayPalReturnParams st3 else st3))"
  using assms
  by (simp add: paypal_return_effect_def parsePayPalReturnContext_def approval_return_def
        readPendingPayPalBooking_def Let_def)

lemma effect_summary:
  assumes h: "\<not> paypalReturnHandled st" and p: "pendingPayPalBooking st = Some pb"
    and a: "approval_return (location st) token payerId"
    and v: "valid_pending pb orderId guest s e"
  shows "apiCalls (paypal_return_effect env st)
           = apiCalls st @ CapturePayPalOrder orderId (Some payerId)
               # (case resumed_payload pb guest orderId s e env st of None \<Rightarrow> [] | Some p \<Rightarrow> [CreateBooking p])"
    and "pendingPayPalBooking (paypal_return_effect env st)
           = (if resumed_booking_succeeds pb guest orderId s e env st then None else Some pb)"
    and "paypalReturnHandled (paypal_return_effect env st)"
    and "location (paypal_return_effect env st)
           = (if torn_down env
                 \<or> (captured env = None
                     \<or> \<not> resumed_booking_succeeds pb guest orderId s e env st
                        \<and> callback_throws (onBookingError (booking_meets env)))
                    \<and> onBookingError (booking_meets env) \<noteq> None
                    \<and> (\<exists>thrown. onBookingError_in_complete env = CallbackThrows thrown)
              then location st else no_params)"
proof -
  let ?st1 = "st\<lparr>paypalReturnHandled := True\<rparr>"
  obtain result st2 where c: "completePayPalBooking pb (Some payerId) env ?st1 = (result, st2)"
    by (cases "completePayPalBooking pb (Some payerId) env ?st1")
  note e = effect_resumes [OF h p a, of env, unfolded c, simplified]
  have ne: "payerId \<noteq> []" using a by (simp add: approval_return_def)
  note s = complete_summary [OF v, of "Some payerId" env ?st1, unfolded c, simplified]
  have rp: "resumed_payload pb guest orderId s e env ?st1 = resumed_payload pb guest orderId s e env st"
    by (simp add: resumed_payload_def paypal_guestData_def base_payload_def
          cong: option.case_cong sum.case_cong)
  have rs: "resumed_booking_succeeds pb guest orderId s e env ?st1
              = resumed_booking_succeeds pb guest orderId s e env st"
    by (simp add: resumed_booking_succeeds_def rp)
  from s have s1: "apiCalls st2 = apiCalls st @ CapturePayPalOrder orderId (Some payerId)
               # (case resumed_payload pb guest orderId s e env st of None \<Rightarrow> [] | Some p \<Rightarrow> [CreateBooking p])"
    and s3: "pendingPayPalBooking st2
               = (if resumed_booking_succeeds pb guest orderId s e env st then None else Some pb)"
    and s4: "location st2 = location st" and s5: "paypalReturnHandled st2"
    and s6: "(\<exists>thrown. result = BookingRejected thrown)
           = ((captured env = None
               \<or> \<not> resumed_booking_succeeds pb guest orderId s e env st
                  \<and> callback_throws (onBookingError (booking_meets env)))
              \<and> onBookingError (booking_meets env) \<noteq> None
              \<and> (\<exists>thrown. onBookingError_in_complete env = CallbackThrows thrown))"
    using ne p by (simp_all add: rp rs)
  show "apiCalls (paypal_return_effect env st)
           = apiCalls st @ CapturePayPalOrder orderId (Some payerId)
               # (case resumed_payload pb guest orderId s e env st of None \<Rightarrow> [] | Some p \<Rightarrow> [CreateBooking p])"
    by (cases result) (simp_all add: e Let_def clearPayPalReturnParams_def s1)
  show "pendingPayPalBooking (paypal_return_effect env st)
           = (if resumed_booking_succeeds pb guest orderId s e env st then None else Some pb)"
    by (cases result) (simp_all add: e Let_def clearPayPalReturnParams_def s3)
  show "paypalReturnHandled (paypal_return_effect env st)"
    by (cases result) (simp_all add: e Let_def clearPayPalReturnParams_def s5)
  show "location (paypal_return_effect env st)
           = (if torn_down env
                 \<or> (captured env = None
                     \<or> \<not> resumed_booking_succeeds pb guest orderId s e env st
                        \<and> callback_throws (onBookingError (booking_meets env)))
                    \<and> onBookingError (booking_meets env) \<noteq> None
                    \<and> (\<exists>thrown. onBookingError_in_complete env = CallbackThrows thrown)
              then location st else no_params)"
    unfolding s6 [symmetric]
    by (cases result) (simp_all add: e Let_def clearPayPalReturnParams_def no_params_def s4)
qed

lemma effect_idle:
  "paypalReturnHandled st \<or> location st = no_params \<Longrightarrow> paypal_return_effect env st = st"
  by (auto simp: paypal_return_effect_def parsePayPalReturnContext_def no_params_def Let_def)

lemma guest_email_of_resumed:
  "guest_email_trims (base_payload s e st (paypal_guestData pb guest orderId captureId st))
     = guest_email_trims guest"
  by (simp add: guest_email_trims_def base_payload_def paypal_guestData_def map_add_def
        split: option.splits)

lemma resolveSubmissionMeta_cases:
  "et_id e \<noteq> [] \<Longrightarrow> slot_start s \<noteq> [] \<Longrightarrow> slot_end s \<noteq> []
     \<Longrightarrow> resolveSubmissionMeta s e payload env
           = (if guest_email_trims payload then Inr (meta_object (submissionMeta env))
              else Inl (trim_TypeError env))"
  by (cases "payload ''guest_email''"; cases "the (payload ''guest_email'')")
     (simp_all add: resolveSubmissionMeta_def guest_email_trims_def)

text \<open>The payload a resumption sends when no hook is installed, key by key.\<close>

lemma resumed_payload_keys:
  fixes pb guest orderId captureId st s e m
  defines "p \<equiv> base_payload s e st (paypal_guestData pb guest orderId captureId st) ++ meta_object m"
  shows "p ''paypal_order_id'' = Some (JStr orderId)"
    and "p ''paypal_capture_id'' = Some (case captureId of Some c \<Rightarrow> JStr c | None \<Rightarrow> JUndefined)"
    and "guest ''event_type_id'' = None \<longrightarrow> p ''event_type_id'' = Some (JStr (et_id e))"
    and "guest ''start_time'' = None \<longrightarrow> p ''start_time'' = Some (JStr (slot_start s))"
    and "guest ''end_time'' = None \<longrightarrow> p ''end_time'' = Some (JStr (slot_end s))"
    and "\<forall>k v. guest k = Some v
            \<and> k \<notin> {''client_request_id'', ''source'', ''source_client'', ''source_details'',
                     ''signed_widget_token'', ''timezone'', ''paypal_order_id'',
                     ''paypal_capture_id''} \<longrightarrow> p k = Some v"
  by (auto simp: p_def base_payload_def paypal_guestData_def meta_object_def map_add_def)

text \<open>
  C1, as first stated, fails: booking creation follows the capture only when the capture
  call returns. With the test's pending booking stored and a return location carrying
  token and payer id, a capture call that fails (here: the network) is the only call
  made; no booking creation follows and the record stays stored.
\<close>

theorem capture_failure_counterexample:
  "apiCalls (paypal_return_effect (test_backend\<lparr>capture_settles := Inl network_error\<rparr>) at_return)
     = [CapturePayPalOrder ''ord_1'' (Some ''payer_1'')]
   \<and> pendingPayPalBooking
        (paypal_return_effect (test_backend\<lparr>capture_settles := Inl network_error\<rparr>) at_return)
     = Some test_pendingBooking"
  by (simp add: paypal_return_effect_def parsePayPalReturnContext_def test_return_def at_return_def
        initial_scheduler_def readPendingPayPalBooking_def completePayPalBooking_def
        test_pendingBooking_def test_backend_def complete_catch_def Let_def
        clearPayPalReturnParams_def result_ok_def test_booking_env_def test_slot_def
        test_event_def)

text \<open>
  C1, amended. Take a first page load (the one-shot flag unset) whose location carries an
  approval token and a payer id and no cancellation flag, and a stored pending booking
  with an order id, a guest payload, a slot with start and end and an event type with an
  id. Whatever the live state is, the resumption first calls the capture operation for
  the stored order id. A capture that fails is followed by no booking creation. If the
  capture call returns without reporting failure, booking creation runs on the
  snapshotted payload, slot and event type: with no before-book hook installed and a
  guest email that is a string or missing, it issues one call, whose payload carries
  \<open>paypal_order_id\<close> set to the stored order id, \<open>paypal_capture_id\<close> set to the returned
  capture id (\<open>undefined\<close> if the capture result carried none), the snapshot's event type
  id and slot times where the guest payload does not set these keys itself, and the
  guest payload's other properties; an installed hook may stop the call or change the
  payload, and a guest email that is truthy and not a string stops it. The stored record
  is deleted if and only if booking creation returns \<open>ok\<close>: the call was issued and
  resolved, and the success callback, if any, did not throw; otherwise it stays. The
  callback parameters are stripped from the location when the resumption has finished,
  except in two cases, in which they stay: the effect was torn down meanwhile; or the
  promise of the resumption rejects, which it does exactly when its \<open>catch\<close> block is
  entered (the capture failed, or booking creation did not return \<open>ok\<close> and the error
  callback threw there) and the installed error callback throws in it. A second run of
  the effect does nothing, nor does a run on a new page load at a stripped location.
\<close>

theorem paypal_resumption:
  "\<not> paypalReturnHandled st \<and> pendingPayPalBooking st = Some pb
   \<and> approval_return (location st) token payerId
   \<and> valid_pending pb orderId guest s e \<longrightarrow>
     apiCalls (paypal_return_effect env st)
       = apiCalls st @ CapturePayPalOrder orderId (Some payerId)
           # (case resumed_payload pb guest orderId s e env st of None \<Rightarrow> [] | Some p \<Rightarrow> [CreateBooking p])
   \<and> (captured env = None \<longrightarrow> resumed_payload pb guest orderId s e env st = None)
   \<and> (captured env \<noteq> None \<and> \<not> guest_email_trims guest \<longrightarrow>
        resumed_payload pb guest orderId s e env st = None)
   \<and> (\<forall>captureId. captured env = Some captureId \<and> guest_email_trims guest \<longrightarrow>
        (onBeforeBook (booking_meets env) = None \<longrightarrow>
           resumed_payload pb guest orderId s e env st
             = Some (base_payload s e st (paypal_guestData pb guest orderId captureId st)
                       ++ meta_object (submissionMeta (booking_meets env))))
      \<and> (\<forall>hook. onBeforeBook (booking_meets env) = Some hook \<longrightarrow>
           resumed_payload pb guest orderId s e env st
             = (case hook (base_payload s e st (paypal_guestData pb guest orderId captureId st)
                             ++ meta_object (submissionMeta (booking_meets env))) of
                  HookThrows err \<Rightarrow> None
                | HookReturns payload2 ReturnsFalse \<Rightarrow> None
                | HookReturns payload2 (ReturnsObject beforeResult) \<Rightarrow> Some (payload2 ++ beforeResult)
                | HookReturns payload2 ReturnsOther \<Rightarrow> Some payload2))
      \<and> (base_payload s e st (paypal_guestData pb guest orderId captureId st)
            ++ meta_object (submissionMeta (booking_meets env))) ''paypal_order_id''
          = Some (JStr orderId)
      \<and> (base_payload s e st (paypal_guestData pb guest orderId captureId st)
            ++ meta_object (submissionMeta (booking_meets env))) ''paypal_capture_id''
          = Some (case captureId of Some c \<Rightarrow> JStr c | None \<Rightarrow> JUndefined)
      \<and> (guest ''event_type_id'' = None \<longrightarrow>
           (base_payload s e st (paypal_guestData pb guest orderId captureId st)
              ++ meta_object (submissionMeta (booking_meets env))) ''event_type_id''
             = Some (JStr (et_id e)))
      \<and> (guest ''start_time'' = None \<longrightarrow>
           (base_payload s e st (paypal_guestData pb guest orderId captureId st)
              ++ meta_object (submissionMeta (booking_meets env))) ''start_time''
             = Some (JStr (slot_start s)))
      \<and> (guest ''end_time'' = None \<longrightarrow>
           (base_payload s e st (paypal_guestData pb guest orderId captureId st)
              ++ meta_object (submissionMeta (booking_meets env))) ''end_time''
             = Some (JStr (slot_end s)))
      \<and> (\<forall>k v. guest k = Some v
             \<and> k \<notin> {''client_request_id'', ''source'', ''source_client'', ''source_details'',
                      ''signed_widget_token'', ''timezone'', ''paypal_order_id'',
                      ''paypal_capture_id''} \<longrightarrow>
             (base_payload s e st (paypal_guestData pb guest orderId captureId st)
                ++ meta_object (submissionMeta (booking_meets env))) k = Some v))
   \<and> (pendingPayPalBooking (paypal_return_effect env st) = None)
        = (resumed_payload pb guest orderId s e env st \<noteq> None
           \<and> (\<exists>booking. createBooking_settles (booking_meets env) = Inr booking)
           \<and> \<not> callback_throws (onBookingSuccess (booking_meets env)))
   \<and> (pendingPayPalBooking (paypal_return_effect env st) \<noteq> None \<longrightarrow>
        pendingPayPalBooking (paypal_return_effect env st) = Some pb)
   \<and> location (paypal_return_effect env st)
       = (if torn_down env
             \<or> (captured env = None
                 \<or> pendingPayPalBooking (paypal_return_effect env st) \<noteq> None
                    \<and> callback_throws (onBookingError (booking_meets env)))
                \<and> onBookingError (booking_meets env) \<noteq> None
                \<and> (\<exists>thrown. onBookingError_in_complete env = CallbackThrows thrown)
          then location st else no_params)
   \<and> paypal_return_effect env2 (paypal_return_effect env st) = paypal_return_effect env st
   \<and> (location (paypal_return_effect env st) = no_params \<longrightarrow>
        paypal_return_effect env2 ((paypal_return_effect env st)\<lparr>paypalReturnHandled := False\<rparr>)
          = (paypal_return_effect env st)\<lparr>paypalReturnHandled := False\<rparr>)"
proof (intro impI, elim conjE)
  assume h: "\<not> paypalReturnHandled st" and pd: "pendingPayPalBooking st = Some pb"
    and a: "approval_return (location st) token payerId"
    and v: "valid_pending pb orderId guest s e"
  note sm = effect_summary [OF h pd a v, of env]
  let ?rp = "resumed_payload pb guest orderId s e env st"
  have id: "et_id e \<noteq> []" "slot_start s \<noteq> []" "slot_end s \<noteq> []"
    using v by (simp_all add: valid_pending_def)
  have c1: "captured env = None \<longrightarrow> ?rp = None"
    by (simp add: resumed_payload_def)
  have c2: "captured env \<noteq> None \<and> \<not> guest_email_trims guest \<longrightarrow> ?rp = None"
  proof (intro impI, elim conjE)
    assume "captured env \<noteq> None" and ng: "\<not> guest_email_trims guest"
    then obtain captureId where c: "captured env = Some captureId" by auto
    have "\<not> guest_email_trims (base_payload s e st (paypal_guestData pb guest orderId captureId st))"
      using ng by (simp add: guest_email_of_resumed)
    then have "\<exists>err. final_payload s e (base_payload s e st (paypal_guestData pb guest orderId captureId st))
                 (booking_meets env) = Inl err"
      using id by (simp add: final_payload_def resolveSubmissionMeta_cases)
    then show "?rp = None"
      by (auto simp: resumed_payload_def c)
  qed
  have c3: "\<forall>captureId. captured env = Some captureId \<and> guest_email_trims guest \<longrightarrow>
        (onBeforeBook (booking_meets env) = None \<longrightarrow>
           ?rp = Some (base_payload s e st (paypal_guestData pb guest orderId captureId st)
                       ++ meta_object (submissionMeta (booking_meets env))))
      \<and> (\<forall>hook. onBeforeBook (booking_meets env) = Some hook \<longrightarrow>
           ?rp = (case hook (base_payload s e st (paypal_guestData pb guest orderId captureId st)
                             ++ meta_object (submissionMeta (booking_meets env))) of
                  HookThrows err \<Rightarrow> None
                | HookReturns payload2 ReturnsFalse \<Rightarrow> None
                | HookReturns payload2 (ReturnsObject beforeResult) \<Rightarrow> Some (payload2 ++ beforeResult)
                | HookReturns payload2 ReturnsOther \<Rightarrow> Some payload2))
      \<and> (base_payload s e st (paypal_guestData pb guest orderId captureId st)
            ++ meta_object (submissionMeta (booking_meets env))) ''paypal_order_id''
          = Some (JStr orderId)
      \<and> (base_payload s e st (paypal_guestData pb guest orderId captureId st)
            ++ meta_object (submissionMeta (booking_meets env))) ''paypal_capture_id''
          = Some (case captureId of Some c \<Rightarrow> JStr c | None \<Rightarrow> JUndefined)
      \<and> (guest ''event_type_id'' = None \<longrightarrow>
           (base_payload s e st (paypal_guestData pb guest orderId captureId st)
              ++ meta_object (submissionMeta (booking_meets env))) ''event_type_id''
             = Some (JStr (et_id e)))
      \<and> (guest ''start_time'' = None \<longrightarrow>
           (base_payload s e st (paypal_guestData pb guest orderId captureId st)
              ++ meta_object (submissionMeta (booking_meets env))) ''start_time''
             = Some (JStr (slot_start s)))
      \<and> (guest ''end_time'' = None \<longrightarrow>
           (base_payload s e st (paypal_guestData pb guest orderId captureId st)
              ++ meta_object (submissionMeta (booking_meets env))) ''end_time''
             = Some (JStr (slot_end s)))
      \<and> (\<forall>k v. guest k = Some v
             \<and> k \<notin> {''client_request_id'', ''source'', ''source_client'', ''source_details'',
                      ''signed_widget_token'', ''timezone'', ''paypal_order_id'',
                      ''paypal_capture_id''} \<longrightarrow>
             (base_payload s e st (paypal_guestData pb guest orderId captureId st)
                ++ meta_object (submissionMeta (booking_meets env))) k = Some v)"
  proof (intro allI impI, elim conjE)
    fix captureId
    assume c: "captured env = Some captureId" and g: "guest_email_trims guest"
    let ?p0 = "base_payload s e st (paypal_guestData pb guest orderId captureId st)"
    let ?p1 = "?p0 ++ meta_object (submissionMeta (booking_meets env))"
    have ge: "guest_email_trims ?p0"
      using g by (simp add: guest_email_of_resumed)
    have meta: "resolveSubmissionMeta s e ?p0 (booking_meets env)
                  = Inr (meta_object (submissionMeta (booking_meets env)))"
      using id ge by (simp add: resolveSubmissionMeta_cases)
    have k1: "onBeforeBook (booking_meets env) = None \<longrightarrow> ?rp = Some ?p1"
      by (simp add: resumed_payload_def c final_payload_def meta Let_def)
    have k2: "\<forall>hook. onBeforeBook (booking_meets env) = Some hook \<longrightarrow>
           ?rp = (case hook ?p1 of
                  HookThrows err \<Rightarrow> None
                | HookReturns payload2 ReturnsFalse \<Rightarrow> None
                | HookReturns payload2 (ReturnsObject beforeResult) \<Rightarrow> Some (payload2 ++ beforeResult)
                | HookReturns payload2 ReturnsOther \<Rightarrow> Some payload2)"
      by (simp add: resumed_payload_def c final_payload_def meta Let_def
            split: hook_run.splits before_result.splits)
    note keys = resumed_payload_keys [where s = s and e = e and st = st and pb = pb and guest = guest
        and orderId = orderId and captureId = captureId and m = "submissionMeta (booking_meets env)"]
    from k1 k2 keys
    show "(onBeforeBook (booking_meets env) = None \<longrightarrow> ?rp = Some ?p1)
      \<and> (\<forall>hook. onBeforeBook (booking_meets env) = Some hook \<longrightarrow>
           ?rp = (case hook ?p1 of
                  HookThrows err \<Rightarrow> None
                | HookReturns payload2 ReturnsFalse \<Rightarrow> None
                | HookReturns payload2 (ReturnsObject beforeResult) \<Rightarrow> Some (payload2 ++ beforeResult)
                | HookReturns payload2 ReturnsOther \<Rightarrow> Some payload2))
      \<and> ?p1 ''paypal_order_id'' = Some (JStr orderId)
      \<and> ?p1 ''paypal_capture_id'' = Some (case captureId of Some c \<Rightarrow> JStr c | None \<Rightarrow> JUndefined)
      \<and> (guest ''event_type_id'' = None \<longrightarrow> ?p1 ''event_type_id'' = Some (JStr (et_id e)))
      \<and> (guest ''start_time'' = None \<longrightarrow> ?p1 ''start_time'' = Some (JStr (slot_start s)))
      \<and> (guest ''end_time'' = None \<longrightarrow> ?p1 ''end_time'' = Some (JStr (slot_end s)))
      \<and> (\<forall>k v. guest k = Some v
             \<and> k \<notin> {''client_request_id'', ''source'', ''source_client'', ''source_details'',
                      ''signed_widget_token'', ''timezone'', ''paypal_order_id'',
                      ''paypal_capture_id''} \<longrightarrow> ?p1 k = Some v)"
      by blast
  qed
  have rs: "resumed_booking_succeeds pb guest orderId s e env st
              = (?rp \<noteq> None
                 \<and> (\<exists>booking. createBooking_settles (booking_meets env) = Inr booking)
                 \<and> \<not> callback_throws (onBookingSuccess (booking_meets env)))"
    by (auto simp: resumed_booking_succeeds_def split: sum.splits)
  have c4: "(pendingPayPalBooking (paypal_return_effect env st) = None)
        = (?rp \<noteq> None
           \<and> (\<exists>booking. createBooking_settles (booking_meets env) = Inr booking)
           \<and> \<not> callback_throws (onBookingSuccess (booking_meets env)))"
    unfolding rs [symmetric] by (simp add: sm(2))
  have c5: "pendingPayPalBooking (paypal_return_effect env st) \<noteq> None \<longrightarrow>
        pendingPayPalBooking (paypal_return_effect env st) = Some pb"
    by (simp add: sm(2))
  have c6: "location (paypal_return_effect env st)
       = (if torn_down env
             \<or> (captured env = None
                 \<or> pendingPayPalBooking (paypal_return_effect env st) \<noteq> None
                    \<and> callback_throws (onBookingError (booking_meets env)))
                \<and> onBookingError (booking_meets env) \<noteq> None
                \<and> (\<exists>thrown. onBookingError_in_complete env = CallbackThrows thrown)
          then location st else no_params)"
    unfolding c4 rs [symmetric] by (rule sm(4))
  have c7: "paypal_return_effect env2 (paypal_return_effect env st) = paypal_return_effect env st"
    by (rule effect_idle) (simp add: sm(3))
  have c8: "location (paypal_return_effect env st) = no_params \<longrightarrow>
        paypal_return_effect env2 ((paypal_return_effect env st)\<lparr>paypalReturnHandled := False\<rparr>)
          = (paypal_return_effect env st)\<lparr>paypalReturnHandled := False\<rparr>"
    by (intro impI effect_idle) simp
  from sm(1) c1 c2 c3 c4 c5 c6 c7 c8
  show "apiCalls (paypal_return_effect env st)
       = apiCalls st @ CapturePayPalOrder orderId (Some payerId)
           # (case resumed_payload pb guest orderId s e env st of None \<Rightarrow> [] | Some p \<Rightarrow> [CreateBooking p])
   \<and> (captured env = None \<longrightarrow> resumed_payload pb guest orderId s e env st = None)
   \<and> (captured env \<noteq> None \<and> \<not> guest_email_trims guest \<longrightarrow>
        resumed_payload pb guest orderId s e env st = None)
   \<and> (\<forall>captureId. captured env = Some captureId \<and> guest_email_trims guest \<longrightarrow>
        (onBeforeBook (booking_meets env) = None \<longrightarrow>
           resumed_payload pb guest orderId s e env st
             = Some (base_payload s e st (paypal_guestData pb guest orderId captureId st)
                       ++ meta_object (submissionMeta (booking_meets env))))
      \<and> (\<forall>hook. onBeforeBook (booking_meets env) = Some hook \<longrightarrow>
           resumed_payload pb guest orderId s e env st
             = (case hook (base_payload s e st (paypal_guestData pb guest orderId captureId st)
                             ++ meta_object (submissionMeta (booking_meets env))) of
                  HookThrows err \<Rightarrow> None
                | HookReturns payload2 ReturnsFalse \<Rightarrow> None
                | HookReturns payload2 (ReturnsObject beforeResult) \<Rightarrow> Some (payload2 ++ beforeResult)
                | HookReturns payload2 ReturnsOther \<Rightarrow> Some payload2))
      \<and> (base_payload s e st (paypal_guestData pb guest orderId captureId st)
            ++ meta_object (submissionMeta (booking_meets env))) ''paypal_order_id''
          = Some (JStr orderId)
      \<and> (base_payload s e st (paypal_guestData pb guest orderId captureId st)
            ++ meta_object (submissionMeta (booking_meets env))) ''paypal_capture_id''
          = Some (case captureId of Some c \<Rightarrow> JStr c | None \<Rightarrow> JUndefined)
      \<and> (guest ''event_type_id'' = None \<longrightarrow>
           (base_payload s e st (paypal_guestData pb guest orderId captureId st)
              ++ meta_object (submissionMeta (booking_meets env))) ''event_type_id''
             = Some (JStr (et_id e)))
      \<and> (guest ''start_time'' = None \<longrightarrow>
           (base_payload s e st (paypal_guestData pb guest orderId captureId st)
              ++ meta_object (submissionMeta (booking_meets env))) ''start_time''
             = Some (JStr (slot_start s)))
      \<and> (guest ''end_time'' = None \<longrightarrow>
           (base_payload s e st (paypal_guestData pb guest orderId captureId st)
              ++ meta_object (submissionMeta (booking_meets env))) ''end_time''
             = Some (JStr (slot_end s)))
      \<and> (\<forall>k v. guest k = Some v
             \<and> k \<notin> {''client_request_id'', ''source'', ''source_client'', ''source_details'',
                      ''signed_widget_token'', ''timezone'', ''paypal_order_id'',
                      ''paypal_capture_id''} \<longrightarrow>
             (base_payload s e st (paypal_guestData pb guest orderId captureId st)
                ++ meta_object (submissionMeta (booking_meets env))) k = Some v))
   \<and> (pendingPayPalBooking (paypal_return_effect env st) = None)
        = (resumed_payload pb guest orderId s e env st \<noteq> None
           \<and> (\<exists>booking. createBooking_settles (booking_meets env) = Inr booking)
           \<and> \<not> callback_throws (onBookingSuccess (booking_meets env)))
   \<and> (pendingPayPalBooking (paypal_return_effect env st) \<noteq> None \<longrightarrow>
        pendingPayPalBooking (paypal_return_effect env st) = Some pb)
   \<and> location (paypal_return_effect env st)
       = (if torn_down env
             \<or> (captured env = None
                 \<or> pendingPayPalBooking (paypal_return_effect env st) \<noteq> None
                    \<and> callback_throws (onBookingError (booking_meets env)))
                \<and> onBookingError (booking_meets env) \<noteq> None
                \<and> (\<exists>thrown. onBookingError_in_complete env = CallbackThrows thrown)
          then location st else no_params)
   \<and> paypal_return_effect env2 (paypal_return_effect env st) = paypal_return_effect env st
   \<and> (location (paypal_return_effect env st) = no_params \<longrightarrow>
        paypal_return_effect env2 ((paypal_return_effect env st)\<lparr>paypalReturnHandled := False\<rparr>)
          = (paypal_return_effect env st)\<lparr>paypalReturnHandled := False\<rparr>)"
    by blast
qed

text \<open>
  The repository's integration test as an instance: coming back with token \<open>EC-1\<close> and
  payer \<open>payer_1\<close> for the stored order \<open>ord_1\<close>, the provider calls the capture, then
  creates the booking with the order id and the capture id \<open>cap_1\<close> on the snapshotted
  slot, deletes the stored record and strips the location; a second run does nothing.
\<close>

theorem paypal_resumption_witness:
  "(\<exists>p. apiCalls (paypal_return_effect test_backend at_return)
           = [CapturePayPalOrder ''ord_1'' (Some ''payer_1''), CreateBooking p]
        \<and> p ''paypal_order_id'' = Some (JStr ''ord_1'')
        \<and> p ''paypal_capture_id'' = Some (JStr ''cap_1'')
        \<and> p ''event_type_id'' = Some (JStr ''evt_1'')
        \<and> p ''start_time'' = Some (JStr ''2026-05-10T10:00:00.000Z'')
        \<and> p ''end_time'' = Some (JStr ''2026-05-10T10:30:00.000Z'')
        \<and> p ''guest_email'' = Some (JStr ''jane@example.com'')
        \<and> p ''guest_name'' = Some (JStr ''Jane Guest''))
   \<and> pendingPayPalBooking (paypal_return_effect test_backend at_return) = None
   \<and> location (paypal_return_effect test_backend at_return) = no_params
   \<and> paypal_return_effect test_backend (paypal_return_effect test_backend at_return)
       = paypal_return_effect test_backend at_return"
proof -
  let ?guest = "[''guest_name'' \<mapsto> JStr ''Jane Guest'', ''guest_email'' \<mapsto> JStr ''jane@example.com'']"
  let ?p = "base_payload test_slot test_event at_return
              (paypal_guestData test_pendingBooking ?guest ''ord_1'' (Some ''cap_1'') at_return)
            ++ meta_object (submissionMeta (booking_meets test_backend))"
  have h: "\<not> paypalReturnHandled at_return \<and> pendingPayPalBooking at_return = Some test_pendingBooking
           \<and> approval_return (location at_return) ''EC-1'' ''payer_1''
           \<and> valid_pending test_pendingBooking ''ord_1'' ?guest test_slot test_event"
    by (simp add: at_return_def initial_scheduler_def approval_return_def test_return_def
          valid_pending_def test_pendingBooking_def test_slot_def test_event_def)
  have cap: "captured test_backend = Some (Some ''cap_1'')"
    by (simp add: captured_def test_backend_def)
  have g: "guest_email_trims ?guest"
    by (simp add: guest_email_trims_def)
  have env: "onBeforeBook (booking_meets test_backend) = None"
    "createBooking_settles (booking_meets test_backend) = Inr (Some [''id'' \<mapsto> JStr ''book_1''])"
    "\<not> callback_throws (onBookingSuccess (booking_meets test_backend))"
    "\<not> torn_down test_backend" "onBookingError (booking_meets test_backend) = None"
    by (simp_all add: test_backend_def test_booking_env_def callback_throws_def)
  note th = paypal_resumption
    [where st = at_return and pb = test_pendingBooking and token = "''EC-1''"
       and payerId = "''payer_1''" and orderId = "''ord_1''" and guest = ?guest
       and s = test_slot and e = test_event and env = test_backend and ?env2.0 = test_backend,
     THEN mp, OF h]
  note payload = th [THEN conjunct2, THEN conjunct2, THEN conjunct2, THEN conjunct1, rule_format,
    of "Some ''cap_1''", OF conjI, OF cap g]
  from payload env(1) have rp:
    "resumed_payload test_pendingBooking ?guest ''ord_1'' test_slot test_event test_backend at_return
       = Some ?p"
    by blast
  from th have calls: "apiCalls (paypal_return_effect test_backend at_return)
      = apiCalls at_return @ [CapturePayPalOrder ''ord_1'' (Some ''payer_1''), CreateBooking ?p]"
    by (simp add: rp)
  have none: "apiCalls at_return = []"
    by (simp add: at_return_def initial_scheduler_def)
  from payload have k1: "?p ''paypal_order_id'' = Some (JStr ''ord_1'')"
    and k2: "?p ''paypal_capture_id'' = Some (JStr ''cap_1'')"
    and k3: "?p ''event_type_id'' = Some (JStr ''evt_1'')"
    and k4: "?p ''start_time'' = Some (JStr ''2026-05-10T10:00:00.000Z'')"
    and k5: "?p ''end_time'' = Some (JStr ''2026-05-10T10:30:00.000Z'')"
    by (simp_all add: test_event_def test_slot_def)
  from payload have k6: "?p ''guest_email'' = Some (JStr ''jane@example.com'')"
    and k7: "?p ''guest_name'' = Some (JStr ''Jane Guest'')"
    by simp_all
  from th have pend: "pendingPayPalBooking (paypal_return_effect test_backend at_return) = None"
    by (simp add: rp env)
  from pend th have loc: "location (paypal_return_effect test_backend at_return) = no_params"
    by (simp add: env cap)
  from th have twice: "paypal_return_effect test_backend (paypal_return_effect test_backend at_return)
       = paypal_return_effect test_backend at_return"
    by simp
  from calls none k1 k2 k3 k4 k5 k6 k7 pend loc twice show ?thesis
    by simp
qed

section \<open>Submitting while a submission is pending\<close>

lemma submit_twice_sent_both:
  assumes sl: "selectedSlot st = Some s" and ev: "eventType st = Some e" and id: "et_id e \<noteq> []"
    and p1: "final_payload s e (base_payload s e st g1) env1 = Inr p1"
    and p2: "final_payload s e (base_payload s e st g2) env2 = Inr p2"
  obtains st4 where
      "submit_twice_sent g1 env1 g2 env2 st = (Some ((s, e), Inr p1), Some ((s, e), Inr p2), st4)"
      "apiCalls st4 = apiCalls st @ [CreateBooking p1, CreateBooking p2]"
      "isSubmitting st4"
proof -
  let ?a1 = "\<lparr>guestData = g1, slotOverride = None, eventTypeOverride = None\<rparr>"
  let ?a2 = "\<lparr>guestData = g2, slotOverride = None, eventTypeOverride = None\<rparr>"
  have sc1: "scoped ?a1 st = Some (s, e)"
    using sl ev id by (simp add: scoped_def or_else_def)
  obtain st1 where b1: "booking_begin ?a1 st = (Some (s, e), st1)"
    and c1: "apiCalls st1 = apiCalls st" and tz1: "userTimezone st1 = userTimezone st"
    and sl1: "selectedSlot st1 = selectedSlot st" and ev1: "eventType st1 = eventType st"
    using booking_begin_accepted [OF sc1] by (cases "booking_begin ?a1 st") auto
  have sc2: "scoped ?a2 st1 = Some (s, e)"
    using sl ev id sl1 ev1 by (simp add: scoped_def or_else_def)
  obtain st2 where b2: "booking_begin ?a2 st1 = (Some (s, e), st2)"
    and c2: "apiCalls st2 = apiCalls st1" and tz2: "userTimezone st2 = userTimezone st1"
    and su2: "isSubmitting st2"
    using booking_begin_accepted [OF sc2] by (cases "booking_begin ?a2 st1") auto
  have bp1: "base_payload s e st2 g1 = base_payload s e st g1"
    by (simp add: base_payload_def tz1 tz2)
  have s1: "booking_send ?a1 (s, e) env1 st2
              = (Inr p1, st2\<lparr>apiCalls := apiCalls st2 @ [CreateBooking p1]\<rparr>)"
    by (simp add: booking_send_def bp1 p1)
  let ?st3 = "st2\<lparr>apiCalls := apiCalls st2 @ [CreateBooking p1]\<rparr>"
  have bp2: "base_payload s e ?st3 g2 = base_payload s e st g2"
    by (simp add: base_payload_def tz1 tz2)
  have s2: "booking_send ?a2 (s, e) env2 ?st3
              = (Inr p2, ?st3\<lparr>apiCalls := apiCalls ?st3 @ [CreateBooking p2]\<rparr>)"
    by (simp add: booking_send_def bp2 p2)
  let ?st4 = "?st3\<lparr>apiCalls := apiCalls ?st3 @ [CreateBooking p2]\<rparr>"
  show thesis
  proof (rule that [of ?st4])
    show "submit_twice_sent g1 env1 g2 env2 st = (Some ((s, e), Inr p1), Some ((s, e), Inr p2), ?st4)"
      by (simp add: submit_twice_sent_def b1 b2 s1 s2)
    show "apiCalls ?st4 = apiCalls st @ [CreateBooking p1, CreateBooking p2]"
      by (simp add: c1 c2)
    show "isSubmitting ?st4"
      by (simp add: su2)
  qed
qed

lemma submit_twice_overlap:
  assumes sl: "selectedSlot st = Some s" and ev: "eventType st = Some e" and id: "et_id e \<noteq> []"
    and p1: "final_payload s e (base_payload s e st g1) env1 = Inr p1"
    and p2: "final_payload s e (base_payload s e st g2) env2 = Inr p2"
  shows "isSubmitting (snd (snd (submit_twice_sent g1 env1 g2 env2 st)))
         \<and> createBooking_calls (snd (snd (submit_twice_sent g1 env1 g2 env2 st)))
             = createBooking_calls st @ [p1, p2]
         \<and> \<not> isSubmitting (submit_twice_first_settled g1 env1 g2 env2 st)
         \<and> createBooking_calls (submit_twice_first_settled g1 env1 g2 env2 st)
             = createBooking_calls st @ [p1, p2]
         \<and> createBooking_calls (submit_twice g1 env1 g2 env2 st) = createBooking_calls st @ [p1, p2]"
proof -
  obtain st4 where t: "submit_twice_sent g1 env1 g2 env2 st
                         = (Some ((s, e), Inr p1), Some ((s, e), Inr p2), st4)"
    and c: "apiCalls st4 = apiCalls st @ [CreateBooking p1, CreateBooking p2]"
    and su: "isSubmitting st4"
    by (rule submit_twice_sent_both [OF assms])
  have f: "submit_twice_first_settled g1 env1 g2 env2 st = snd (booking_settle (s, e) (Inr p1) env1 st4)"
    by (simp add: submit_twice_first_settled_def t)
  have g: "submit_twice g1 env1 g2 env2 st
             = snd (booking_settle (s, e) (Inr p2) env2 (snd (booking_settle (s, e) (Inr p1) env1 st4)))"
    by (simp add: submit_twice_def t f)
  show ?thesis
    by (simp add: t f g su booking_settle_frame createBooking_calls_def c)
qed

text \<open>
  C2, as first stated, fails: the submit action does not look at \<open>isSubmitting\<close>. Submit
  is triggered on a form at CONFIRM with a slot selected; \<open>isSubmitting\<close> is then true;
  a second trigger before the first call settles issues a second booking-creation call.
\<close>

theorem double_submit_counterexample:
  "isSubmitting (snd (booking_begin
       \<lparr>guestData = [''guest_name'' \<mapsto> JStr ''Jane Guest'', ''guest_email'' \<mapsto> JStr ''jane@example.com''],
        slotOverride = None, eventTypeOverride = None\<rparr> at_confirm))
   \<and> map (\<lambda>p. p ''client_request_id'')
        (createBooking_calls (submit_twice
           [''guest_name'' \<mapsto> JStr ''Jane Guest'', ''guest_email'' \<mapsto> JStr ''jane@example.com'']
           test_booking_env
           [''guest_name'' \<mapsto> JStr ''Jane Guest'', ''guest_email'' \<mapsto> JStr ''jane@example.com'']
           test_booking_env at_confirm))
       = [Some (JStr ''req_1''), Some (JStr ''req_1'')]"
proof -
  let ?g = "[''guest_name'' \<mapsto> JStr ''Jane Guest'', ''guest_email'' \<mapsto> JStr ''jane@example.com'']"
  have sl: "selectedSlot at_confirm = Some test_slot"
    and ev: "eventType at_confirm = Some test_event"
    and no: "createBooking_calls at_confirm = []"
    by (simp_all add: at_confirm_def initial_scheduler_def createBooking_calls_def)
  have id: "et_id test_event \<noteq> []" "slot_start test_slot \<noteq> []" "slot_end test_slot \<noteq> []"
    by (simp_all add: test_event_def test_slot_def)
  have ge: "guest_email_trims (base_payload test_slot test_event at_confirm ?g)"
    by (simp add: guest_email_trims_def base_payload_def)
  have fp: "final_payload test_slot test_event (base_payload test_slot test_event at_confirm ?g)
              test_booking_env
            = Inr (base_payload test_slot test_event at_confirm ?g ++ meta_object test_meta)"
    using final_payload_no_hook [OF _ id ge, of test_booking_env]
    by (simp add: test_booking_env_def)
  have a: "isSubmitting (snd (booking_begin
       \<lparr>guestData = ?g, slotOverride = None, eventTypeOverride = None\<rparr> at_confirm))"
    by (rule booking_begin_accepted(2)) (simp add: scoped_def or_else_def sl ev id)
  have b: "createBooking_calls (submit_twice ?g test_booking_env ?g test_booking_env at_confirm)
             = [base_payload test_slot test_event at_confirm ?g ++ meta_object test_meta,
                base_payload test_slot test_event at_confirm ?g ++ meta_object test_meta]"
    using submit_twice_overlap [OF sl ev id(1) fp fp] by (simp add: no)
  have c: "(base_payload test_slot test_event at_confirm ?g ++ meta_object test_meta) ''client_request_id''
             = Some (JStr ''req_1'')"
    by (simp add: meta_object_def test_meta_def map_add_def)
  from a b c show ?thesis by simp
qed

text \<open>
  C2, amended. A run of booking creation that passes its guard sets \<open>isSubmitting\<close>, and
  the settling of any run clears it, whatever other run is pending. The booking form's
  submit button is disabled while the flag is set if the form's \<open>isLoading\<close> prop is not
  given or is given as true (the widget passes the flag); given as false, the flag plays
  no part in the button's state. That button is the gate on duplicate triggers: the
  submit action itself does not read the flag, and its guard comes out the same whatever
  \<open>isSubmitting\<close> is. Each run issues one booking-creation call of its own (none when its
  guard fails, or the meta or the before-book hook throws, or the hook vetoes). So when
  submit is triggered twice on a state with a slot and an event type, the second time
  before the first call settles, two calls are issued; the flag is set while both are
  pending and is cleared when the first settles, while the second is still pending.
\<close>

theorem submit_one_call_per_run:
  "(scoped args st \<noteq> None \<longrightarrow> isSubmitting (snd (booking_begin args st)))
   \<and> \<not> isSubmitting (snd (booking_settle ctx sent env st))
   \<and> (isSubmitting st \<longrightarrow>
        submit_button_disabled None props form st
        \<and> submit_button_disabled (Some True) props form st)
   \<and> submit_button_disabled (Some False) props form st
        = (\<not> form_isValid form \<or> isCreatingPayment form
           \<or> (isPaidEvent props \<and> isLoadingPaymentInfo form))
   \<and> fst (booking_begin args (st\<lparr>isSubmitting := True\<rparr>)) = fst (booking_begin args st)
   \<and> createBooking_calls (snd (createBookingForContext args env st))
        = createBooking_calls st
          @ (case scoped args st of
               None \<Rightarrow> []
             | Some (s, e) \<Rightarrow>
                 (case final_payload s e (base_payload s e st (guestData args)) env of
                    Inl err \<Rightarrow> []
                  | Inr p \<Rightarrow> [p]))
   \<and> (selectedSlot st = Some s \<and> eventType st = Some e \<and> et_id e \<noteq> []
        \<and> final_payload s e (base_payload s e st g1) env1 = Inr p1
        \<and> final_payload s e (base_payload s e st g2) env2 = Inr p2 \<longrightarrow>
        isSubmitting (snd (snd (submit_twice_sent g1 env1 g2 env2 st)))
        \<and> createBooking_calls (snd (snd (submit_twice_sent g1 env1 g2 env2 st)))
            = createBooking_calls st @ [p1, p2]
        \<and> \<not> isSubmitting (submit_twice_first_settled g1 env1 g2 env2 st)
        \<and> createBooking_calls (submit_twice_first_settled g1 env1 g2 env2 st)
            = createBooking_calls st @ [p1, p2]
        \<and> createBooking_calls (submit_twice g1 env1 g2 env2 st) = createBooking_calls st @ [p1, p2])"
proof -
  have a: "scoped args st \<noteq> None \<longrightarrow> isSubmitting (snd (booking_begin args st))"
    using booking_begin_accepted(2) [of args st] by auto
  have a': "\<not> isSubmitting (snd (booking_settle ctx sent env st))"
    by (rule booking_settle_frame)
  have b: "isSubmitting st \<longrightarrow>
        submit_button_disabled None props form st
        \<and> submit_button_disabled (Some True) props form st"
    by (simp add: submit_button_disabled_def resolvedIsLoading_def)
  have b': "submit_button_disabled (Some False) props form st
        = (\<not> form_isValid form \<or> isCreatingPayment form
           \<or> (isPaidEvent props \<and> isLoadingPaymentInfo form))"
    by (auto simp: submit_button_disabled_def resolvedIsLoading_def)
  have c: "fst (booking_begin args (st\<lparr>isSubmitting := True\<rparr>)) = fst (booking_begin args st)"
    by (simp add: booking_begin_def scoped_ignores_isSubmitting split: option.splits)
  have d: "createBooking_calls (snd (createBookingForContext args env st))
        = createBooking_calls st
          @ (case scoped args st of
               None \<Rightarrow> []
             | Some (s, e) \<Rightarrow>
                 (case final_payload s e (base_payload s e st (guestData args)) env of
                    Inl err \<Rightarrow> []
                  | Inr p \<Rightarrow> [p]))"
    by (simp add: createBooking_calls_def createBookingForContext_calls
          split: option.splits sum.splits)
  have e: "selectedSlot st = Some s \<and> eventType st = Some e \<and> et_id e \<noteq> []
        \<and> final_payload s e (base_payload s e st g1) env1 = Inr p1
        \<and> final_payload s e (base_payload s e st g2) env2 = Inr p2 \<longrightarrow>
        isSubmitting (snd (snd (submit_twice_sent g1 env1 g2 env2 st)))
        \<and> createBooking_calls (snd (snd (submit_twice_sent g1 env1 g2 env2 st)))
            = createBooking_calls st @ [p1, p2]
        \<and> \<not> isSubmitting (submit_twice_first_settled g1 env1 g2 env2 st)
        \<and> createBooking_calls (submit_twice_first_settled g1 env1 g2 env2 st)
            = createBooking_calls st @ [p1, p2]
        \<and> createBooking_calls (submit_twice g1 env1 g2 env2 st) = createBooking_calls st @ [p1, p2]"
    using submit_twice_overlap [of st s e g1 env1 p1 g2 env2 p2] by blast
  from a a' b b' c d e show ?thesis by blast
qed

text \<open>
  One submission of a free event, with no hook: exactly one booking-creation call,
  carrying the event, the slot, the timezone, the guest data and the request id;
  \<open>isSubmitting\<close> is false after it.
\<close>

theorem submit_one_call_per_run_witness:
  "map (\<lambda>p. [p ''event_type_id'', p ''start_time'', p ''end_time'', p ''timezone'',
              p ''guest_email'', p ''client_request_id'', p ''source''])
     (createBooking_calls (snd (submitBooking
        [''guest_name'' \<mapsto> JStr ''Jane Guest'', ''guest_email'' \<mapsto> JStr ''jane@example.com'']
        test_booking_env at_confirm)))
     = [[Some (JStr ''evt_1''), Some (JStr ''2026-05-10T10:00:00.000Z''),
         Some (JStr ''2026-05-10T10:30:00.000Z''), Some (JStr ''UTC''),
         Some (JStr ''jane@example.com''), Some (JStr ''req_1''), Some (JStr ''widget'')]]
   \<and> \<not> isSubmitting (snd (submitBooking
        [''guest_name'' \<mapsto> JStr ''Jane Guest'', ''guest_email'' \<mapsto> JStr ''jane@example.com'']
        test_booking_env at_confirm))"
proof -
  let ?g = "[''guest_name'' \<mapsto> JStr ''Jane Guest'', ''guest_email'' \<mapsto> JStr ''jane@example.com'']"
  let ?args = "\<lparr>guestData = ?g, slotOverride = None, eventTypeOverride = None\<rparr>"
  have sc: "scoped ?args at_confirm = Some (test_slot, test_event)"
    by (simp add: scoped_def or_else_def at_confirm_def initial_scheduler_def test_event_def)
  have no: "createBooking_calls at_confirm = []"
    by (simp add: at_confirm_def initial_scheduler_def createBooking_calls_def)
  have id: "et_id test_event \<noteq> []" "slot_start test_slot \<noteq> []" "slot_end test_slot \<noteq> []"
    by (simp_all add: test_event_def test_slot_def)
  have ge: "guest_email_trims (base_payload test_slot test_event at_confirm ?g)"
    by (simp add: guest_email_trims_def base_payload_def)
  have fp: "final_payload test_slot test_event (base_payload test_slot test_event at_confirm ?g)
              test_booking_env
            = Inr (base_payload test_slot test_event at_confirm ?g ++ meta_object test_meta)"
    using final_payload_no_hook [OF _ id ge, of test_booking_env]
    by (simp add: test_booking_env_def)
  have calls: "createBooking_calls (snd (submitBooking ?g test_booking_env at_confirm))
                 = [base_payload test_slot test_event at_confirm ?g ++ meta_object test_meta]"
    using submit_one_call_per_run [where args = ?args and env = test_booking_env and st = at_confirm]
    by (simp add: submitBooking_def sc fp no)
  have fin: "\<not> isSubmitting (snd (submitBooking ?g test_booking_env at_confirm))"
    unfolding submitBooking_def by (rule createBookingForContext_not_submitting) (simp add: sc)
  have tz: "userTimezone at_confirm = ''UTC''"
    by (simp add: at_confirm_def initial_scheduler_def)
  show ?thesis
    by (simp add: calls fin base_payload_def meta_object_def test_meta_def map_add_def tz
          test_event_def test_slot_def)
qed

section \<open>Client request ids\<close>










section \<open>The slot availability cache\<close>















section \<open>Retry and backoff of the API client\<close>

lemma request_loop_cases:
  assumes "attempt \<le> maxRetries cfg"
  obtains (ok) d where
      "request_loop cfg net attempt lastError slept
         = \<lparr>settled = Inr d, sleeps = slept, fetches = attempt + 1\<rparr>"
  | (fail) e where
      "request_loop cfg net attempt lastError slept
         = \<lparr>settled = Inl e, sleeps = slept, fetches = attempt + 1\<rparr>"
  | (retry) last' w where "attempt < maxRetries cfg"
      "request_loop cfg net attempt lastError slept
         = request_loop cfg net (attempt + 1) last' (slept @ [w])"
proof -
  define thrown where "thrown =
               (case outcome net attempt of
                  NetworkFailure \<Rightarrow> Some network_error
                | Responded r \<Rightarrow>
                    if response_ok r then None
                    else Some (normalizeError r (clock net attempt)))"
  have unfold: "request_loop cfg net attempt lastError slept =
     (case thrown of
              None \<Rightarrow>
                \<lparr>settled = Inr (case outcome net attempt of Responded r \<Rightarrow> data r | NetworkFailure \<Rightarrow> Map.empty),
                 sleeps = slept, fetches = attempt + 1\<rparr>
            | Some error \<Rightarrow>
                if err_status error = Some 429 \<and> retryOn429 cfg \<and> attempt < maxRetries cfg
                then request_loop cfg net (attempt + 1) lastError
                       (slept @ [wait_for_429 error attempt (random_draw net attempt)])
                else if isClientError error
                then \<lparr>settled = Inl error, sleeps = slept, fetches = attempt + 1\<rparr>
                else if attempt < maxRetries cfg
                then request_loop cfg net (attempt + 1) (Some error)
                       (slept @ [calculateBackoff attempt 1000 12000 (random_draw net attempt)])
                else \<lparr>settled = Inl error, sleeps = slept, fetches = attempt + 1\<rparr>)"
    unfolding thrown_def using assms
    by (subst request_loop.simps) (simp only: Let_def if_True)
  show thesis
  proof (cases thrown)
    case None
    have "request_loop cfg net attempt lastError slept
            = \<lparr>settled = Inr (case outcome net attempt of Responded r \<Rightarrow> data r | NetworkFailure \<Rightarrow> Map.empty),
                 sleeps = slept, fetches = attempt + 1\<rparr>"
      unfolding unfold None by simp
    then show thesis by (rule ok)
  next
    case (Some error)
    show thesis
    proof (cases "err_status error = Some 429 \<and> retryOn429 cfg \<and> attempt < maxRetries cfg")
      case True
      have "request_loop cfg net attempt lastError slept
              = request_loop cfg net (attempt + 1) lastError
                       (slept @ [wait_for_429 error attempt (random_draw net attempt)])"
        unfolding unfold Some by (simp add: True)
      with True show thesis by (intro retry) simp_all
    next
      case c1: False
      show thesis
      proof (cases "isClientError error")
        case True
        have "request_loop cfg net attempt lastError slept
                = \<lparr>settled = Inl error, sleeps = slept, fetches = attempt + 1\<rparr>"
          unfolding unfold Some using c1 True by auto
        then show thesis by (rule fail)
      next
        case c2: False
        show thesis
        proof (cases "attempt < maxRetries cfg")
          case True
          have "request_loop cfg net attempt lastError slept
                  = request_loop cfg net (attempt + 1) (Some error)
                       (slept @ [calculateBackoff attempt 1000 12000 (random_draw net attempt)])"
            unfolding unfold Some using c1 c2 True by auto
          with True show thesis by (intro retry) simp_all
        next
          case False
          have "request_loop cfg net attempt lastError slept
                  = \<lparr>settled = Inl error, sleeps = slept, fetches = attempt + 1\<rparr>"
            unfolding unfold Some using c1 c2 False by auto
          then show thesis by (rule fail)
        qed
      qed
    qed
  qed
qed

lemma request_loop_exit:
  assumes "\<not> attempt \<le> maxRetries cfg"
  shows "fetches (request_loop cfg net attempt lastError slept) = attempt"
    and "sleeps (request_loop cfg net attempt lastError slept) = slept"
  using assms by (subst request_loop.simps, simp)+

lemma request_loop_fetches:
  "attempt \<le> maxRetries cfg + 1 \<Longrightarrow>
     fetches (request_loop cfg net attempt lastError slept) \<le> maxRetries cfg + 1"
proof (induction "maxRetries cfg + 1 - attempt" arbitrary: attempt lastError slept)
  case 0
  then have "\<not> attempt \<le> maxRetries cfg" by simp
  then show ?case using "0.prems" by (simp add: request_loop_exit)
next
  case (Suc k)
  then have le: "attempt \<le> maxRetries cfg" by simp
  from le show ?case
  proof (cases rule: request_loop_cases [where net = net and lastError = lastError and slept = slept])
    case (ok d)
    with le show ?thesis by simp
  next
    case (fail e)
    with le show ?thesis by simp
  next
    case (retry last' w)
    have "fetches (request_loop cfg net (attempt + 1) last' (slept @ [w])) \<le> maxRetries cfg + 1"
      using Suc.hyps(2) retry(1) by (intro Suc.hyps(1)) simp_all
    with retry(2) show ?thesis by simp
  qed
qed

lemma request_loop_sleeps:
  "attempt \<le> maxRetries cfg \<Longrightarrow>
     length (sleeps (request_loop cfg net attempt lastError slept)) + attempt + 1
       = length slept + fetches (request_loop cfg net attempt lastError slept)"
proof (induction "maxRetries cfg - attempt" arbitrary: attempt lastError slept)
  case 0
  from "0.prems" show ?case
  proof (cases rule: request_loop_cases [where net = net and lastError = lastError and slept = slept])
    case (ok d)
    then show ?thesis by simp
  next
    case (fail e)
    then show ?thesis by simp
  next
    case (retry last' w)
    with "0.hyps" show ?thesis by simp
  qed
next
  case (Suc k)
  from Suc.prems show ?case
  proof (cases rule: request_loop_cases [where net = net and lastError = lastError and slept = slept])
    case (ok d)
    then show ?thesis by simp
  next
    case (fail e)
    then show ?thesis by simp
  next
    case (retry last' w)
    have "length (sleeps (request_loop cfg net (attempt + 1) last' (slept @ [w]))) + (attempt + 1) + 1
       = length (slept @ [w]) + fetches (request_loop cfg net (attempt + 1) last' (slept @ [w]))"
      using Suc.hyps(2) retry(1) by (intro Suc.hyps(1)) simp_all
    with retry(2) show ?thesis by simp
  qed
qed

lemma backoff_bounds:
  assumes "0 \<le> rnd" and "rnd < 1"
  shows "min (1000 * 2 ^ n) 12000 \<le> calculateBackoff n 1000 12000 rnd"
    and "calculateBackoff n 1000 12000 rnd < min (1000 * 2 ^ n) 12000 + 350"
  using assms by (simp_all add: calculateBackoff_def Let_def)

lemma thrown_server_failure:
  assumes "server_failure (outcome net n)"
  shows "(case outcome net n of
            NetworkFailure \<Rightarrow> Some network_error
          | Responded r \<Rightarrow>
              if response_ok r then None
              else Some (normalizeError r (clock net n))) = Some (thrown_error net n)"
    and "err_status (thrown_error net n) \<noteq> Some 429"
    and "\<not> isClientError (thrown_error net n)"
  using assms
  by (auto simp: server_failure_def thrown_error_def response_ok_def normalizeError_def
        network_error_def isClientError_def split: fetch_outcome.splits)

lemma retry_server_failure:
  assumes "server_failure (outcome net n)" and "n < maxRetries cfg"
  shows "request_loop cfg net n lastError slept
           = request_loop cfg net (n + 1) (Some (thrown_error net n))
               (slept @ [min (1000 * 2 ^ n) 12000 + random_draw net n * 350])"
proof -
  note t = thrown_server_failure [OF assms(1)]
  have "request_loop cfg net n lastError slept
          = request_loop cfg net (n + 1) (Some (thrown_error net n))
               (slept @ [calculateBackoff n 1000 12000 (random_draw net n)])"
    using assms(2) by (subst request_loop.simps) (simp add: t Let_def)
  then show ?thesis
    by (simp add: calculateBackoff_def Let_def)
qed

lemma last_server_failure:
  assumes "server_failure (outcome net n)" and "maxRetries cfg = n"
  shows "request_loop cfg net n lastError slept
           = \<lparr>settled = Inl (thrown_error net n), sleeps = slept, fetches = n + 1\<rparr>"
proof -
  note t = thrown_server_failure [OF assms(1)]
  show ?thesis
    using assms(2) by (subst request_loop.simps) (simp add: t Let_def)
qed

lemma thrown_not_ok:
  assumes "outcome net n = Responded r" and "\<not> response_ok r"
  shows "(case outcome net n of
            NetworkFailure \<Rightarrow> Some network_error
          | Responded r \<Rightarrow>
              if response_ok r then None
              else Some (normalizeError r (clock net n))) = Some (normalizeError r (clock net n))"
  using assms by simp

lemma normalizeError_status:
  "err_status (normalizeError r now) = Some (status r)"
  by (simp add: normalizeError_def)

lemma client_error_terminal:
  assumes "outcome net n = Responded r" and "400 \<le> status r" and "status r < 500"
    and "status r \<noteq> 429" and "n \<le> maxRetries cfg"
  shows "request_loop cfg net n lastError slept
           = \<lparr>settled = Inl (normalizeError r (clock net n)), sleeps = slept, fetches = n + 1\<rparr>"
proof -
  have "\<not> response_ok r"
    using assms(2) by (simp add: response_ok_def)
  note t = thrown_not_ok [OF assms(1) this]
  have c: "isClientError (normalizeError r (clock net n))"
    using assms(2-4) by (simp add: isClientError_def normalizeError_status)
  show ?thesis
    using assms(4,5) by (subst request_loop.simps) (simp add: t c normalizeError_status Let_def)
qed

lemma retry_429:
  assumes "outcome net n = Responded r" and "status r = 429" and "retryOn429 cfg"
    and "n < maxRetries cfg"
  shows "request_loop cfg net n lastError slept
           = request_loop cfg net (n + 1) lastError
               (slept @ [wait_for_429 (normalizeError r (clock net n)) n (random_draw net n)])"
proof -
  have "\<not> response_ok r"
    using assms(2) by (simp add: response_ok_def)
  note t = thrown_not_ok [OF assms(1) this]
  show ?thesis
    using assms(2-4) by (subst request_loop.simps) (simp add: t normalizeError_status Let_def)
qed

lemma last_429:
  assumes "outcome net n = Responded r" and "status r = 429" and "maxRetries cfg = n"
  shows "request_loop cfg net n lastError slept
           = \<lparr>settled = Inl (normalizeError r (clock net n)), sleeps = slept, fetches = n + 1\<rparr>"
proof -
  have "\<not> response_ok r"
    using assms(2) by (simp add: response_ok_def)
  note t = thrown_not_ok [OF assms(1) this]
  have c: "\<not> isClientError (normalizeError r (clock net n))"
    using assms(2) by (simp add: isClientError_def normalizeError_status)
  show ?thesis
    using assms(2,3) by (subst request_loop.simps) (simp add: t c normalizeError_status Let_def)
qed

lemma request_fetches:
  "fetches (request cfg onLine net) \<le> maxRetries cfg + 1"
  using request_loop_fetches [of 0 cfg net None "[]"] by (simp add: request_def)

lemma retry_after_value_nonzero:
  "retry_after_value r now = Some s \<Longrightarrow> s \<noteq> 0"
  by (auto simp: retry_after_value_def normalizeError_def parseRetryAfterHeader_def Let_def
        split: option.splits if_splits)

lemma ceiling_seconds:
  "\<lceil>real_of_int x / 1000\<rceil> = - ((- x) div 1000)"
proof -
  have "\<lceil>real_of_int x / real_of_int 1000\<rceil> = - (- x div 1000)"
    by (rule ceiling_divide_eq_div)
  then show ?thesis by simp
qed

lemma header_date_ahead:
  assumes "no_body_value r \<and> retry_after r = Some h \<and> no_positive_int h
           \<and> parsed_date h = Some d \<and> now < d"
  shows "retry_after_value r now = Some \<lceil>real_of_int (d - now) / 1000\<rceil>
         \<and> 0 < \<lceil>real_of_int (d - now) / 1000\<rceil>"
proof -
  have pr: "parseRetryAfterHeader (Some h) now = Some \<lceil>real_of_int (d - now) / 1000\<rceil>"
    unfolding ceiling_seconds using assms
    by (auto simp: parseRetryAfterHeader_def Let_def no_positive_int_def split: option.splits)
  have v: "retry_after_value r now = Some \<lceil>real_of_int (d - now) / 1000\<rceil>"
    using assms pr
    by (auto simp: retry_after_value_def normalizeError_def no_body_value_def)
  have "0 < real_of_int (d - now) / 1000"
    using assms by simp
  then have "0 < \<lceil>real_of_int (d - now) / 1000\<rceil>"
    by (simp only: ceiling_less_iff less_ceiling_iff of_int_0)
  with v show ?thesis by simp
qed

text \<open>
  C5, as first stated, fails for a 429 whose \<open>Retry-After\<close> value is 0: the parser takes
  only a positive number of seconds (or a date still ahead) for a value, so the wait is
  the backoff of attempt 0, 1000 ms with no jitter drawn here, and not 0 seconds.
\<close>

theorem retry_after_zero_counterexample:
  "sleeps (request default_retryConfig True
      \<lparr>outcome = (\<lambda>n. if n = 0
          then Responded \<lparr>status = 429, data_message = None, data_error = None, data_code = None,
                 data_retryAfter = None, data_alternatives = [], data_suggestions = [],
                 data = Map.empty,
                 retry_after = Some \<lparr>parsed_int = Some 0, parsed_date = Some 946684800000\<rparr>\<rparr>
          else Responded \<lparr>status = 200, data_message = None, data_error = None, data_code = None,
                 data_retryAfter = None, data_alternatives = [], data_suggestions = [],
                 data = Map.empty, retry_after = None\<rparr>),
       clock = (\<lambda>n. 1700000000000),
       random_draw = (\<lambda>n. 0)\<rparr>)
   = [1000]"
  by (simp add: request_def default_retryConfig_def request_loop.simps Let_def response_ok_def
        normalizeError_def parseRetryAfterHeader_def isClientError_def wait_for_429_def
        calculateBackoff_def)

text \<open>
  C5, amended. With the default retry configuration a request makes at most three
  \<open>fetch\<close> calls. At attempt \<open>n\<close> (0-based), a network failure or 5xx response is retried
  after \<open>min (1000 * 2 ^ n) 12000\<close> ms plus the jitter \<open>rnd * 350\<close>, which lies in [0, 350),
  when \<open>n < 2\<close>, and is the request's error when \<open>n = 2\<close>. A response with status in
  [400, 500) other than 429 ends the request at once with its error. A 429 at an attempt
  \<open>n < 2\<close> is retried, using up one attempt of the same budget: after exactly \<open>s\<close> seconds
  when a retry-after value \<open>s\<close> is available, after the backoff delay when none is; at
  \<open>n = 2\<close> the 429 is the request's error. The retry-after value is the body's
  \<open>retryAfter\<close> when that is not 0; else the \<open>Retry-After\<close> header read as a number of
  seconds when that number is positive; else the header read as a date when that date is
  still ahead, the remaining milliseconds rounded up to whole seconds. No value is
  available when the body has none (or 0) and the header is missing or empty, or gives
  neither a positive number nor a date still ahead: so for a header of 0 seconds.
\<close>

theorem request_retry_policy:
  "fetches (request default_retryConfig onLine net) \<le> 3
   \<and> (server_failure (outcome net n) \<and> n < 2 \<longrightarrow>
        request_loop default_retryConfig net n lastError slept
          = request_loop default_retryConfig net (n + 1) (Some (thrown_error net n))
              (slept @ [min (1000 * 2 ^ n) 12000 + random_draw net n * 350]))
   \<and> (0 \<le> random_draw net n \<and> random_draw net n < 1 \<longrightarrow>
        0 \<le> random_draw net n * 350 \<and> random_draw net n * 350 < 350)
   \<and> (server_failure (outcome net n) \<and> n = 2 \<longrightarrow>
        request_loop default_retryConfig net n lastError slept
          = \<lparr>settled = Inl (thrown_error net n), sleeps = slept, fetches = 3\<rparr>)
   \<and> (outcome net n = Responded r \<and> 400 \<le> status r \<and> status r < 500 \<and> status r \<noteq> 429
        \<and> n \<le> 2 \<longrightarrow>
        request_loop default_retryConfig net n lastError slept
          = \<lparr>settled = Inl (normalizeError r (clock net n)), sleeps = slept, fetches = n + 1\<rparr>)
   \<and> (outcome net n = Responded r \<and> status r = 429 \<and> n < 2
        \<and> retry_after_value r (clock net n) = Some s \<longrightarrow>
        request_loop default_retryConfig net n lastError slept
          = request_loop default_retryConfig net (n + 1) lastError
              (slept @ [real_of_int s * 1000]))
   \<and> (outcome net n = Responded r \<and> status r = 429 \<and> n < 2
        \<and> retry_after_value r (clock net n) = None \<longrightarrow>
        request_loop default_retryConfig net n lastError slept
          = request_loop default_retryConfig net (n + 1) lastError
              (slept @ [min (1000 * 2 ^ n) 12000 + random_draw net n * 350]))
   \<and> (outcome net n = Responded r \<and> status r = 429 \<and> n = 2 \<longrightarrow>
        request_loop default_retryConfig net n lastError slept
          = \<lparr>settled = Inl (normalizeError r (clock net n)), sleeps = slept, fetches = 3\<rparr>)
   \<and> (data_retryAfter r = Some s \<and> s \<noteq> 0 \<longrightarrow> retry_after_value r now = Some s)
   \<and> (no_body_value r \<and> retry_after r = Some h \<and> parsed_int h = Some s \<and> 0 < s \<longrightarrow>
        retry_after_value r now = Some s)
   \<and> (no_body_value r \<and> retry_after r = Some h \<and> no_positive_int h
        \<and> parsed_date h = Some d \<and> now < d \<longrightarrow>
        retry_after_value r now = Some \<lceil>real_of_int (d - now) / 1000\<rceil>
        \<and> 0 < \<lceil>real_of_int (d - now) / 1000\<rceil>)
   \<and> (no_body_value r
        \<and> (retry_after r = None
             \<or> (retry_after r = Some h \<and> no_positive_int h
                  \<and> (parsed_date h = None \<or> (\<exists>d. parsed_date h = Some d \<and> d \<le> now)))) \<longrightarrow>
        retry_after_value r now = None)"
proof -
  have mr: "maxRetries default_retryConfig = 2" and on: "retryOn429 default_retryConfig"
    by (simp_all add: default_retryConfig_def)
  have a: "fetches (request default_retryConfig onLine net) \<le> 3"
    using request_fetches [of default_retryConfig onLine net] by (simp add: mr)
  have b: "server_failure (outcome net n) \<and> n < 2 \<longrightarrow>
        request_loop default_retryConfig net n lastError slept
          = request_loop default_retryConfig net (n + 1) (Some (thrown_error net n))
              (slept @ [min (1000 * 2 ^ n) 12000 + random_draw net n * 350])"
    using retry_server_failure [of net n default_retryConfig lastError slept] by (simp add: mr)
  have c: "0 \<le> random_draw net n \<and> random_draw net n < 1 \<longrightarrow>
        0 \<le> random_draw net n * 350 \<and> random_draw net n * 350 < 350"
    by simp
  have d: "server_failure (outcome net n) \<and> n = 2 \<longrightarrow>
        request_loop default_retryConfig net n lastError slept
          = \<lparr>settled = Inl (thrown_error net n), sleeps = slept, fetches = 3\<rparr>"
    using last_server_failure [of net n default_retryConfig lastError slept] by (auto simp: mr)
  have e: "outcome net n = Responded r \<and> 400 \<le> status r \<and> status r < 500 \<and> status r \<noteq> 429
        \<and> n \<le> 2 \<longrightarrow>
        request_loop default_retryConfig net n lastError slept
          = \<lparr>settled = Inl (normalizeError r (clock net n)), sleeps = slept, fetches = n + 1\<rparr>"
    using client_error_terminal [of net n r default_retryConfig lastError slept] by (simp add: mr)
  have f: "outcome net n = Responded r \<and> status r = 429 \<and> n < 2
        \<and> retry_after_value r (clock net n) = Some s \<longrightarrow>
        request_loop default_retryConfig net n lastError slept
          = request_loop default_retryConfig net (n + 1) lastError
              (slept @ [real_of_int s * 1000])"
    using retry_429 [of net n r default_retryConfig lastError slept]
      retry_after_value_nonzero [of r "clock net n" s]
    by (auto simp: mr on wait_for_429_def retry_after_value_def)
  have g: "outcome net n = Responded r \<and> status r = 429 \<and> n < 2
        \<and> retry_after_value r (clock net n) = None \<longrightarrow>
        request_loop default_retryConfig net n lastError slept
          = request_loop default_retryConfig net (n + 1) lastError
              (slept @ [min (1000 * 2 ^ n) 12000 + random_draw net n * 350])"
    using retry_429 [of net n r default_retryConfig lastError slept]
    by (simp add: mr on wait_for_429_def calculateBackoff_def Let_def retry_after_value_def)
  have h: "outcome net n = Responded r \<and> status r = 429 \<and> n = 2 \<longrightarrow>
        request_loop default_retryConfig net n lastError slept
          = \<lparr>settled = Inl (normalizeError r (clock net n)), sleeps = slept, fetches = 3\<rparr>"
    using last_429 [of net n r default_retryConfig lastError slept] by (auto simp: mr)
  have i: "data_retryAfter r = Some s \<and> s \<noteq> 0 \<longrightarrow> retry_after_value r now = Some s"
    by (simp add: retry_after_value_def normalizeError_def)
  have j: "no_body_value r \<and> retry_after r = Some h \<and> parsed_int h = Some s \<and> 0 < s \<longrightarrow>
        retry_after_value r now = Some s"
    by (auto simp: retry_after_value_def normalizeError_def parseRetryAfterHeader_def
          no_body_value_def)
  have k: "no_body_value r \<and> retry_after r = Some h \<and> no_positive_int h
        \<and> parsed_date h = Some d \<and> now < d \<longrightarrow>
        retry_after_value r now = Some \<lceil>real_of_int (d - now) / 1000\<rceil>
        \<and> 0 < \<lceil>real_of_int (d - now) / 1000\<rceil>"
    using header_date_ahead [of r h d now] by blast
  have l: "no_body_value r
        \<and> (retry_after r = None
             \<or> (retry_after r = Some h \<and> no_positive_int h
                  \<and> (parsed_date h = None \<or> (\<exists>d. parsed_date h = Some d \<and> d \<le> now)))) \<longrightarrow>
        retry_after_value r now = None"
    by (auto simp: retry_after_value_def normalizeError_def parseRetryAfterHeader_def Let_def
          no_body_value_def no_positive_int_def split: option.splits)
  from a b c d e f g h i j k l show ?thesis
    by blast
qed

text \<open>
  A 503, then a 429 with \<open>Retry-After: 7\<close>, then a 200: three fetches, a wait of
  1000 ms plus the jitter drawn (here 0.5 * 350) and a wait of 7 seconds. And a 429
  whose \<open>Retry-After\<close> is a date 2500 ms ahead, then a 200: a wait of 3 seconds.
\<close>

theorem request_retry_policy_witness:
  "request default_retryConfig True
      \<lparr>outcome = (\<lambda>n. if n = 0
          then Responded \<lparr>status = 503, data_message = None, data_error = None, data_code = None,
                 data_retryAfter = None, data_alternatives = [], data_suggestions = [],
                 data = Map.empty, retry_after = None\<rparr>
          else if n = 1
          then Responded \<lparr>status = 429, data_message = None, data_error = None, data_code = None,
                 data_retryAfter = None, data_alternatives = [], data_suggestions = [],
                 data = Map.empty,
                 retry_after = Some \<lparr>parsed_int = Some 7, parsed_date = None\<rparr>\<rparr>
          else Responded \<lparr>status = 200, data_message = None, data_error = None, data_code = None,
                 data_retryAfter = None, data_alternatives = [], data_suggestions = [],
                 data = [''ok'' \<mapsto> JBool True], retry_after = None\<rparr>),
       clock = (\<lambda>n. 1700000000000),
       random_draw = (\<lambda>n. 1 / 2)\<rparr>
   = \<lparr>settled = Inr [''ok'' \<mapsto> JBool True], sleeps = [1175, 7000], fetches = 3\<rparr>
   \<and> request default_retryConfig True
      \<lparr>outcome = (\<lambda>n. if n = 0
          then Responded \<lparr>status = 429, data_message = None, data_error = None, data_code = None,
                 data_retryAfter = None, data_alternatives = [], data_suggestions = [],
                 data = Map.empty,
                 retry_after = Some \<lparr>parsed_int = None, parsed_date = Some 1700000002500\<rparr>\<rparr>
          else Responded \<lparr>status = 200, data_message = None, data_error = None, data_code = None,
                 data_retryAfter = None, data_alternatives = [], data_suggestions = [],
                 data = [''ok'' \<mapsto> JBool True], retry_after = None\<rparr>),
       clock = (\<lambda>n. 1700000000000),
       random_draw = (\<lambda>n. 1 / 2)\<rparr>
   = \<lparr>settled = Inr [''ok'' \<mapsto> JBool True], sleeps = [3000], fetches = 2\<rparr>"
  using request_retry_policy
    [where n = 0 and lastError = None and slept = "[]" and onLine = True
       and net = "\<lparr>outcome = (\<lambda>n. if n = 0
          then Responded \<lparr>status = 503, data_message = None, data_error = None, data_code = None,
                 data_retryAfter = None, data_alternatives = [], data_suggestions = [],
                 data = Map.empty, retry_after = None\<rparr>
          else if n = 1
          then Responded \<lparr>status = 429, data_message = None, data_error = None, data_code = None,
                 data_retryAfter = None, data_alternatives = [], data_suggestions = [],
                 data = Map.empty,
                 retry_after = Some \<lparr>parsed_int = Some 7, parsed_date = None\<rparr>\<rparr>
          else Responded \<lparr>status = 200, data_message = None, data_error = None, data_code = None,
                 data_retryAfter = None, data_alternatives = [], data_suggestions = [],
                 data = [''ok'' \<mapsto> JBool True], retry_after = None\<rparr>),
       clock = (\<lambda>n. 1700000000000),
       random_draw = (\<lambda>n. 1 / 2)\<rparr>"]
  by (simp add: request_def default_retryConfig_def request_loop.simps Let_def response_ok_def
        normalizeError_def parseRetryAfterHeader_def isClientError_def wait_for_429_def
        calculateBackoff_def server_failure_def thrown_error_def retry_after_value_def)
section \<open>The back action\<close>

text \<open>
  C6, as first stated, fails: in a single-event embed (one event type, selection mode
  "single") at step CONFIRM, the back action does transition to SELECT_TIME.
\<close>

theorem goBack_confirm_single_counterexample:
  "step (goBack
      ((initial_scheduler None None ''UTC'' 45000 None no_params)
         \<lparr>step := CONFIRM,
          eventType := Some \<lparr>et_id = ''evt_1'', et_slug = None, et_duration = 30\<rparr>,
          eventTypes := [\<lparr>et_id = ''evt_1'', et_slug = None, et_duration = 30\<rparr>],
          selection_mode := Some ''single'',
          selectedSlot := Some \<lparr>slot_start = ''2026-05-10T10:00:00.000Z'',
            slot_end = ''2026-05-10T10:30:00.000Z'', startLocal = None, endLocal = None,
            isPending = False\<rparr>\<rparr>))
   = SELECT_TIME"
  by (simp add: goBack_def clearBookingError_def initial_scheduler_def)

text \<open>
  C6, amended. From CONFIRM the back action always leads to SELECT_TIME, however many
  event types are offerable. What a single-selection embed disables is the step back
  past time selection: from SELECT_TIME the back action leads to SELECT_EVENT exactly
  when the embed's selection mode is not "single", and otherwise changes nothing; in the
  other steps it changes nothing. In a single-selection embed the widget hides its
  "Change event" button; the booking form's Back button stays.
\<close>

theorem goBack_steps:
  "step (goBack st) =
     (if step st = CONFIRM then SELECT_TIME
      else if step st = SELECT_TIME \<and> selection_mode st \<noteq> Some ''single'' then SELECT_EVENT
      else step st)
   \<and> (step st = CONFIRM \<longrightarrow> step (goBack st) = SELECT_TIME)
   \<and> (step st = SELECT_TIME \<and> selection_mode st = Some ''single'' \<longrightarrow> goBack st = st)
   \<and> (step st = SELECT_EVENT \<or> step st = SUCCESS \<longrightarrow> goBack st = st)
   \<and> (selection_mode st = Some ''single'' \<longrightarrow> \<not> change_event_button_shown st)"
  by (auto simp: goBack_def clearBookingError_def change_event_button_shown_def)

text \<open>
  A single-selection embed at SELECT_TIME stays there; an embed with two event types at
  CONFIRM goes back to SELECT_TIME.
\<close>

theorem goBack_steps_witness:
  "step (goBack
      ((initial_scheduler None None ''UTC'' 45000 None no_params)
         \<lparr>step := SELECT_TIME,
          eventType := Some \<lparr>et_id = ''evt_1'', et_slug = None, et_duration = 30\<rparr>,
          eventTypes := [\<lparr>et_id = ''evt_1'', et_slug = None, et_duration = 30\<rparr>],
          selection_mode := Some ''single''\<rparr>))
   = SELECT_TIME
   \<and> step (goBack
      ((initial_scheduler None None ''UTC'' 45000 None no_params)
         \<lparr>step := CONFIRM,
          eventType := Some \<lparr>et_id = ''evt_1'', et_slug = None, et_duration = 30\<rparr>,
          eventTypes := [\<lparr>et_id = ''evt_1'', et_slug = None, et_duration = 30\<rparr>,
                        \<lparr>et_id = ''evt_2'', et_slug = None, et_duration = 60\<rparr>]\<rparr>))
   = SELECT_TIME"
  using goBack_steps
    [of "(initial_scheduler None None ''UTC'' 45000 None no_params)
         \<lparr>step := SELECT_TIME,
          eventType := Some \<lparr>et_id = ''evt_1'', et_slug = None, et_duration = 30\<rparr>,
          eventTypes := [\<lparr>et_id = ''evt_1'', et_slug = None, et_duration = 30\<rparr>],
          selection_mode := Some ''single''\<rparr>"]
    goBack_steps
    [of "(initial_scheduler None None ''UTC'' 45000 None no_params)
         \<lparr>step := CONFIRM,
          eventType := Some \<lparr>et_id = ''evt_1'', et_slug = None, et_duration = 30\<rparr>,
          eventTypes := [\<lparr>et_id = ''evt_1'', et_slug = None, et_duration = 30\<rparr>,
                        \<lparr>et_id = ''evt_2'', et_slug = None, et_duration = 60\<rparr>]\<rparr>"]
  by (simp add: initial_scheduler_def)

section \<open>Conflict fallback: theorems\<close>

lemma toFallbackSuggestions_length:
  "length (toFallbackSuggestions alts) = length alts"
  by (simp add: toFallbackSuggestions_def)

lemma toFallbackSuggestions_nth:
  assumes "k < length alts"
  shows "toFallbackSuggestions alts ! k =
           (alts ! k)(''confidenceScore'' \<mapsto> JNum (max 40 (75 - 10 * int k)),
                      ''explanation'' \<mapsto> JStr ''Available alternative slot'')"
  using assms by (simp add: toFallbackSuggestions_def nth_enumerate_eq mult.commute)

text \<open>
  C7. With the suggestion service absent, failing or returning an empty list, the
  synthesized suggestions are the inline alternatives in their order: as many, the k-th
  (0-based) agreeing with the k-th alternative on every property other than the two
  written over it, with confidence \<open>max 40 (75 - 10 * k)\<close>; for three alternatives the
  scores are 75, 65, 55.
\<close>

theorem fallback_suggestions_ranked:
  "length (toFallbackSuggestions alts) = length alts
   \<and> (\<forall>k < length alts.
         (toFallbackSuggestions alts ! k) ''confidenceScore''
           = Some (JNum (max 40 (75 - 10 * int k)))
       \<and> (\<forall>p. p \<noteq> ''confidenceScore'' \<and> p \<noteq> ''explanation'' \<longrightarrow>
              (toFallbackSuggestions alts ! k) p = (alts ! k) p))
   \<and> (length alts = 3 \<longrightarrow>
         map (\<lambda>s. s ''confidenceScore'') (toFallbackSuggestions alts)
           = [Some (JNum 75), Some (JNum 65), Some (JNum 55)])
   \<and> conflictSuggestions (loadConflictSuggestions ServiceAbsent active alts st)
         = toFallbackSuggestions alts
   \<and> conflictSuggestions (loadConflictSuggestions ServiceRejected True alts st)
         = toFallbackSuggestions alts
   \<and> conflictSuggestions (loadConflictSuggestions (ServiceResolved (Some [])) True alts st)
         = toFallbackSuggestions alts
   \<and> conflictSuggestions (loadConflictSuggestions (ServiceResolved None) True alts st)
         = toFallbackSuggestions alts"
proof -
  have three: "length alts = 3 \<longrightarrow>
         map (\<lambda>s. s ''confidenceScore'') (toFallbackSuggestions alts)
           = [Some (JNum 75), Some (JNum 65), Some (JNum 55)]"
  proof
    assume "length alts = 3"
    then obtain a b c where "alts = [a, b, c]"
      by (auto simp: length_Suc_conv numeral_3_eq_3)
    then show "map (\<lambda>s. s ''confidenceScore'') (toFallbackSuggestions alts)
                 = [Some (JNum 75), Some (JNum 65), Some (JNum 55)]"
      by (simp add: toFallbackSuggestions_def)
  qed
  have service: "conflictSuggestions (loadConflictSuggestions ServiceAbsent active alts st)
         = toFallbackSuggestions alts"
    "conflictSuggestions (loadConflictSuggestions ServiceRejected True alts st)
         = toFallbackSuggestions alts"
    "conflictSuggestions (loadConflictSuggestions (ServiceResolved (Some [])) True alts st)
         = toFallbackSuggestions alts"
    "conflictSuggestions (loadConflictSuggestions (ServiceResolved None) True alts st)
         = toFallbackSuggestions alts"
    by (simp_all add: loadConflictSuggestions_def set_suggestions_def)
  show ?thesis
    using three service
    by (simp add: toFallbackSuggestions_length toFallbackSuggestions_nth)
qed

text \<open>Three alternatives A, B, C with a failing service: A, B, C again, scored 75, 65, 55.\<close>

theorem fallback_suggestions_ranked_witness:
  "map (\<lambda>s. (s ''start'', s ''confidenceScore''))
     (conflictSuggestions
        (loadConflictSuggestions ServiceRejected True
           [[''start'' \<mapsto> JStr ''A''], [''start'' \<mapsto> JStr ''B''], [''start'' \<mapsto> JStr ''C'']]
           \<lparr>showConflictResolver = False, conflictSuggestions = [],
            bestSuggestion = None, isLoadingSuggestions = False\<rparr>))
   = [(Some (JStr ''A''), Some (JNum 75)),
      (Some (JStr ''B''), Some (JNum 65)),
      (Some (JStr ''C''), Some (JNum 55))]"
  using fallback_suggestions_ranked
    [of "[[''start'' \<mapsto> JStr ''A''], [''start'' \<mapsto> JStr ''B''], [''start'' \<mapsto> JStr ''C'']]"
        True
        "\<lparr>showConflictResolver = False, conflictSuggestions = [],
          bestSuggestion = None, isLoadingSuggestions = False\<rparr>"]
  by (simp add: toFallbackSuggestions_def)

section \<open>Conditional visibility and validation\<close>

lemma set_error_old:
  "x \<in> fst ` set errs \<Longrightarrow> x \<in> fst ` set (set_error k m errs)"
  by (auto simp: set_error_def dom_update)

lemma set_error_new:
  "x \<in> fst ` set (set_error k m errs) \<Longrightarrow> x = k \<or> x \<in> fst ` set errs"
  by (auto simp: set_error_def dom_update split: if_splits)

lemma set_error_proto:
  "k \<noteq> ''__proto__'' \<Longrightarrow> k \<in> fst ` set (set_error k m errs)"
  by (simp add: set_error_def dom_update)

lemma validate_field_shape:
  "validate_field p ans errs f = errs
   \<or> (isFieldVisible f ans \<and> (\<exists>m. validate_field p ans errs f = set_error (field_id f) m errs))"
  by (auto simp: validate_field_def Let_def)

lemma validate_field_keys:
  "fst ` set errs \<subseteq> fst ` set (validate_field p ans errs f)"
proof
  fix x
  assume x: "x \<in> fst ` set errs"
  from validate_field_shape [of p ans errs f]
  show "x \<in> fst ` set (validate_field p ans errs f)"
  proof
    assume "validate_field p ans errs f = errs"
    with x show ?thesis by simp
  next
    assume "isFieldVisible f ans \<and> (\<exists>m. validate_field p ans errs f = set_error (field_id f) m errs)"
    then obtain m where "validate_field p ans errs f = set_error (field_id f) m errs"
      by blast
    with set_error_old [OF x] show ?thesis by simp
  qed
qed

lemma validate_fields_keys:
  "fst ` set errs \<subseteq> fst ` set (foldl (validate_field p ans) errs fs)"
proof (induction fs arbitrary: errs)
  case Nil
  show ?case by simp
next
  case (Cons f fs)
  have "fst ` set errs \<subseteq> fst ` set (validate_field p ans errs f)"
    by (rule validate_field_keys)
  also have "\<dots> \<subseteq> fst ` set (foldl (validate_field p ans) (validate_field p ans errs f) fs)"
    by (rule Cons.IH)
  finally show ?case by simp
qed

lemma validate_field_invisible:
  "\<not> isFieldVisible f ans \<Longrightarrow> validate_field p ans errs f = errs"
  by (simp add: validate_field_def)

lemma validate_fields_visible_only:
  "foldl (validate_field p ans) errs fs
     = foldl (validate_field p ans) errs (filter (\<lambda>f. isFieldVisible f ans) fs)"
  by (induction fs arbitrary: errs) (simp_all add: validate_field_invisible)

lemma validate_field_new_key:
  assumes "k \<in> fst ` set (validate_field p ans errs f)" and "k \<notin> fst ` set errs"
  shows "k = field_id f \<and> isFieldVisible f ans"
proof -
  from validate_field_shape [of p ans errs f]
  show ?thesis
  proof
    assume "validate_field p ans errs f = errs"
    with assms show ?thesis by simp
  next
    assume a: "isFieldVisible f ans \<and> (\<exists>m. validate_field p ans errs f = set_error (field_id f) m errs)"
    then obtain m where "validate_field p ans errs f = set_error (field_id f) m errs"
      by blast
    with assms(1) have "k \<in> fst ` set (set_error (field_id f) m errs)"
      by simp
    from set_error_new [OF this] assms(2) a show ?thesis
      by blast
  qed
qed

lemma validate_fields_new_key:
  "k \<in> fst ` set (foldl (validate_field p ans) errs fs) \<Longrightarrow> k \<notin> fst ` set errs
     \<Longrightarrow> \<exists>f \<in> set fs. k = field_id f \<and> isFieldVisible f ans"
proof (induction fs arbitrary: errs)
  case Nil
  then show ?case by simp
next
  case (Cons f fs)
  show ?case
  proof (cases "k \<in> fst ` set (validate_field p ans errs f)")
    case True
    then have "k = field_id f \<and> isFieldVisible f ans"
      using Cons.prems(2) by (rule validate_field_new_key)
    then show ?thesis by simp
  next
    case False
    with Cons.prems(1) Cons.IH [of "validate_field p ans errs f"] show ?thesis
      by auto
  qed
qed

lemma answer_of_own:
  "ans k = Some v \<Longrightarrow> answer_of ans k = Some v"
  by (simp add: answer_of_def)

lemma answer_of_absent:
  "ans k = None \<Longrightarrow> \<not> inherited_name k \<Longrightarrow> answer_of ans k = None"
  by (simp add: answer_of_def inherited_def inherited_name_def Object_prototype_methods_def)

lemma answer_of_inherited:
  "ans k = None \<Longrightarrow> inherited_name k \<Longrightarrow> \<exists>src. answer_of ans k = Some (Other src)"
  by (auto simp: answer_of_def inherited_def inherited_name_def)

lemma validate_field_required_blank:
  assumes "isFieldVisible f ans" and "required f" and "field_id f \<noteq> ''__proto__''"
    and "falsy (answer_of ans (field_id f)) \<or> answer_of ans (field_id f) = Some (Choices [])"
  shows "field_id f \<in> fst ` set (validate_field p ans errs f)"
proof -
  have "validate_field p ans errs f = set_error (field_id f) ''This field is required'' errs"
    using assms(1,2,4) by (auto simp: validate_field_def Let_def falsy_def)
  with set_error_proto [OF assms(3)] show ?thesis by simp
qed

lemma validate_fields_required_blank:
  assumes "f \<in> set fs" and "isFieldVisible f ans" and "required f" and "field_id f \<noteq> ''__proto__''"
    and "falsy (answer_of ans (field_id f)) \<or> answer_of ans (field_id f) = Some (Choices [])"
  shows "field_id f \<in> fst ` set (foldl (validate_field p ans) errs fs)"
  using assms(1)
proof (induction fs arbitrary: errs)
  case Nil
  then show ?case by simp
next
  case (Cons g gs)
  show ?case
  proof (cases "g = f")
    case True
    have "field_id f \<in> fst ` set (validate_field p ans errs f)"
      using assms(2-5) by (rule validate_field_required_blank)
    then show ?thesis
      using True validate_fields_keys [of "validate_field p ans errs f" p ans gs]
      by auto
  next
    case False
    with Cons.prems have "f \<in> set gs" by simp
    then show ?thesis using Cons.IH by simp
  qed
qed

text \<open>
  A required field whose id names an inherited property and that has no answer passes:
  the read yields the inherited function or object, which is truthy.
\<close>

lemma validate_field_inherited_passes:
  assumes "ans (field_id f) = None" and "inherited_name (field_id f)"
    and "field_type f \<notin> {''email'', ''url'', ''phone''}"
  shows "validate_field p ans errs f = errs"
proof -
  obtain src where "answer_of ans (field_id f) = Some (Other src)"
    using answer_of_inherited [of ans "field_id f"] assms(1,2) by blast
  then show ?thesis
    using assms(3) by (simp add: validate_field_def Let_def falsy_def)
qed

lemma native_function_not_yes:
  "native_function n \<noteq> ''yes''"
  by (simp add: native_function_def)

lemma equals_yes_iff:
  assumes "operator c = ''equals''" and "cond_value c = ''yes''"
  shows "condition_holds ans c
           = (case ans (fieldId c) of
                None \<Rightarrow> False
              | Some (Text s) \<Rightarrow> s = ''yes''
              | Some (Choices xs) \<Rightarrow> ''yes'' \<in> set xs
              | Some (Other s) \<Rightarrow> s = ''yes'')"
proof (cases "ans (fieldId c)")
  case None
  then have "answer_of ans (fieldId c) = None
               \<or> (\<exists>n. answer_of ans (fieldId c) = Some (Other (native_function n)))
               \<or> answer_of ans (fieldId c) = Some (Other ''[object Object]'')"
    by (auto simp: answer_of_def inherited_def)
  then show ?thesis
    using assms None native_function_not_yes
    by (auto simp: condition_holds_def Let_def String_or_empty_def falsy_def to_String_def)
next
  case (Some v)
  then have "answer_of ans (fieldId c) = Some v"
    by (rule answer_of_own)
  then show ?thesis
    using assms Some
    by (cases v) (auto simp: condition_holds_def Let_def String_or_empty_def falsy_def to_String_def)
qed

text \<open>
  C8, as first stated, fails: a rule whose \<open>show\<close> flag is off is not applied, so its
  field is visible although a listed condition does not hold.
\<close>

theorem visibility_rule_off_counterexample:
  "\<not> condition_holds Map.empty \<lparr>fieldId = ''F1'', operator = ''equals'', cond_value = ''yes''\<rparr>
   \<and> isFieldVisible
        \<lparr>field_id = ''F2'', field_type = ''short_text'', required = True,
         conditional = Some \<lparr>cond_show = False,
           conditions = [\<lparr>fieldId = ''F1'', operator = ''equals'', cond_value = ''yes''\<rparr>]\<rparr>\<rparr>
        Map.empty
   \<and> validateFormAnswers (\<lambda>u. True)
        [\<lparr>field_id = ''F1'', field_type = ''short_text'', required = False, conditional = None\<rparr>,
         \<lparr>field_id = ''F2'', field_type = ''short_text'', required = True,
          conditional = Some \<lparr>cond_show = False,
            conditions = [\<lparr>fieldId = ''F1'', operator = ''equals'', cond_value = ''yes''\<rparr>]\<rparr>\<rparr>]
        Map.empty
       = \<lparr>isValid = False, errors = [(''F2'', ''This field is required'')]\<rparr>"
  by (simp add: condition_holds_def isFieldVisible_def String_or_empty_def falsy_def
        answer_of_def inherited_def Object_prototype_methods_def validateFormAnswers_def
        validate_field_def set_error_def Let_def)

text \<open>
  C8, amended. A field is visible when it has no conditional rule, when the rule's
  \<open>show\<close> flag is off, or when the rule lists no condition; a field whose rule has \<open>show\<close>
  set and lists one or more conditions is visible exactly when every condition holds. An
  \<open>equals\<close> condition with value "yes" holds exactly when the answer is the string "yes",
  an array that has "yes" as a member, or another value that \<open>String()\<close> turns into
  "yes". Validation runs over the visible fields only: an invisible field leaves the
  errors as they are, the result is that of validating the visible fields alone, and
  every recorded error belongs to a visible field of that id. A visible required field
  with an empty answer makes the result invalid with an error under its id; empty means
  an empty string or an empty array, or no answer at all under an id that is not the
  name of a property every object inherits (a field with such an id and no answer reads
  as answered), and the id must not be \<open>__proto__\<close>, under which no error can be recorded.
\<close>

theorem conditional_visibility_and_validation:
  "(conditional f = None \<longrightarrow> isFieldVisible f ans)
   \<and> (conditional f = Some rule \<and> (\<not> cond_show rule \<or> conditions rule = []) \<longrightarrow>
        isFieldVisible f ans)
   \<and> (conditional f = Some rule \<and> cond_show rule \<and> conditions rule \<noteq> [] \<longrightarrow>
        isFieldVisible f ans = (\<forall>c \<in> set (conditions rule). condition_holds ans c))
   \<and> (operator c = ''equals'' \<and> cond_value c = ''yes'' \<longrightarrow>
        condition_holds ans c
          = (case ans (fieldId c) of
               None \<Rightarrow> False
             | Some (Text s) \<Rightarrow> s = ''yes''
             | Some (Choices xs) \<Rightarrow> ''yes'' \<in> set xs
             | Some (Other s) \<Rightarrow> s = ''yes''))
   \<and> (\<not> isFieldVisible f ans \<longrightarrow> validate_field p ans errs f = errs)
   \<and> validateFormAnswers p fs ans
        = validateFormAnswers p (filter (\<lambda>g. isFieldVisible g ans) fs) ans
   \<and> (\<forall>k. k \<in> fst ` set (errors (validateFormAnswers p fs ans)) \<longrightarrow>
          (\<exists>g \<in> set fs. field_id g = k \<and> isFieldVisible g ans))
   \<and> (f \<in> set fs \<and> isFieldVisible f ans \<and> required f \<and> field_id f \<noteq> ''__proto__''
        \<and> (ans (field_id f) = Some (Text []) \<or> ans (field_id f) = Some (Choices [])
             \<or> (ans (field_id f) = None \<and> \<not> inherited_name (field_id f))) \<longrightarrow>
        \<not> isValid (validateFormAnswers p fs ans)
        \<and> (\<exists>msg. map_of (errors (validateFormAnswers p fs ans)) (field_id f) = Some msg))
   \<and> (ans (field_id f) = None \<and> inherited_name (field_id f)
        \<and> field_type f \<notin> {''email'', ''url'', ''phone''} \<longrightarrow>
        validate_field p ans errs f = errs)"
proof -
  have vis0: "conditional f = None \<longrightarrow> isFieldVisible f ans"
    by (simp add: isFieldVisible_def)
  have vis1: "conditional f = Some rule \<and> (\<not> cond_show rule \<or> conditions rule = []) \<longrightarrow>
        isFieldVisible f ans"
    by (auto simp: isFieldVisible_def)
  have vis: "conditional f = Some rule \<and> cond_show rule \<and> conditions rule \<noteq> [] \<longrightarrow>
      isFieldVisible f ans = (\<forall>c \<in> set (conditions rule). condition_holds ans c)"
    by (simp add: isFieldVisible_def list_all_iff)
  have eq: "operator c = ''equals'' \<and> cond_value c = ''yes'' \<longrightarrow>
        condition_holds ans c
          = (case ans (fieldId c) of
               None \<Rightarrow> False
             | Some (Text s) \<Rightarrow> s = ''yes''
             | Some (Choices xs) \<Rightarrow> ''yes'' \<in> set xs
             | Some (Other s) \<Rightarrow> s = ''yes'')"
    using equals_yes_iff by blast
  have skip: "\<not> isFieldVisible f ans \<longrightarrow> validate_field p ans errs f = errs"
    by (simp add: validate_field_invisible)
  have only: "validateFormAnswers p fs ans
        = validateFormAnswers p (filter (\<lambda>g. isFieldVisible g ans) fs) ans"
    unfolding validateFormAnswers_def
    using validate_fields_visible_only [of p ans "[]" fs] by simp
  have owner: "\<forall>k. k \<in> fst ` set (errors (validateFormAnswers p fs ans)) \<longrightarrow>
          (\<exists>g \<in> set fs. field_id g = k \<and> isFieldVisible g ans)"
  proof (intro allI impI)
    fix k
    assume "k \<in> fst ` set (errors (validateFormAnswers p fs ans))"
    then have "k \<in> fst ` set (foldl (validate_field p ans) [] fs)"
      by (simp add: validateFormAnswers_def Let_def)
    from validate_fields_new_key [OF this]
    show "\<exists>g \<in> set fs. field_id g = k \<and> isFieldVisible g ans"
      by auto
  qed
  have req: "f \<in> set fs \<and> isFieldVisible f ans \<and> required f \<and> field_id f \<noteq> ''__proto__''
        \<and> (ans (field_id f) = Some (Text []) \<or> ans (field_id f) = Some (Choices [])
             \<or> (ans (field_id f) = None \<and> \<not> inherited_name (field_id f))) \<longrightarrow>
        \<not> isValid (validateFormAnswers p fs ans)
        \<and> (\<exists>msg. map_of (errors (validateFormAnswers p fs ans)) (field_id f) = Some msg)"
  proof
    assume a: "f \<in> set fs \<and> isFieldVisible f ans \<and> required f \<and> field_id f \<noteq> ''__proto__''
        \<and> (ans (field_id f) = Some (Text []) \<or> ans (field_id f) = Some (Choices [])
             \<or> (ans (field_id f) = None \<and> \<not> inherited_name (field_id f)))"
    then have blank: "falsy (answer_of ans (field_id f))
                        \<or> answer_of ans (field_id f) = Some (Choices [])"
      using answer_of_own [of ans "field_id f"] answer_of_absent [of ans "field_id f"]
      by (auto simp: falsy_def)
    have key: "field_id f \<in> fst ` set (foldl (validate_field p ans) [] fs)"
      using a blank validate_fields_required_blank [of f fs ans p "[]"] by blast
    then have ne: "foldl (validate_field p ans) [] fs \<noteq> []"
      by auto
    from key have "map_of (foldl (validate_field p ans) [] fs) (field_id f) \<noteq> None"
      by (simp add: map_of_eq_None_iff)
    with ne show "\<not> isValid (validateFormAnswers p fs ans)
        \<and> (\<exists>msg. map_of (errors (validateFormAnswers p fs ans)) (field_id f) = Some msg)"
      by (auto simp: validateFormAnswers_def Let_def)
  qed
  have inh: "ans (field_id f) = None \<and> inherited_name (field_id f)
        \<and> field_type f \<notin> {''email'', ''url'', ''phone''} \<longrightarrow>
        validate_field p ans errs f = errs"
    using validate_field_inherited_passes [of ans f p errs] by blast
  from vis0 vis1 vis eq skip only owner req inh show ?thesis
    by blast
qed

text \<open>
  The scenario of the specification: F2 is required and shown when F1 equals "yes". With
  F1 = "yes" and no answer for F2 the form is invalid with the error under F2; with
  F1 = "no" the same empty F2 does not block validity.
\<close>

theorem conditional_visibility_and_validation_witness:
  "validateFormAnswers (\<lambda>u. True)
        [\<lparr>field_id = ''F1'', field_type = ''short_text'', required = False, conditional = None\<rparr>,
         \<lparr>field_id = ''F2'', field_type = ''short_text'', required = True,
          conditional = Some \<lparr>cond_show = True,
            conditions = [\<lparr>fieldId = ''F1'', operator = ''equals'', cond_value = ''yes''\<rparr>]\<rparr>\<rparr>]
        [''F1'' \<mapsto> Text ''yes'']
     = \<lparr>isValid = False, errors = [(''F2'', ''This field is required'')]\<rparr>
   \<and> validateFormAnswers (\<lambda>u. True)
        [\<lparr>field_id = ''F1'', field_type = ''short_text'', required = False, conditional = None\<rparr>,
         \<lparr>field_id = ''F2'', field_type = ''short_text'', required = True,
          conditional = Some \<lparr>cond_show = True,
            conditions = [\<lparr>fieldId = ''F1'', operator = ''equals'', cond_value = ''yes''\<rparr>]\<rparr>\<rparr>]
        [''F1'' \<mapsto> Text ''no'']
     = \<lparr>isValid = True, errors = []\<rparr>"
  using conditional_visibility_and_validation
    [where f = "\<lparr>field_id = ''F2'', field_type = ''short_text'', required = True,
          conditional = Some \<lparr>cond_show = True,
            conditions = [\<lparr>fieldId = ''F1'', operator = ''equals'', cond_value = ''yes''\<rparr>]\<rparr>\<rparr>"
       and rule = "\<lparr>cond_show = True,
            conditions = [\<lparr>fieldId = ''F1'', operator = ''equals'', cond_value = ''yes''\<rparr>]\<rparr>"
       and ans = "[''F1'' \<mapsto> Text ''yes'']"
       and c = "\<lparr>fieldId = ''F1'', operator = ''equals'', cond_value = ''yes''\<rparr>"
       and p = "\<lambda>u. True" and errs = "[]"
       and fs = "[\<lparr>field_id = ''F1'', field_type = ''short_text'', required = False, conditional = None\<rparr>,
         \<lparr>field_id = ''F2'', field_type = ''short_text'', required = True,
          conditional = Some \<lparr>cond_show = True,
            conditions = [\<lparr>fieldId = ''F1'', operator = ''equals'', cond_value = ''yes''\<rparr>]\<rparr>\<rparr>]"]
  by (simp add: validateFormAnswers_def validate_field_def isFieldVisible_def
        condition_holds_def String_or_empty_def falsy_def to_String_def Let_def
        answer_of_def inherited_def Object_prototype_methods_def set_error_def)
section \<open>Scope keys are cut to 180 characters\<close>







section \<open>The honeypot\<close>

text \<open>
  C10. When the honeypot field is non-empty, submitting returns at once: the form state
  is what it was (no field errors set, no brief shown, no payment initiated, nothing
  entered is changed) and no call is made, neither a booking submission nor a payment
  initiation.
\<close>

theorem honeypot_silent_noop:
  "honeypot st \<noteq> [] \<longrightarrow> handleSubmit props st = (st, [])"
  by (simp add: handleSubmit_def)

text \<open>
  The filled-in form of a free event submits the booking when the honeypot is empty, and
  does nothing when a bot has filled it, even with a name missing.
\<close>

theorem honeypot_silent_noop_witness:
  "handleSubmit free_event_props (filled_form\<lparr>honeypot := ''http://spam.example''\<rparr>)
     = (filled_form\<lparr>honeypot := ''http://spam.example''\<rparr>, [])
   \<and> handleSubmit free_event_props (filled_form\<lparr>name := [], honeypot := ''x''\<rparr>)
     = (filled_form\<lparr>name := [], honeypot := ''x''\<rparr>, [])
   \<and> snd (handleSubmit free_event_props filled_form)
     = [SubmitBooking
          \<lparr>guest_name = ''Jane Guest'', guest_email = ''jane@example.com'', guest_phone = None,
           guest_notes = None, payload_answers = None, payload_honeypot = [],
           payload_template = None\<rparr>]
   \<and> handleSubmit free_event_props (filled_form\<lparr>name := []\<rparr>)
     = (filled_form\<lparr>name := [], fieldErrors := [(''name'', ''Please enter your name'')]\<rparr>, [])"
proof -
  have a: "handleSubmit free_event_props (filled_form\<lparr>honeypot := ''http://spam.example''\<rparr>)
     = (filled_form\<lparr>honeypot := ''http://spam.example''\<rparr>, [])"
    using honeypot_silent_noop [of "filled_form\<lparr>honeypot := ''http://spam.example''\<rparr>" free_event_props]
    by simp
  have b: "handleSubmit free_event_props (filled_form\<lparr>name := [], honeypot := ''x''\<rparr>)
     = (filled_form\<lparr>name := [], honeypot := ''x''\<rparr>, [])"
    using honeypot_silent_noop [of "filled_form\<lparr>name := [], honeypot := ''x''\<rparr>" free_event_props]
    by simp
  have t: "trim ''Jane Guest'' = ''Jane Guest''" "trim ''jane@example.com'' = ''jane@example.com''"
    "trim [] = []"
    by (simp_all add: trim_def is_space_def char_code_def)
  have v: "isValidEmail ''jane@example.com''"
    unfolding isValidEmail_def t Let_def list_ex_iff
    by (intro bexI [where x = 4] bexI [where x = 12]) (simp_all add: dot_char_def char_code_def)
  have c: "snd (handleSubmit free_event_props filled_form)
     = [SubmitBooking
          \<lparr>guest_name = ''Jane Guest'', guest_email = ''jane@example.com'', guest_phone = None,
           guest_notes = None, payload_answers = None, payload_honeypot = [],
           payload_template = None\<rparr>]"
    by (simp add: handleSubmit_def filled_form_def free_event_props_def t v Let_def
          buildBasePayload_def submitOrStartPayment_def nonempty_or_undefined_def
          toLowerCase_def lower_char_def char_code_def)
  have d: "handleSubmit free_event_props (filled_form\<lparr>name := []\<rparr>)
     = (filled_form\<lparr>name := [], fieldErrors := [(''name'', ''Please enter your name'')]\<rparr>, [])"
    by (simp add: handleSubmit_def filled_form_def free_event_props_def t v Let_def)
  from a b c d show ?thesis by simp
qed


end
